(* ===== verification/Prelude.thy ===== *)
theory Prelude
  imports Complex_Main "HOL-Library.Multiset" "HOL-Library.Sublist"
begin

text \<open>
  Shared vocabulary of the development: the types that name the program's data
  (timestamps in milliseconds, labels, JavaScript numbers read as rationals),
  the JavaScript built-ins the hooks call (\<open>Math.round\<close>, \<open>Array.slice\<close> with a
  negative start, number-to-string conversion in template literals) and the
  JavaScript object used as a dictionary of counters
  (\<open>acc[k] = (acc[k] || 0) + 1\<close>), modelled as an insertion-ordered
  association list because \<open>Object.entries\<close> and \<open>JSON.stringify\<close> expose
  that order.  The lemmas here are the generic facts the component theories
  share.
\<close>

named_theorems js_simps "evaluation rules of the JavaScript helpers"

type_synonym timestamp = int
type_synonym label = string
type_synonym counts = "(string \<times> nat) list"

subsection \<open>JavaScript built-ins\<close>

text \<open>\<open>Math.round x\<close>: the nearest integer, halves rounded up.\<close>

definition js_round :: "rat \<Rightarrow> int" where
  "js_round x = \<lfloor>x + 1 / 2\<rfloor>"

text \<open>
  \<open>xs.slice(-n)\<close>: the last \<open>n\<close> elements, the whole array when it is shorter;
  \<open>-0\<close> is \<open>0\<close>, so \<open>slice(-0)\<close> copies the whole array.
\<close>

definition js_slice_neg :: "nat \<Rightarrow> 'a list \<Rightarrow> 'a list" where
  "js_slice_neg n xs = (if n = 0 then xs else drop (length xs - n) xs)"

text \<open>Decimal digits of a number, as a template literal prints an integer.\<close>

fun nat_str :: "nat \<Rightarrow> string" where
  "nat_str n = (if n < 10 then [char_of (48 + n)]
                else nat_str (n div 10) @ [char_of (48 + n mod 10)])"

declare nat_str.simps [simp del]

definition int_str :: "int \<Rightarrow> string" where
  "int_str i = (if i < 0 then CHR ''-'' # nat_str (nat (- i)) else nat_str (nat i))"

text \<open>Reading decimal digits back (the inverse used to show printing is injective).\<close>

definition parse_nat :: "string \<Rightarrow> nat" where
  "parse_nat s = fold (\<lambda>c n. 10 * n + (of_char c - 48)) s 0"

subsection \<open>Objects used as counters\<close>

text \<open>\<open>acc[k] = (acc[k] || 0) + 1\<close>: bump an existing key in place, append a new one.\<close>

fun counts_inc :: "string \<Rightarrow> counts \<Rightarrow> counts" where
  "counts_inc k [] = [(k, 1)]"
| "counts_inc k ((k', c) # r) =
     (if k = k' then (k', Suc c) # r else (k', c) # counts_inc k r)"

text \<open>\<open>ks.forEach(k => acc[k] = (acc[k] || 0) + 1)\<close> on an existing object.\<close>

definition counts_add :: "counts \<Rightarrow> string list \<Rightarrow> counts" where
  "counts_add c ks = fold counts_inc ks c"

text \<open>The value an object reads at a key, \<open>0\<close> where it is undefined.\<close>

definition count_at :: "counts \<Rightarrow> string \<Rightarrow> nat" where
  "count_at c k = (case map_of c k of None \<Rightarrow> 0 | Some n \<Rightarrow> n)"

subsection \<open>Lemmas on the helpers\<close>

lemma js_slice_neg_suffix [js_simps]: "suffix (js_slice_neg n xs) xs"
  by (simp add: js_slice_neg_def suffix_drop)

lemma length_js_slice_neg [js_simps]:
  "0 < n \<Longrightarrow> length (js_slice_neg n xs) = min n (length xs)"
  by (simp add: js_slice_neg_def)

lemma js_slice_neg_short [js_simps]: "length xs \<le> n \<Longrightarrow> js_slice_neg n xs = xs"
  by (simp add: js_slice_neg_def)

lemma map_js_slice_neg [js_simps]: "map f (js_slice_neg n xs) = js_slice_neg n (map f xs)"
  by (simp add: js_slice_neg_def drop_map)

lemma sorted_js_slice_neg [js_simps]: "sorted xs \<Longrightarrow> sorted (js_slice_neg n xs)"
  by (simp add: js_slice_neg_def sorted_wrt_drop)

lemma js_slice_neg_append:
  assumes "0 < n"
  shows "js_slice_neg n (js_slice_neg n xs @ ys) = js_slice_neg n (xs @ ys)"
proof -
  let ?b = "length xs - n"
  have split: "drop ?b xs @ ys = drop ?b (xs @ ys)"
    by simp
  have "length (drop ?b xs @ ys) - n + ?b = length (xs @ ys) - n"
    by simp
  then have "drop (length (drop ?b xs @ ys) - n) (drop ?b (xs @ ys)) = drop (length (xs @ ys) - n) (xs @ ys)"
    by (simp only: drop_drop)
  with assms split show ?thesis by (simp add: js_slice_neg_def)
qed

lemma map_of_counts_inc [js_simps]:
  "map_of (counts_inc k c) = (map_of c)(k \<mapsto> count_at c k + 1)"
  by (induction c) (auto simp: count_at_def fun_eq_iff)

lemma count_at_counts_inc [js_simps]:
  "count_at (counts_inc k c) k' = count_at c k' + (if k' = k then 1 else 0)"
  by (simp add: count_at_def map_of_counts_inc)

lemma keys_counts_inc [js_simps]: "fst ` set (counts_inc k c) = insert k (fst ` set c)"
  by (induction k c rule: counts_inc.induct) (simp_all add: insert_commute)

lemma distinct_counts_inc [js_simps]:
  "distinct (map fst c) \<Longrightarrow> distinct (map fst (counts_inc k c))"
  by (induction c) (auto simp: keys_counts_inc)

lemma count_at_counts_add [js_simps]:
  "count_at (counts_add c ks) k = count_at c k + count_list ks k"
  by (induction ks arbitrary: c) (simp_all add: counts_add_def count_at_counts_inc)

lemma keys_counts_add [js_simps]:
  "fst ` set (counts_add c ks) = fst ` set c \<union> set ks"
  by (induction ks arbitrary: c) (auto simp: counts_add_def keys_counts_inc)

lemma distinct_counts_add [js_simps]:
  "distinct (map fst c) \<Longrightarrow> distinct (map fst (counts_add c ks))"
  by (induction ks arbitrary: c) (simp_all add: counts_add_def distinct_counts_inc)

lemma parse_nat_snoc: "parse_nat (xs @ [c]) = 10 * parse_nat xs + (of_char c - 48)"
  by (simp add: parse_nat_def)

lemma of_char_digit: "d < 10 \<Longrightarrow> (of_char (char_of (48 + d) :: char) :: nat) = 48 + d"
  by (simp add: of_char_of)

lemma parse_nat_str: "parse_nat (nat_str n) = n"
proof (induction n rule: nat_str.induct)
  case (1 n)
  show ?case
  proof (cases "n < 10")
    case True
    then show ?thesis
      by (simp add: nat_str.simps [of n] parse_nat_def of_char_digit)
  next
    case False
    then have "parse_nat (nat_str (n div 10)) = n div 10" using "1.IH" by simp
    with False show ?thesis
      by (simp add: nat_str.simps [of n] parse_nat_snoc of_char_digit)
  qed
qed

lemma nat_str_inj: "nat_str n = nat_str m \<longleftrightarrow> n = m"
  by (metis parse_nat_str)

lemma nat_str_digits: "c \<in> set (nat_str n) \<Longrightarrow> 48 \<le> (of_char c :: nat) \<and> (of_char c :: nat) < 58"
proof (induction n rule: nat_str.induct)
  case (1 n)
  then show ?case
    by (cases "n < 10") (auto simp: nat_str.simps [of n] of_char_digit)
qed

lemma nat_str_nonempty: "nat_str n \<noteq> []"
  by (simp add: nat_str.simps [of n])

lemma int_str_inj: "int_str i = int_str j \<longleftrightarrow> i = j"
proof
  assume eq: "int_str i = int_str j"
  have no_minus: "hd (nat_str n) \<noteq> CHR ''-''" for n
  proof -
    have "hd (nat_str n) \<in> set (nat_str n)" by (simp add: nat_str_nonempty)
    then have "48 \<le> (of_char (hd (nat_str n)) :: nat)" by (blast dest: nat_str_digits)
    then show ?thesis by auto
  qed
  show "i = j"
  proof (cases "i < 0"; cases "j < 0")
    assume "i < 0" "j < 0"
    with eq show ?thesis by (simp add: int_str_def nat_str_inj)
  next
    assume "\<not> i < 0" "\<not> j < 0"
    with eq show ?thesis by (simp add: int_str_def nat_str_inj)
  next
    assume "i < 0" "\<not> j < 0"
    with eq no_minus [of "nat j"] show ?thesis by (simp add: int_str_def) (metis list.sel(1))
  next
    assume "\<not> i < 0" "j < 0"
    with eq no_minus [of "nat i"] show ?thesis by (simp add: int_str_def)
  qed
qed simp

lemma counts_add_append:
  "counts_add c (xs @ ys) = counts_add (counts_add c xs) ys"
  by (simp add: counts_add_def)

lemma counts_add_Nil [simp]: "counts_add c [] = c"
  by (simp add: counts_add_def)

lemma count_at_Nil [simp]: "count_at [] k = 0"
  by (simp add: count_at_def)

end
