(* ===== verification/ObjectDetection.thy ===== *)
theory ObjectDetection
  imports Prelude
begin

text \<open>
  The object-detection hook \<open>useObjectDetection\<close>
  (src/hooks/useObjectDetection.ts): the History Buffer (\<open>detectionHistoryRef\<close>,
  capped at 1000 by \<open>slice(-1000)\<close>), the per-class counters \<open>stats\<close>, the
  start/stop operations, the asynchronous detection tick and the summary and
  export it offers.  React state and refs are one record; each operation returns
  the new record.  The tick is split in two events, as the code is: the call of
  \<open>detect()\<close> (by \<open>startDetection\<close> or by the interval timer) starts an
  asynchronous \<open>model.detect\<close>, and its continuation runs later, with the
  values the \<open>detect\<close> closure captured when \<open>startDetection\<close> created it.
  The only such value that matters is \<open>stats\<close>: the closure reads the \<open>stats\<close>
  of the render that started the session, not the current counters.
\<close>

type_synonym bbox = "rat \<times> rat \<times> rat \<times> rat"

text \<open>A prediction of the COCO-SSD model: \<open>{class, score, bbox}\<close>.\<close>

record prediction =
  pclass :: string
  pscore :: rat
  pbbox :: bbox

text \<open>\<open>interface Detection\<close> (lines 5--10).\<close>

record detection =
  det_class :: string
  det_score :: rat
  det_bbox :: bbox
  det_timestamp :: timestamp

text \<open>
  The hook's state.  \<open>obj_model\<close> is \<open>model !== null\<close>; \<open>obj_interval\<close> is
  \<open>detectionIntervalRef.current !== null\<close>; \<open>obj_closure_stats\<close> is the
  \<open>stats\<close> value the current \<open>detect\<close> closure captured; \<open>obj_inflight\<close>
  lists, for each \<open>detect()\<close> call whose \<open>await model.detect\<close> has not yet
  returned, the \<open>stats\<close> value of the closure that made the call.
\<close>

record obj_hook =
  obj_model :: bool
  obj_is_loading :: bool
  obj_detections :: "detection list"
  obj_stats :: counts
  obj_is_detecting :: bool
  obj_history :: "detection list"
  obj_interval :: bool
  obj_closure_stats :: counts
  obj_inflight :: "counts list"

definition obj_init :: obj_hook where
  "obj_init = \<lparr>obj_model = False, obj_is_loading = True, obj_detections = [],
     obj_stats = [], obj_is_detecting = False, obj_history = [], obj_interval = False,
     obj_closure_stats = [], obj_inflight = []\<rparr>"

subsection \<open>Model loading (the mount effect, lines 26--38)\<close>

definition load_model_ok :: "obj_hook \<Rightarrow> obj_hook" where
  "load_model_ok s = s\<lparr>obj_model := True, obj_is_loading := False\<rparr>"

definition load_model_failed :: "obj_hook \<Rightarrow> obj_hook" where
  "load_model_failed s = s\<lparr>obj_is_loading := False\<rparr>"

subsection \<open>The History Buffer and the detection tick (lines 51--85)\<close>

definition mk_detections :: "prediction list \<Rightarrow> timestamp \<Rightarrow> detection list" where
  "mk_detections preds t =
     map (\<lambda>p. \<lparr>det_class = pclass p, det_score = pscore p, det_bbox = pbbox p,
               det_timestamp = t\<rparr>) preds"

definition history_cap :: nat where
  "history_cap = 1000"

text \<open>\<open>history = [...history, ...newDetections]\<close>, then \<open>slice(-1000)\<close> past the cap.\<close>

definition history_append :: "detection list \<Rightarrow> detection list \<Rightarrow> detection list" where
  "history_append h new =
     (let h' = h @ new in if length h' > history_cap then js_slice_neg history_cap h' else h')"

text \<open>
  \<open>startDetection\<close> (lines 41--90): ignored without a model or while detecting;
  otherwise it sets the flag, clears the history and the counters, installs the
  interval and calls \<open>detect()\<close> once, which starts one \<open>model.detect\<close>.  The
  new closure captures the \<open>stats\<close> of the render that called it.
\<close>

definition start_detection :: "obj_hook \<Rightarrow> obj_hook" where
  "start_detection s =
     (if \<not> obj_model s \<or> obj_is_detecting s then s
      else s\<lparr>obj_is_detecting := True, obj_history := [], obj_stats := [],
             obj_interval := True, obj_closure_stats := obj_stats s,
             obj_inflight := obj_inflight s @ [obj_stats s]\<rparr>)"

text \<open>The interval timer calls \<open>detect()\<close> of the installed closure.\<close>

definition interval_fires :: "obj_hook \<Rightarrow> obj_hook" where
  "interval_fires s =
     (if obj_interval s then s\<lparr>obj_inflight := obj_inflight s @ [obj_closure_stats s]\<rparr> else s)"

definition remove_nth :: "nat \<Rightarrow> 'a list \<Rightarrow> 'a list" where
  "remove_nth i xs = take i xs @ drop (Suc i) xs"

text \<open>
  The continuation of the \<open>i\<close>-th pending call once \<open>model.detect\<close> resolved
  with \<open>preds\<close> and \<open>Date.now()\<close> read \<open>t\<close>: append to the history, cap it,
  recount from the captured \<open>stats\<close>, publish.  Nothing checks that the
  session is still running.
\<close>

definition detect_resolved ::
  "nat \<Rightarrow> prediction list \<Rightarrow> timestamp \<Rightarrow> obj_hook \<Rightarrow> obj_hook" where
  "detect_resolved i preds t s =
     (if length (obj_inflight s) \<le> i then s
      else let nd = mk_detections preds t;
               captured = obj_inflight s ! i
           in s\<lparr>obj_history := history_append (obj_history s) nd,
                obj_detections := nd,
                obj_stats := counts_add captured (map det_class nd),
                obj_inflight := remove_nth i (obj_inflight s)\<rparr>)"

text \<open>A rejected \<open>model.detect\<close>: the \<open>catch\<close> logs and drops the tick.\<close>

definition detect_rejected :: "nat \<Rightarrow> obj_hook \<Rightarrow> obj_hook" where
  "detect_rejected i s =
     (if length (obj_inflight s) \<le> i then s
      else s\<lparr>obj_inflight := remove_nth i (obj_inflight s)\<rparr>)"

text \<open>\<open>stopDetection\<close> (lines 93--99): clear the interval, drop the flag.\<close>

definition stop_detection :: "obj_hook \<Rightarrow> obj_hook" where
  "stop_detection s = s\<lparr>obj_interval := False, obj_is_detecting := False\<rparr>"

subsection \<open>Summary and export (lines 102--151)\<close>

text \<open>
  One timeline row.  \<open>toLocaleTimeString\<close> depends on the locale; the row keeps
  the timestamp it formats.
\<close>

record timeline_entry =
  te_time :: timestamp
  te_object :: string
  te_confidence :: int

record obj_summary =
  sum_total :: nat
  sum_counts :: counts
  sum_timeline :: "timeline_entry list"
  sum_time_range :: string
  sum_duration :: string

text \<open>\<open>if (timeRangeMinutes)\<close> filters: \<open>undefined\<close> and \<open>0\<close> are falsy.\<close>

definition window_filter :: "int option \<Rightarrow> timestamp \<Rightarrow> detection list \<Rightarrow> detection list" where
  "window_filter w now h =
     (case w of Some m \<Rightarrow> if m \<noteq> 0 then filter (\<lambda>d. now - m * 60 * 1000 \<le> det_timestamp d) h else h
              | None \<Rightarrow> h)"

definition to_timeline :: "detection \<Rightarrow> timeline_entry" where
  "to_timeline d = \<lparr>te_time = det_timestamp d, te_object = det_class d,
                    te_confidence = js_round (det_score d * 100)\<rparr>"

text \<open>\<open>Math.round((Date.now() - history[0].timestamp) / 60000)\<close>, over the whole buffer.\<close>

definition duration_minutes :: "timestamp \<Rightarrow> detection list \<Rightarrow> int" where
  "duration_minutes now h =
     (case h of [] \<Rightarrow> 0 | d # _ \<Rightarrow> js_round (of_int (now - det_timestamp d) / 60000))"

definition get_detection_summary :: "obj_hook \<Rightarrow> timestamp \<Rightarrow> int option \<Rightarrow> obj_summary" where
  "get_detection_summary s now w =
     (let h = obj_history s; f = window_filter w now h
      in \<lparr>sum_total = length f,
          sum_counts = counts_add [] (map det_class f),
          sum_timeline = js_slice_neg 50 (map to_timeline f),
          sum_time_range = (case w of Some m \<Rightarrow> if m \<noteq> 0 then int_str m @ '' minutes''
                                                 else ''entire session''
                                     | None \<Rightarrow> ''entire session''),
          sum_duration = (if h = [] then ''0 minutes''
                          else int_str (duration_minutes now h) @ '' minutes'')\<rparr>)"

text \<open>
  \<open>exportSession\<close>: the document it serialises (the Blob and the download link
  are browser effects).  It has no failure path.
\<close>

record obj_export =
  exp_detections :: "detection list"
  exp_stats :: counts
  exp_summary :: obj_summary

definition export_session :: "obj_hook \<Rightarrow> timestamp \<Rightarrow> obj_export" where
  "export_session s now =
     \<lparr>exp_detections = obj_history s, exp_stats = obj_stats s,
      exp_summary = get_detection_summary s now None\<rparr>"

subsection \<open>Events and runs\<close>

datatype obj_event =
    ModelLoaded
  | ModelLoadFailed
  | StartDetection
  | StopDetection
  | IntervalFires
  | DetectResolved nat "prediction list" timestamp
  | DetectRejected nat

fun obj_step :: "obj_hook \<Rightarrow> obj_event \<Rightarrow> obj_hook" where
  "obj_step s ModelLoaded = load_model_ok s"
| "obj_step s ModelLoadFailed = load_model_failed s"
| "obj_step s StartDetection = start_detection s"
| "obj_step s StopDetection = stop_detection s"
| "obj_step s IntervalFires = interval_fires s"
| "obj_step s (DetectResolved i preds t) = detect_resolved i preds t s"
| "obj_step s (DetectRejected i) = detect_rejected i s"

definition obj_run :: "obj_hook \<Rightarrow> obj_event list \<Rightarrow> obj_hook" where
  "obj_run s es = fold (\<lambda>e s. obj_step s e) es s"

subsection \<open>The hook invariant and the clock of a run\<close>

text \<open>
  What every reachable hook state satisfies: the History Buffer is within its
  cap and every counter object (the published one, the one the closure holds,
  those of pending calls) has distinct keys, as a JavaScript object has.
\<close>

definition obj_inv :: "obj_hook \<Rightarrow> bool" where
  "obj_inv s \<longleftrightarrow> length (obj_history s) \<le> history_cap
     \<and> distinct (map fst (obj_stats s)) \<and> distinct (map fst (obj_closure_stats s))
     \<and> list_all (\<lambda>c. distinct (map fst c)) (obj_inflight s)"

text \<open>The \<open>Date.now()\<close> readings of the resolved detection calls of a run, in order.\<close>

fun resolved_times :: "obj_event list \<Rightarrow> timestamp list" where
  "resolved_times [] = []"
| "resolved_times (DetectResolved i preds t # es) = t # resolved_times es"
| "resolved_times (e # es) = resolved_times es"

text \<open>How many events of a run change what the hook publishes (its History
  Buffer, its counters or its current detections).\<close>

fun obj_changes :: "obj_hook \<Rightarrow> obj_event list \<Rightarrow> nat" where
  "obj_changes s [] = 0"
| "obj_changes s (e # es) =
     (if (obj_history (obj_step s e), obj_stats (obj_step s e), obj_detections (obj_step s e))
         = (obj_history s, obj_stats s, obj_detections s) then 0 else 1) + obj_changes (obj_step s e) es"

subsection \<open>Lemmas: History Buffer\<close>


lemma history_append_slice: "history_append h new = js_slice_neg history_cap (h @ new)"
  by (simp add: history_append_def Let_def js_slice_neg_def history_cap_def)

lemma length_history_append:
  "length (history_append h new) = min (length h + length new) history_cap"
  by (simp add: history_append_slice length_js_slice_neg history_cap_def)

lemma history_append_bounded: "length (history_append h new) \<le> history_cap"
  by (simp add: length_history_append)

lemma history_append_of_slice:
  "history_append (js_slice_neg history_cap xs) ys = js_slice_neg history_cap (xs @ ys)"
  by (simp add: history_append_slice js_slice_neg_append history_cap_def)

text \<open>C1: The History Buffer fed batch after batch (each tick appends its batch and cuts the array back with slice(-1000)) holds exactly the last min(N, 1000) of the N detections appended, in arrival order: the incremental eviction equals taking the suffix of everything ever appended.\<close>

theorem history_buffer_keeps_recent:
  "fold (\<lambda>b h. history_append h b) bs [] = drop (length (concat bs) - 1000) (concat bs)
   \<and> length (fold (\<lambda>b h. history_append h b) bs []) = min (length (concat bs)) 1000"
proof -
  have gen: "fold (\<lambda>b h. history_append h b) bs (js_slice_neg history_cap xs)
             = js_slice_neg history_cap (xs @ concat bs)" for xs
  proof (induction bs arbitrary: xs)
    case Nil
    then show ?case by simp
  next
    case (Cons b bs)
    then show ?case by (simp add: history_append_of_slice)
  qed
  have "js_slice_neg history_cap ([] :: detection list) = []"
    by (simp add: js_slice_neg_def)
  with gen [of "[]"] have "fold (\<lambda>b h. history_append h b) bs [] = js_slice_neg history_cap (concat bs)"
    by simp
  then show ?thesis by (simp add: js_slice_neg_def history_cap_def)
qed

subsection \<open>Lemmas: the detection tick and the stale counters\<close>

lemma mk_detections_classes [simp]: "map det_class (mk_detections preds t) = map pclass preds"
  by (simp add: mk_detections_def comp_def)

lemma mk_detections_time_list: "map det_timestamp (mk_detections preds t) = replicate (length preds) t"
  by (simp add: mk_detections_def map_replicate_const comp_def)

lemma mk_detections_times: "d \<in> set (mk_detections preds t) \<Longrightarrow> det_timestamp d = t"
  by (auto simp: mk_detections_def)

lemma length_remove_nth: "i < length xs \<Longrightarrow> length (remove_nth i xs) = length xs - 1"
  by (simp add: remove_nth_def)

lemma set_remove_nth: "set (remove_nth i xs) \<subseteq> set xs"
  by (auto simp: remove_nth_def dest: in_set_takeD in_set_dropD)

text \<open>When a pending detection call resolves, the published counters are the counters its closure captured plus the classes of this one batch.\<close>

theorem detect_resolved_stats_stale:
  assumes "i < length (obj_inflight s)"
  shows "obj_stats (detect_resolved i preds t s) = counts_add (obj_inflight s ! i) (map pclass preds)"
  using assms by (simp add: detect_resolved_def Let_def)

theorem detect_resolved_stats_stale_witness:
  "0 < length (obj_inflight (obj_init\<lparr>obj_inflight := [[(''car'', 1)]]\<rparr>))
   \<and> obj_stats (detect_resolved 0 [\<lparr>pclass = ''person'', pscore = 7 / 10, pbbox = (5, 5, 10, 10)\<rparr>] 2000 (obj_init\<lparr>obj_inflight := [[(''car'', 1)]]\<rparr>))
       = [(''car'', 1), (''person'', 1)]"
  using detect_resolved_stats_stale [of 0 "obj_init\<lparr>obj_inflight := [[(''car'', 1)]]\<rparr>" "[\<lparr>pclass = ''person'', pscore = 7 / 10, pbbox = (5, 5, 10, 10)\<rparr>]" 2000]
  by (simp add: obj_init_def counts_add_def)

lemma history_append_short:
  "length h + length new \<le> 1000 \<Longrightarrow> history_append h new = h @ new"
  by (simp add: history_append_def history_cap_def)

lemma counts_add_Nil_iff: "counts_add [] ks = [] \<longleftrightarrow> ks = []"
  using keys_counts_add [of "[]" ks] by auto

text \<open>A session of two ticks: Start, the first call resolving with A at
  \<open>t1\<close>, the timer's call, its resolution with B at \<open>t2\<close>.\<close>

lemma obj_two_ticks:
  assumes "obj_model s" and "\<not> obj_is_detecting s" and "obj_inflight s = []"
    and "length A + length B \<le> 1000"
  shows "detect_resolved 0 B t2 (interval_fires (detect_resolved 0 A t1 (start_detection s)))
       = s\<lparr>obj_detections := mk_detections B t2, obj_stats := counts_add (obj_stats s) (map pclass B),
           obj_is_detecting := True, obj_history := mk_detections A t1 @ mk_detections B t2,
           obj_interval := True, obj_closure_stats := obj_stats s, obj_inflight := []\<rparr>"
  using assms
  by (simp add: start_detection_def detect_resolved_def interval_fires_def remove_nth_def
      history_append_short mk_detections_def comp_def Let_def)

text \<open>C3: Within one session the counters do not accumulate across ticks: after Start, a tick that resolves with batch A, the next timer tick and its resolution with batch B, the published counters are the counters from before Start plus the classes of B alone, while the History Buffer holds the detections of A followed by those of B (when together they fit in 1000).\<close>

theorem ticks_do_not_accumulate:
  assumes "obj_model s" and "\<not> obj_is_detecting s" and "obj_inflight s = []"
    and "length A + length B \<le> 1000"
  shows "let h = detect_resolved 0 B t2 (interval_fires (detect_resolved 0 A t1 (start_detection s)))
         in obj_stats h = counts_add (obj_stats s) (map pclass B)
          \<and> map det_class (obj_history h) = map pclass A @ map pclass B"
  using assms by (simp add: obj_two_ticks)

theorem ticks_do_not_accumulate_witness:
  "let s = obj_init\<lparr>obj_model := True\<rparr>;
       A = [\<lparr>pclass = ''car'', pscore = 9 / 10, pbbox = (0, 0, 10, 10)\<rparr>];
       B = [\<lparr>pclass = ''person'', pscore = 7 / 10, pbbox = (5, 5, 10, 10)\<rparr>];
       h = detect_resolved 0 B 2000 (interval_fires (detect_resolved 0 A 1000 (start_detection s)))
   in obj_model s \<and> \<not> obj_is_detecting s \<and> obj_inflight s = [] \<and> length A + length B \<le> 1000
    \<and> obj_stats h = [(''person'', 1)] \<and> map det_class (obj_history h) = [''car'', ''person'']"
  using ticks_do_not_accumulate [of "obj_init\<lparr>obj_model := True\<rparr>"
      "[\<lparr>pclass = ''car'', pscore = 9 / 10, pbbox = (0, 0, 10, 10)\<rparr>]"
      "[\<lparr>pclass = ''person'', pscore = 7 / 10, pbbox = (5, 5, 10, 10)\<rparr>]" 2000 1000]
  by (simp add: obj_init_def counts_add_def)

subsection \<open>Lemmas: the invariant of reachable states\<close>

lemma obj_inv_init: "obj_inv obj_init"
  by (simp add: obj_inv_def obj_init_def)

lemma list_all_remove_nth: "list_all P xs \<Longrightarrow> list_all P (remove_nth i xs)"
  using set_remove_nth by (fastforce simp: list_all_iff)

lemma obj_step_inv:
  assumes inv: "obj_inv s"
  shows "obj_inv (obj_step s e)"
proof (cases e)
  case (DetectResolved i preds t)
  show ?thesis
  proof (cases "i < length (obj_inflight s)")
    case True
    with inv have "distinct (map fst (obj_inflight s ! i))"
      by (simp add: obj_inv_def list_all_length)
    with inv True DetectResolved show ?thesis
      by (simp add: obj_inv_def detect_resolved_def Let_def history_append_bounded
          distinct_counts_add list_all_remove_nth)
  next
    case False
    with inv DetectResolved show ?thesis by (simp add: detect_resolved_def)
  qed
next
  case (DetectRejected i)
  with inv show ?thesis
    by (simp add: obj_inv_def detect_rejected_def list_all_remove_nth)
qed (use inv in \<open>auto simp: obj_inv_def load_model_ok_def load_model_failed_def
        start_detection_def stop_detection_def interval_fires_def\<close>)

lemma obj_run_inv: "obj_inv s \<Longrightarrow> obj_inv (obj_run s es)"
  by (induction es arbitrary: s) (simp_all add: obj_run_def obj_step_inv)

text \<open>In every hook state reachable from the initial one by any interleaving of model loading, start, stop, timer ticks and resolved or rejected detection calls, the History Buffer holds at most 1000 detections and every counter object has distinct keys.\<close>

theorem obj_reachable_inv: "obj_inv (obj_run obj_init es)"
  by (rule obj_run_inv [OF obj_inv_init])

subsection \<open>Lemmas: summaries\<close>

lemma count_at_counts_of: "count_at (counts_add [] ks) k = count_list ks k"
  by (simp add: count_at_counts_add)

lemma window_filter_subset: "set (window_filter w now h) \<subseteq> set h"
  by (auto simp: window_filter_def split: option.splits)

lemma window_filter_sublist: "subseq (window_filter w now h) h"
  by (auto simp: window_filter_def split: option.splits)

lemma count_list_map_filter_le:
  "count_list (map f (filter P xs)) k \<le> count_list (map f xs) k"
  by (induction xs) auto

text \<open>A windowed summary is consistent with the unwindowed one: for every class its count is at most the unwindowed count, the unwindowed count is the number of detections of that class in the History Buffer, and the windowed total is at most the unwindowed total.\<close>

theorem summary_window_consistent:
  "count_at (sum_counts (get_detection_summary s now w)) k
     \<le> count_at (sum_counts (get_detection_summary s now None)) k
   \<and> count_at (sum_counts (get_detection_summary s now None)) k
     = count_list (map det_class (obj_history s)) k
   \<and> sum_total (get_detection_summary s now w) \<le> sum_total (get_detection_summary s now None)"
  by (auto simp: get_detection_summary_def Let_def count_at_counts_of window_filter_def
      count_list_map_filter_le split: option.splits)

text \<open>C7: When the window reaches back past every buffered detection, the windowed summary has the same counts, timeline and total as the unwindowed summary.\<close>

theorem summary_window_converges:
  assumes "\<forall>d \<in> set (obj_history s). now - m * 60 * 1000 \<le> det_timestamp d"
  shows "sum_counts (get_detection_summary s now (Some m)) = sum_counts (get_detection_summary s now None)
       \<and> sum_timeline (get_detection_summary s now (Some m)) = sum_timeline (get_detection_summary s now None)
       \<and> sum_total (get_detection_summary s now (Some m)) = sum_total (get_detection_summary s now None)"
  using assms by (simp add: get_detection_summary_def Let_def window_filter_def)

theorem summary_window_converges_witness:
  "sum_counts (get_detection_summary (obj_init\<lparr>obj_history := [\<lparr>det_class = ''car'', det_score = 9 / 10, det_bbox = (0, 0, 10, 10), det_timestamp = 1000\<rparr>]\<rparr>) 2000 (Some 1))
       = sum_counts (get_detection_summary (obj_init\<lparr>obj_history := [\<lparr>det_class = ''car'', det_score = 9 / 10, det_bbox = (0, 0, 10, 10), det_timestamp = 1000\<rparr>]\<rparr>) 2000 None)"
  using summary_window_converges [of "obj_init\<lparr>obj_history := [\<lparr>det_class = ''car'', det_score = 9 / 10, det_bbox = (0, 0, 10, 10), det_timestamp = 1000\<rparr>]\<rparr>" 2000 1]
  by (simp add: obj_init_def)

text \<open>C8: The summary timeline has min(50, total) rows and they are the most recent rows of the (windowed) history, in order.\<close>

theorem summary_timeline_recent:
  "length (sum_timeline (get_detection_summary s now w)) = min 50 (sum_total (get_detection_summary s now w))
   \<and> suffix (sum_timeline (get_detection_summary s now w))
            (map to_timeline (window_filter w now (obj_history s)))"
  by (simp add: get_detection_summary_def Let_def length_js_slice_neg js_slice_neg_suffix)

lemma summary_duration_empty:
  "obj_history s = [] \<Longrightarrow> sum_duration (get_detection_summary s now w) = ''0 minutes''"
  by (simp add: get_detection_summary_def Let_def)

subsection \<open>Lemmas: start, stop and export\<close>

text \<open>Stopping is idempotent, leaves the hook not detecting, and after it the interval no longer starts detection calls.\<close>

theorem stop_detection_idempotent:
  "stop_detection (stop_detection s) = stop_detection s
   \<and> \<not> obj_is_detecting (stop_detection s)
   \<and> interval_fires (stop_detection s) = stop_detection s"
  by (simp add: stop_detection_def interval_fires_def)

text \<open>C10: A detection call still pending when the session is stopped is applied anyway when it resolves: its batch is appended to the History Buffer of the stopped hook.\<close>

theorem stop_keeps_inflight_ticks:
  assumes "i < length (obj_inflight s)"
  shows "obj_history (detect_resolved i preds t (stop_detection s))
           = history_append (obj_history s) (mk_detections preds t)
       \<and> \<not> obj_is_detecting (detect_resolved i preds t (stop_detection s))"
  using assms by (simp add: detect_resolved_def stop_detection_def Let_def)

theorem stop_keeps_inflight_ticks_witness:
  "0 < length (obj_inflight (obj_init\<lparr>obj_inflight := [[]]\<rparr>))
   \<and> obj_history (detect_resolved 0 [\<lparr>pclass = ''person'', pscore = 7 / 10, pbbox = (5, 5, 10, 10)\<rparr>] 3000 (stop_detection (obj_init\<lparr>obj_inflight := [[]]\<rparr>)))
       = [\<lparr>det_class = ''person'', det_score = 7 / 10, det_bbox = (5, 5, 10, 10), det_timestamp = 3000\<rparr>]"
  using stop_keeps_inflight_ticks [of 0 "obj_init\<lparr>obj_inflight := [[]]\<rparr>" "[\<lparr>pclass = ''person'', pscore = 7 / 10, pbbox = (5, 5, 10, 10)\<rparr>]" 3000]
  by (simp add: obj_init_def history_append_def mk_detections_def history_cap_def)

lemma obj_step_stopped:
  assumes "\<not> obj_interval s" and "e \<noteq> StartDetection"
  shows "\<not> obj_interval (obj_step s e)
    \<and> length (obj_inflight (obj_step s e))
        + (if (obj_history (obj_step s e), obj_stats (obj_step s e), obj_detections (obj_step s e))
              = (obj_history s, obj_stats s, obj_detections s) then 0 else 1)
      \<le> length (obj_inflight s)"
  using assms
  by (cases e) (auto simp: load_model_ok_def load_model_failed_def stop_detection_def interval_fires_def
      detect_resolved_def detect_rejected_def Let_def length_remove_nth)

lemma obj_changes_stopped:
  "\<not> obj_interval s \<Longrightarrow> StartDetection \<notin> set es \<Longrightarrow> obj_changes s es \<le> length (obj_inflight s)"
proof (induction es arbitrary: s)
  case Nil
  then show ?case by simp
next
  case (Cons e es)
  then have "e \<noteq> StartDetection" and "StartDetection \<notin> set es" by auto
  with Cons.prems obj_step_stopped [of s e] Cons.IH [of "obj_step s e"] show ?case
    by (simp split: if_splits)
qed

text \<open>C11: Stopping ends the polling loop: after \<open>stopDetection\<close>, and
  until the next start, the interval issues no new detection call, so
  whatever the timers and the model do, at most as many events change the
  published history, counters or detections as calls were in flight at the
  stop.\<close>

theorem stop_ends_polling:
  assumes "StartDetection \<notin> set es"
  shows "obj_changes (stop_detection s) es \<le> length (obj_inflight s)"
proof -
  have "\<not> obj_interval (stop_detection s)" by (simp add: stop_detection_def)
  from obj_changes_stopped [OF this assms] show ?thesis by (simp add: stop_detection_def)
qed

theorem stop_ends_polling_witness:
  "obj_changes (stop_detection (obj_init\<lparr>obj_model := True, obj_is_detecting := True, obj_interval := True, obj_inflight := [[]]\<rparr>))
     [IntervalFires, DetectResolved 0 [\<lparr>pclass = ''car'', pscore = 9 / 10, pbbox = (0, 0, 4, 4)\<rparr>] 3000, IntervalFires,
      DetectResolved 0 [\<lparr>pclass = ''car'', pscore = 9 / 10, pbbox = (0, 0, 4, 4)\<rparr>] 4000]
   \<le> length (obj_inflight (obj_init\<lparr>obj_model := True, obj_is_detecting := True, obj_interval := True, obj_inflight := [[]]\<rparr>))"
  by (rule stop_ends_polling) simp

text \<open>Starting without a loaded model, or while a session is running, silently leaves the hook unchanged (no error is reported).\<close>

theorem start_detection_ignored:
  assumes "\<not> obj_model s \<or> obj_is_detecting s"
  shows "start_detection s = s"
  using assms by (auto simp: start_detection_def)

theorem start_detection_ignored_witness:
  "start_detection obj_init = obj_init"
  using start_detection_ignored [of obj_init] by (simp add: obj_init_def)

text \<open>C12: A session started after an earlier one inherits that session's last published counters: the first batch of the new session is counted on top of them, although start cleared the counters.\<close>

theorem restart_inherits_stats:
  assumes "obj_model s" and "\<not> obj_is_detecting s" and "obj_inflight s = []"
  shows "obj_stats (detect_resolved 0 preds t (start_detection s)) = counts_add (obj_stats s) (map pclass preds)"
  using assms by (simp add: start_detection_def detect_resolved_def Let_def)

theorem restart_inherits_stats_witness:
  "obj_model (obj_init\<lparr>obj_model := True, obj_stats := [(''car'', 2)]\<rparr>)
   \<and> \<not> obj_is_detecting (obj_init\<lparr>obj_model := True, obj_stats := [(''car'', 2)]\<rparr>)
   \<and> obj_inflight (obj_init\<lparr>obj_model := True, obj_stats := [(''car'', 2)]\<rparr>) = []
   \<and> obj_stats (detect_resolved 0 [\<lparr>pclass = ''person'', pscore = 7 / 10, pbbox = (5, 5, 10, 10)\<rparr>] 1000
         (start_detection (obj_init\<lparr>obj_model := True, obj_stats := [(''car'', 2)]\<rparr>)))
       = [(''car'', 2), (''person'', 1)]"
  using restart_inherits_stats [of "obj_init\<lparr>obj_model := True, obj_stats := [(''car'', 2)]\<rparr>" "[\<lparr>pclass = ''person'', pscore = 7 / 10, pbbox = (5, 5, 10, 10)\<rparr>]" 1000]
  by (simp add: obj_init_def counts_add_def)

text \<open>Exporting when no session was ever started does not fail: it yields an artifact with no detections, empty counters and an empty summary.\<close>

theorem export_without_session:
  "export_session obj_init now =
     \<lparr>exp_detections = [], exp_stats = [],
      exp_summary = \<lparr>sum_total = 0, sum_counts = [], sum_timeline = [],
                     sum_time_range = ''entire session'', sum_duration = ''0 minutes''\<rparr>\<rparr>"
  by (simp add: export_session_def get_detection_summary_def obj_init_def window_filter_def js_slice_neg_def)

subsection \<open>Lemmas: arrival order of the History Buffer\<close>

lemma sorted_history_append:
  assumes "sorted (map det_timestamp h)" and "\<forall>d \<in> set h. det_timestamp d \<le> t"
  shows "sorted (map det_timestamp (history_append h (mk_detections preds t)))"
proof -
  have "sorted (map det_timestamp (h @ mk_detections preds t))"
    using assms by (auto simp: sorted_append mk_detections_time_list mk_detections_times)
  then show ?thesis
    by (simp only: history_append_slice map_js_slice_neg sorted_js_slice_neg)
qed

lemma history_append_times:
  "d \<in> set (history_append h (mk_detections preds t)) \<Longrightarrow> d \<in> set h \<or> det_timestamp d = t"
proof -
  assume d: "d \<in> set (history_append h (mk_detections preds t))"
  have "set (js_slice_neg history_cap (h @ mk_detections preds t)) \<subseteq> set (h @ mk_detections preds t)"
    by (rule set_mono_suffix [OF js_slice_neg_suffix])
  with d show ?thesis by (auto simp: history_append_slice dest: mk_detections_times)
qed

lemma obj_step_history_cases:
  "obj_history (obj_step s e) = obj_history s \<or> obj_history (obj_step s e) = []
   \<or> (\<exists>i preds t. e = DetectResolved i preds t
        \<and> obj_history (obj_step s e) = history_append (obj_history s) (mk_detections preds t))"
  by (cases e) (auto simp: load_model_ok_def load_model_failed_def start_detection_def
      stop_detection_def interval_fires_def detect_resolved_def detect_rejected_def Let_def)

lemma obj_run_sorted:
  assumes "sorted (map det_timestamp (obj_history s))"
    and "\<forall>d \<in> set (obj_history s). \<forall>t \<in> set (resolved_times es). det_timestamp d \<le> t"
    and "sorted (resolved_times es)"
  shows "sorted (map det_timestamp (obj_history (obj_run s es)))"
  using assms
proof (induction es arbitrary: s)
  case Nil
  then show ?case by (simp add: obj_run_def)
next
  case (Cons e es)
  let ?s' = "obj_step s e"
  have rest: "set (resolved_times es) \<subseteq> set (resolved_times (e # es))"
    by (cases e) auto
  have sorted_rest: "sorted (resolved_times es)"
    using Cons.prems(3) by (cases e) auto
  have "sorted (map det_timestamp (obj_history ?s'))
        \<and> (\<forall>d \<in> set (obj_history ?s'). \<forall>t' \<in> set (resolved_times es). det_timestamp d \<le> t')"
  proof (cases "\<exists>i preds t. e = DetectResolved i preds t
        \<and> obj_history ?s' = history_append (obj_history s) (mk_detections preds t)")
    case True
    then obtain i preds t where e: "e = DetectResolved i preds t"
      and h: "obj_history ?s' = history_append (obj_history s) (mk_detections preds t)" by blast
    have le_t: "\<forall>d \<in> set (obj_history s). det_timestamp d \<le> t"
      using Cons.prems(2) e by simp
    have t_le: "\<forall>t' \<in> set (resolved_times es). t \<le> t'"
      using Cons.prems(3) e by simp
    show ?thesis
      using sorted_history_append [OF Cons.prems(1) le_t, of preds] h
        history_append_times [of _ "obj_history s" preds t] Cons.prems(2) e t_le
      by fastforce
  next
    case False
    then have "obj_history ?s' = obj_history s \<or> obj_history ?s' = []"
      using obj_step_history_cases [of s e] by blast
    then show ?thesis using Cons.prems(1,2) rest by auto
  qed
  then have "sorted (map det_timestamp (obj_history (obj_run ?s' es)))"
    using Cons.IH sorted_rest by blast
  then show ?case by (simp add: obj_run_def)
qed

text \<open>C5: If the clock readings of the resolved detection calls of a run never decrease, the History Buffer is ordered by timestamp in every state of the run.\<close>

theorem history_timestamps_sorted:
  assumes "sorted (resolved_times es)"
  shows "sorted (map det_timestamp (obj_history (obj_run obj_init es)))"
  using obj_run_sorted [of obj_init es] assms by (simp add: obj_init_def)

theorem history_timestamps_sorted_witness:
  "sorted (resolved_times [ModelLoaded, StartDetection, DetectResolved 0 [\<lparr>pclass = ''person'', pscore = 7 / 10, pbbox = (5, 5, 10, 10)\<rparr>] 1000])
   \<and> sorted (map det_timestamp (obj_history (obj_run obj_init
        [ModelLoaded, StartDetection, DetectResolved 0 [\<lparr>pclass = ''person'', pscore = 7 / 10, pbbox = (5, 5, 10, 10)\<rparr>] 1000])))"
  using history_timestamps_sorted [of "[ModelLoaded, StartDetection, DetectResolved 0 [\<lparr>pclass = ''person'', pscore = 7 / 10, pbbox = (5, 5, 10, 10)\<rparr>] 1000]"]
  by simp

end
