(* ===== verification/FaceTracking.thy ===== *)
theory FaceTracking
  imports Prelude
begin

text \<open>
  The face hook \<open>useAdvancedFaceDetection\<close>
  (src/hooks/useAdvancedFaceDetection.ts): the Identity Tracker
  \<open>assignFaceId\<close>, which returns the id of the first tracked face (in the
  \<open>Map\<close>'s insertion order) whose box corner lies within 100 pixels, or mints
  a new id from \<open>personIdCounterRef\<close>; the Interaction Detector
  \<open>detectInteractions\<close>, which emits one message per pair of faces closer
  than 300 pixels; and the start, stop and summary operations.  The
  \<open>Map\<close> \<open>trackedFacesRef\<close> is an association list in insertion order.
  Distances are compared squared: \<open>Math.sqrt(d) < t\<close> is \<open>d < t\<^sup>2\<close> for
  \<open>t \<ge> 0\<close> (lemma \<open>near_iff_sqrt\<close>), which keeps the model executable on
  rational coordinates.
\<close>

record fbox =
  box_x :: rat
  box_y :: rat
  box_w :: rat
  box_h :: rat

text \<open>\<open>interface FaceDetection\<close> (lines 6--14).\<close>

record face =
  face_id :: nat
  face_box :: fbox
  face_expressions :: "(string \<times> rat) list"
  face_emotion :: string
  face_age :: "rat option"
  face_gender :: "string option"
  face_timestamp :: timestamp

text \<open>\<open>interface PersonStats\<close> (lines 16--20).\<close>

record person_stats =
  unique_people :: nat
  emotions :: counts
  interactions :: "string list"

text \<open>
  The hook's state (lines 23--35): \<open>modelsLoaded\<close>, \<open>isDetecting\<close>, \<open>faces\<close>,
  \<open>stats\<close>, and the refs \<open>facesHistoryRef\<close>, \<open>detectionIntervalRef\<close>
  (\<open>!== null\<close>), \<open>personIdCounterRef\<close> and \<open>trackedFacesRef\<close>.
\<close>

record face_hook =
  fh_models_loaded :: bool
  fh_is_detecting :: bool
  fh_faces :: "face list"
  fh_stats :: person_stats
  fh_history :: "face list"
  fh_interval :: bool
  fh_counter :: nat
  fh_tracked :: "(nat \<times> face) list"

definition empty_person_stats :: person_stats where
  "empty_person_stats = \<lparr>unique_people = 0, emotions = [], interactions = []\<rparr>"

definition face_init :: face_hook where
  "face_init = \<lparr>fh_models_loaded = True, fh_is_detecting = False, fh_faces = [],
     fh_stats = empty_person_stats, fh_history = [], fh_interval = False, fh_counter = 0,
     fh_tracked = []\<rparr>"

subsection \<open>Distances\<close>

definition sq_dist :: "fbox \<Rightarrow> fbox \<Rightarrow> rat" where
  "sq_dist a b = (box_x a - box_x b)\<^sup>2 + (box_y a - box_y b)\<^sup>2"

text \<open>\<open>Math.sqrt(Math.pow(a.x - b.x, 2) + Math.pow(a.y - b.y, 2)) < t\<close>.\<close>

definition near :: "rat \<Rightarrow> fbox \<Rightarrow> fbox \<Rightarrow> bool" where
  "near t a b \<longleftrightarrow> sq_dist a b < t\<^sup>2"

subsection \<open>Identity Tracker: \<open>assignFaceId\<close> (lines 41--56)\<close>

definition face_threshold :: rat where
  "face_threshold = 100"

text \<open>The \<open>for ... of\<close> loop over the tracked faces, returning at the first hit.\<close>

fun find_tracked :: "fbox \<Rightarrow> (nat \<times> face) list \<Rightarrow> nat option" where
  "find_tracked b [] = None"
| "find_tracked b ((i, f) # r) =
     (if near face_threshold b (face_box f) then Some i else find_tracked b r)"

text \<open>The id returned and the hook after \<open>++personIdCounterRef.current\<close>.\<close>

definition assign_face_id :: "fbox \<Rightarrow> face_hook \<Rightarrow> nat \<times> face_hook" where
  "assign_face_id b s =
     (case find_tracked b (fh_tracked s) of
        Some i \<Rightarrow> (i, s)
      | None \<Rightarrow> (Suc (fh_counter s), s\<lparr>fh_counter := Suc (fh_counter s)\<rparr>))"

subsection \<open>Interaction Detector: \<open>detectInteractions\<close> (lines 59--88)\<close>

definition interaction_msg :: "face \<Rightarrow> face \<Rightarrow> string" where
  "interaction_msg f1 f2 =
     (if face_emotion f1 = ''happy'' \<and> face_emotion f2 = ''happy''
      then ''Person #'' @ nat_str (face_id f1) @ '' and #'' @ nat_str (face_id f2) @ '' both smiling''
      else ''Person #'' @ nat_str (face_id f1) @ '' and #'' @ nat_str (face_id f2) @ '' interacting'')"

definition interaction_threshold :: rat where
  "interaction_threshold = 300"

text \<open>
  The two index loops \<open>for (i = 0; i < n - 1; i++) for (j = i + 1; j < n; j++)\<close>
  under the guard \<open>faces.length >= 2\<close>, pushing in loop order.
\<close>

definition detect_interactions :: "face list \<Rightarrow> string list" where
  "detect_interactions fs =
     (if 2 \<le> length fs then
        concat (map (\<lambda>i. concat (map (\<lambda>j.
            if near interaction_threshold (face_box (fs ! i)) (face_box (fs ! j))
            then [interaction_msg (fs ! i) (fs ! j)] else [])
          [Suc i..<length fs])) [0..<length fs - 1])
      else [])"

subsection \<open>Start, stop and summary (lines 91--121)\<close>

text \<open>
  \<open>startDetection\<close> resets the session's refs and counters and raises the flag.
  It installs no interval and runs no detection: the face detection loop is a
  placeholder in the source.
\<close>

definition face_start :: "face_hook \<Rightarrow> face_hook" where
  "face_start s =
     s\<lparr>fh_is_detecting := True, fh_history := [], fh_counter := 0, fh_tracked := [],
       fh_stats := empty_person_stats\<rparr>"

definition face_stop :: "face_hook \<Rightarrow> face_hook" where
  "face_stop s = s\<lparr>fh_interval := False, fh_is_detecting := False\<rparr>"

record face_summary =
  fs_unique_people :: nat
  fs_total_detections :: nat
  fs_emotions :: counts
  fs_interactions :: "string list"
  fs_current_faces :: nat

definition face_get_summary :: "face_hook \<Rightarrow> face_summary" where
  "face_get_summary s =
     \<lparr>fs_unique_people = unique_people (fh_stats s),
      fs_total_detections = length (fh_history s),
      fs_emotions = emotions (fh_stats s),
      fs_interactions = interactions (fh_stats s),
      fs_current_faces = length (fh_faces s)\<rparr>"

datatype face_event = FaceStart | FaceStop

fun face_step :: "face_hook \<Rightarrow> face_event \<Rightarrow> face_hook" where
  "face_step s FaceStart = face_start s"
| "face_step s FaceStop = face_stop s"

definition face_run :: "face_hook \<Rightarrow> face_event list \<Rightarrow> face_hook" where
  "face_run s es = fold (\<lambda>e s. face_step s e) es s"

text \<open>The unordered pairs \<open>(i, j)\<close>, \<open>i < j < n\<close>, in the order the loops visit them.\<close>

definition index_pairs :: "nat \<Rightarrow> (nat \<times> nat) list" where
  "index_pairs n = concat (map (\<lambda>i. map (\<lambda>j. (i, j)) [Suc i..<n]) [0..<n])"

subsection \<open>Lemmas\<close>

lemma sq_dist_nonneg: "0 \<le> sq_dist a b"
  by (simp add: sq_dist_def)

lemma near_iff_sqrt:
  assumes "0 \<le> t"
  shows "near t a b \<longleftrightarrow> sqrt (real_of_rat (sq_dist a b)) < real_of_rat t"
proof -
  have "sqrt ((real_of_rat t)\<^sup>2) = real_of_rat t"
    using assms by (simp add: zero_le_of_rat_iff)
  then have "sqrt (real_of_rat (sq_dist a b)) < real_of_rat t
        \<longleftrightarrow> real_of_rat (sq_dist a b) < (real_of_rat t)\<^sup>2"
    by (metis real_sqrt_less_iff)
  also have "\<dots> \<longleftrightarrow> sq_dist a b < t\<^sup>2"
    by (metis of_rat_less of_rat_power)
  finally show ?thesis by (simp add: near_def)
qed


lemma find_tracked_first:
  "find_tracked b xs = (case filter (\<lambda>(i, f). near face_threshold b (face_box f)) xs of
                          [] \<Rightarrow> None | (i, f) # _ \<Rightarrow> Some i)"
  by (induction b xs rule: find_tracked.induct) auto

lemma near_face_threshold_sqrt:
  "near face_threshold a b \<longleftrightarrow>
     sqrt (real_of_rat ((box_x a - box_x b)\<^sup>2 + (box_y a - box_y b)\<^sup>2)) < 100"
  using near_iff_sqrt [of face_threshold a b] by (simp add: face_threshold_def sq_dist_def)

lemma near_interaction_threshold_sqrt:
  "near interaction_threshold a b \<longleftrightarrow>
     sqrt (real_of_rat ((box_x a - box_x b)\<^sup>2 + (box_y a - box_y b)\<^sup>2)) < 300"
  using near_iff_sqrt [of interaction_threshold a b] by (simp add: interaction_threshold_def sq_dist_def)

text \<open>C14: assignFaceId returns the id of the first tracked face, in the Map's insertion order, whose corner lies at Euclidean distance less than 100 from the detection's corner, leaving the hook unchanged; when there is none it increments the id counter and returns the new value.\<close>

theorem assign_face_id_first_match:
  "assign_face_id b s =
     (case filter (\<lambda>(i, f). sqrt (real_of_rat ((box_x b - box_x (face_box f))\<^sup>2
                                              + (box_y b - box_y (face_box f))\<^sup>2)) < 100)
                 (fh_tracked s) of
        [] \<Rightarrow> (fh_counter s + 1, s\<lparr>fh_counter := fh_counter s + 1\<rparr>)
      | (i, f) # _ \<Rightarrow> (i, s))"
  by (simp add: assign_face_id_def find_tracked_first near_face_threshold_sqrt
      split: list.split prod.split)

lemma find_tracked_None:
  "find_tracked b xs = None \<longleftrightarrow> (\<forall>(i, f) \<in> set xs. \<not> near face_threshold b (face_box f))"
  by (induction b xs rule: find_tracked.induct) auto

lemma find_tracked_Some: "find_tracked b xs = Some i \<Longrightarrow> \<exists>f. (i, f) \<in> set xs \<and> near face_threshold b (face_box f)"
  by (induction b xs rule: find_tracked.induct) (auto split: if_splits)

text \<open>C15: When every tracked id is at most the counter and no tracked face is within 100 pixels, assignFaceId returns a new id, one above the counter and above every tracked id, and the counter now holds it.\<close>

theorem assign_face_id_fresh:
  assumes "\<forall>(i, f) \<in> set (fh_tracked s). i \<le> fh_counter s"
    and "\<forall>(i, f) \<in> set (fh_tracked s). \<not> near face_threshold b (face_box f)"
  shows "fst (assign_face_id b s) = Suc (fh_counter s)
       \<and> fh_counter (snd (assign_face_id b s)) = fst (assign_face_id b s)
       \<and> (\<forall>(i, f) \<in> set (fh_tracked s). i < fst (assign_face_id b s))"
proof -
  from assms(2) have "find_tracked b (fh_tracked s) = None"
    by (simp add: find_tracked_None)
  with assms(1) show ?thesis by (auto simp: assign_face_id_def)
qed

theorem assign_face_id_fresh_witness:
  "fst (assign_face_id \<lparr>box_x = 500, box_y = 500, box_w = 40, box_h = 40\<rparr> (face_init\<lparr>fh_tracked := [(1, \<lparr>face_id = 1, face_box = \<lparr>box_x = 10, box_y = 10, box_w = 40, box_h = 40\<rparr>, face_expressions = [], face_emotion = ''neutral'', face_age = None, face_gender = None, face_timestamp = 0\<rparr>)], fh_counter := 1\<rparr>)) = 2"
  using assign_face_id_fresh [of "face_init\<lparr>fh_tracked := [(1, \<lparr>face_id = 1, face_box = \<lparr>box_x = 10, box_y = 10, box_w = 40, box_h = 40\<rparr>, face_expressions = [], face_emotion = ''neutral'', face_age = None, face_gender = None, face_timestamp = 0\<rparr>)], fh_counter := 1\<rparr>" "\<lparr>box_x = 500, box_y = 500, box_w = 40, box_h = 40\<rparr>"]
  by (simp add: face_init_def near_def sq_dist_def face_threshold_def)

text \<open>A detection within 100 pixels of a tracked face, and of no other tracked face with a different id, receives that face's id and leaves the hook unchanged.\<close>

theorem assign_face_id_reuses:
  assumes "(i, f) \<in> set (fh_tracked s)" and "near face_threshold b (face_box f)"
    and "\<forall>(j, g) \<in> set (fh_tracked s). near face_threshold b (face_box g) \<longrightarrow> j = i"
  shows "assign_face_id b s = (i, s)"
proof -
  from assms(1,2) have "find_tracked b (fh_tracked s) \<noteq> None"
    by (auto simp: find_tracked_None)
  then obtain j where j: "find_tracked b (fh_tracked s) = Some j" by blast
  then have "j = i" using assms(3) by (auto dest!: find_tracked_Some)
  with j show ?thesis by (simp add: assign_face_id_def)
qed

theorem assign_face_id_reuses_witness:
  "assign_face_id \<lparr>box_x = 15, box_y = 12, box_w = 40, box_h = 40\<rparr> (face_init\<lparr>fh_tracked := [(1, \<lparr>face_id = 1, face_box = \<lparr>box_x = 10, box_y = 10, box_w = 40, box_h = 40\<rparr>, face_expressions = [], face_emotion = ''neutral'', face_age = None, face_gender = None, face_timestamp = 0\<rparr>)], fh_counter := 1\<rparr>)
   = (1, face_init\<lparr>fh_tracked := [(1, \<lparr>face_id = 1, face_box = \<lparr>box_x = 10, box_y = 10, box_w = 40, box_h = 40\<rparr>, face_expressions = [], face_emotion = ''neutral'', face_age = None, face_gender = None, face_timestamp = 0\<rparr>)], fh_counter := 1\<rparr>)"
  using assign_face_id_reuses [of 1 "\<lparr>face_id = 1, face_box = \<lparr>box_x = 10, box_y = 10, box_w = 40, box_h = 40\<rparr>, face_expressions = [], face_emotion = ''neutral'', face_age = None, face_gender = None, face_timestamp = 0\<rparr>" "face_init\<lparr>fh_tracked := [(1, \<lparr>face_id = 1, face_box = \<lparr>box_x = 10, box_y = 10, box_w = 40, box_h = 40\<rparr>, face_expressions = [], face_emotion = ''neutral'', face_age = None, face_gender = None, face_timestamp = 0\<rparr>)], fh_counter := 1\<rparr>" "\<lparr>box_x = 15, box_y = 12, box_w = 40, box_h = 40\<rparr>"]
  by (simp add: face_init_def near_def sq_dist_def face_threshold_def)

lemma face_step_tracked: "fh_tracked (face_step s e) = [] \<or> fh_tracked (face_step s e) = fh_tracked s"
  by (cases e) (simp_all add: face_start_def face_stop_def)

lemma face_run_tracked: "fh_tracked s = [] \<Longrightarrow> fh_tracked (face_run s es) = []"
proof (induction es arbitrary: s)
  case Nil
  then show ?case by (simp add: face_run_def)
next
  case (Cons e es)
  then have "fh_tracked (face_step s e) = []" using face_step_tracked [of s e] by auto
  then show ?case using Cons.IH by (simp add: face_run_def)
qed

lemma assign_face_id_fold_untracked:
  assumes "fh_tracked s = []"
  shows "fold (\<lambda>b (ids, s). (ids @ [fst (assign_face_id b s)], snd (assign_face_id b s))) bs (ids, s)
         = (ids @ [Suc (fh_counter s)..<Suc (fh_counter s + length bs)],
            s\<lparr>fh_counter := fh_counter s + length bs\<rparr>)"
  using assms
proof (induction bs arbitrary: ids s)
  case Nil
  then show ?case by simp
next
  case (Cons b bs)
  let ?s' = "s\<lparr>fh_counter := Suc (fh_counter s)\<rparr>"
  have "assign_face_id b s = (Suc (fh_counter s), ?s')"
    using Cons.prems by (simp add: assign_face_id_def)
  moreover have "[Suc (fh_counter s)..<Suc (fh_counter s + length (b # bs))]
                 = Suc (fh_counter s) # [Suc (Suc (fh_counter s))..<Suc (Suc (fh_counter s) + length bs)]"
    by (simp add: upt_conv_Cons del: upt_Suc)
  ultimately show ?case using Cons.IH [of ?s' "ids @ [Suc (fh_counter s)]"] Cons.prems by simp
qed

text \<open>C18: No operation of the face hook ever adds to trackedFacesRef, so from every state the hook reaches, assigning ids to any sequence of n detections, even n detections at the same position, returns the n fresh ids counter + 1, ..., counter + n: a person is never recognised again, and the tracked map stays empty.\<close>

theorem face_tracking_never_matches:
  "let s0 = face_run face_init es;
       (ids, s) = fold (\<lambda>b (ids, s). (ids @ [fst (assign_face_id b s)], snd (assign_face_id b s)))
                       bs ([], s0)
   in ids = [fh_counter s0 + 1..<fh_counter s0 + length bs + 1] \<and> fh_tracked s = []"
proof -
  have "fh_tracked (face_run face_init es) = []"
    by (rule face_run_tracked) (simp add: face_init_def)
  then show ?thesis by (simp add: assign_face_id_fold_untracked del: upt_Suc)
qed

text \<open>The spec's scenario: after start, detections at (10,10), (15,12) and (500,500) receive ids 1, 2, 3 from the hook's tracker, not the 1, 1, 2 the spec expects, because the tracked map is never filled.\<close>

theorem spec_scenario_face_ids:
  "let s0 = face_start face_init;
       (a, s1) = assign_face_id \<lparr>box_x = 10, box_y = 10, box_w = 40, box_h = 40\<rparr> s0;
       (b, s2) = assign_face_id \<lparr>box_x = 15, box_y = 12, box_w = 40, box_h = 40\<rparr> s1;
       (c, s3) = assign_face_id \<lparr>box_x = 500, box_y = 500, box_w = 40, box_h = 40\<rparr> s2
   in [a, b, c] = [1, 2, 3]"
  by code_simp

text \<open>assignFaceId is first-match, not nearest-match: with tracked faces at x = 0 and x = 50 (in that order), a detection at x = 60 gets the id of the face at x = 0 although the face at x = 50 is nearer.\<close>

theorem assign_face_id_not_nearest:
  "let far = \<lparr>face_id = 1, face_box = \<lparr>box_x = 0, box_y = 0, box_w = 40, box_h = 40\<rparr>,
              face_expressions = [], face_emotion = ''neutral'', face_age = None,
              face_gender = None, face_timestamp = 0\<rparr>;
       close = far\<lparr>face_id := 2, face_box := \<lparr>box_x = 50, box_y = 0, box_w = 40, box_h = 40\<rparr>\<rparr>;
       b = \<lparr>box_x = 60, box_y = 0, box_w = 40, box_h = 40\<rparr>;
       s = face_init\<lparr>fh_tracked := [(1, far), (2, close)], fh_counter := 2\<rparr>
   in fst (assign_face_id b s) = 1 \<and> sq_dist b (face_box close) < sq_dist b (face_box far)"
  by code_simp


lemma concat_map_singleton_if:
  "concat (map (\<lambda>x. if P x then [f x] else []) xs) = map f (filter P xs)"
  by (induction xs) auto

lemma index_pairs_last_empty:
  "concat (map (\<lambda>i. map (\<lambda>j. (i, j)) [Suc i..<n]) [0..<n])
   = concat (map (\<lambda>i. map (\<lambda>j. (i, j)) [Suc i..<n]) [0..<n - 1])"
proof (cases n)
  case 0
  then show ?thesis by simp
next
  case (Suc m)
  then have "[0..<n] = [0..<n - 1] @ [m]" by simp
  with Suc show ?thesis by simp
qed

lemma set_index_pairs: "set (index_pairs n) = {(i, j). i < j \<and> j < n}"
proof (intro set_eqI iffI)
  fix p
  assume "p \<in> set (index_pairs n)"
  then show "p \<in> {(i, j). i < j \<and> j < n}" by (auto simp: index_pairs_def)
next
  fix p
  assume "p \<in> {(i, j). i < j \<and> j < n}"
  then obtain i j where p: "p = (i, j)" and ij: "i < j" "j < n" by blast
  then have "i \<in> set [0..<n]" and "(i, j) \<in> set (map (\<lambda>j. (i, j)) [Suc i..<n])" by auto
  then show "p \<in> set (index_pairs n)" unfolding index_pairs_def p by auto
qed

lemma detect_interactions_index_pairs:
  "detect_interactions fs =
     map (\<lambda>(i, j). interaction_msg (fs ! i) (fs ! j))
       (filter (\<lambda>(i, j). near interaction_threshold (face_box (fs ! i)) (face_box (fs ! j)))
          (index_pairs (length fs)))"
proof (cases "2 \<le> length fs")
  case True
  let ?P = "\<lambda>(i, j). near interaction_threshold (face_box (fs ! i)) (face_box (fs ! j))"
  let ?m = "\<lambda>(i, j). interaction_msg (fs ! i) (fs ! j)"
  have inner: "concat (map (\<lambda>j. if near interaction_threshold (face_box (fs ! i)) (face_box (fs ! j))
                                    then [interaction_msg (fs ! i) (fs ! j)] else []) [Suc i..<length fs])
        = map ?m (filter ?P (map (\<lambda>j. (i, j)) [Suc i..<length fs]))" for i
    by (simp add: concat_map_singleton_if filter_map comp_def)
  have "map ?m (filter ?P (index_pairs (length fs)))
        = concat (map (\<lambda>i. map ?m (filter ?P (map (\<lambda>j. (i, j)) [Suc i..<length fs]))) [0..<length fs - 1])"
    by (simp add: index_pairs_def index_pairs_last_empty filter_concat map_concat comp_def)
  with True show ?thesis by (simp only: detect_interactions_def inner if_True)
next
  case False
  then have "length fs = 0 \<or> length fs = 1" by arith
  with False show ?thesis by (auto simp: detect_interactions_def index_pairs_def)
qed

lemma concat_map_singleton_if2:
  "concat (map (\<lambda>x. if Q x then if P x then [f x] else [] else []) xs) = map f (filter (\<lambda>x. Q x \<and> P x) xs)"
  by (induction xs) auto

lemma filter_less_upt: "filter (\<lambda>j. i < j) [0..<n] = [Suc i..<n]"
  by (induction n) auto

lemma index_pairs_comprehension:
  "map (\<lambda>(i, j). f i j) (filter (\<lambda>(i, j). P i j) (index_pairs n))
   = [f i j. i \<leftarrow> [0..<n], j \<leftarrow> [0..<n], i < j, P i j]"
proof -
  have "[f i j. i \<leftarrow> [0..<n], j \<leftarrow> [0..<n], i < j, P i j]
        = concat (map (\<lambda>i. map (\<lambda>j. f i j) (filter (\<lambda>j. P i j) (filter (\<lambda>j. i < j) [0..<n]))) [0..<n])"
    by (simp add: concat_map_singleton_if2 comp_def)
  also have "\<dots> = map (\<lambda>(i, j). f i j) (filter (\<lambda>(i, j). P i j) (index_pairs n))"
    by (simp add: filter_less_upt index_pairs_def filter_concat map_concat filter_map comp_def)
  finally show ?thesis by simp
qed

text \<open>C20: detectInteractions emits, for the index pairs i < j in loop order, one message exactly when the Euclidean distance between the two faces' corners is below 300, namely "Person #a and #b both smiling" when both faces' emotion is happy and "Person #a and #b interacting" otherwise, with a and b the faces' ids; nothing else (also for fewer than two faces).\<close>

theorem detect_interactions_pairs:
  "detect_interactions fs =
     [(if face_emotion (fs ! i) = ''happy'' \<and> face_emotion (fs ! j) = ''happy''
       then ''Person #'' @ nat_str (face_id (fs ! i)) @ '' and #'' @ nat_str (face_id (fs ! j)) @ '' both smiling''
       else ''Person #'' @ nat_str (face_id (fs ! i)) @ '' and #'' @ nat_str (face_id (fs ! j)) @ '' interacting'').
      i \<leftarrow> [0..<length fs], j \<leftarrow> [0..<length fs], i < j,
      sqrt (real_of_rat ((box_x (face_box (fs ! i)) - box_x (face_box (fs ! j)))\<^sup>2
                       + (box_y (face_box (fs ! i)) - box_y (face_box (fs ! j)))\<^sup>2)) < 300]"
proof -
  have "detect_interactions fs =
          [interaction_msg (fs ! i) (fs ! j). i \<leftarrow> [0..<length fs], j \<leftarrow> [0..<length fs], i < j,
             near interaction_threshold (face_box (fs ! i)) (face_box (fs ! j))]"
    using index_pairs_comprehension [of "\<lambda>i j. interaction_msg (fs ! i) (fs ! j)"
        "\<lambda>i j. near interaction_threshold (face_box (fs ! i)) (face_box (fs ! j))" "length fs"]
    by (simp add: detect_interactions_index_pairs)
  then show ?thesis by (simp only: near_interaction_threshold_sqrt interaction_msg_def)
qed

text \<open>For two faces closer than 300 pixels that both show happy, the mutual-smile message naming their ids is among the interactions, and the number of messages is the number of close pairs.\<close>

theorem mutual_smile_reported:
  assumes "i < j" and "j < length fs"
    and "near interaction_threshold (face_box (fs ! i)) (face_box (fs ! j))"
    and "face_emotion (fs ! i) = ''happy''" and "face_emotion (fs ! j) = ''happy''"
  shows "''Person #'' @ nat_str (face_id (fs ! i)) @ '' and #'' @ nat_str (face_id (fs ! j)) @ '' both smiling''
         \<in> set (detect_interactions fs)
       \<and> length (detect_interactions fs)
         = length (filter (\<lambda>(i, j). near interaction_threshold (face_box (fs ! i)) (face_box (fs ! j)))
              (index_pairs (length fs)))"
proof -
  have "(i, j) \<in> set (filter (\<lambda>(i, j). near interaction_threshold (face_box (fs ! i)) (face_box (fs ! j)))
                    (index_pairs (length fs)))"
    using assms(1-3) by (simp add: set_index_pairs)
  then have "interaction_msg (fs ! i) (fs ! j) \<in> set (detect_interactions fs)"
    by (subst detect_interactions_index_pairs) force
  with assms(4,5) show ?thesis
    by (simp add: interaction_msg_def detect_interactions_index_pairs)
qed


theorem mutual_smile_reported_witness:
  "''Person #'' @ nat_str 1 @ '' and #'' @ nat_str 2 @ '' both smiling''
     \<in> set (detect_interactions [\<lparr>face_id = 1, face_box = \<lparr>box_x = 0, box_y = 0, box_w = 40, box_h = 40\<rparr>, face_expressions = [], face_emotion = ''happy'', face_age = None, face_gender = None, face_timestamp = 0\<rparr>, \<lparr>face_id = 2, face_box = \<lparr>box_x = 100, box_y = 0, box_w = 40, box_h = 40\<rparr>, face_expressions = [], face_emotion = ''happy'', face_age = None, face_gender = None, face_timestamp = 0\<rparr>])"
  using mutual_smile_reported [of 0 1 "[\<lparr>face_id = 1, face_box = \<lparr>box_x = 0, box_y = 0, box_w = 40, box_h = 40\<rparr>, face_expressions = [], face_emotion = ''happy'', face_age = None, face_gender = None, face_timestamp = 0\<rparr>, \<lparr>face_id = 2, face_box = \<lparr>box_x = 100, box_y = 0, box_w = 40, box_h = 40\<rparr>, face_expressions = [], face_emotion = ''happy'', face_age = None, face_gender = None, face_timestamp = 0\<rparr>]"]
  by (simp add: near_def sq_dist_def interaction_threshold_def)

text \<open>Starting the face hook raises the detecting flag, resets the id counter and the tracked map, and makes the summary report no people, detections, emotions or interactions.\<close>

theorem face_start_resets:
  "fh_is_detecting (face_start s) \<and> fh_counter (face_start s) = 0 \<and> fh_tracked (face_start s) = []
   \<and> face_get_summary (face_start s)
       = \<lparr>fs_unique_people = 0, fs_total_detections = 0, fs_emotions = [], fs_interactions = [],
          fs_current_faces = length (fh_faces s)\<rparr>"
  by (simp add: face_start_def face_get_summary_def empty_person_stats_def)

text \<open>Stopping the face hook is idempotent and clears only the detecting flag: the id counter, the tracked map, the history and the statistics survive until the next start.\<close>

theorem face_stop_keeps_session:
  "face_stop (face_stop s) = face_stop s \<and> \<not> fh_is_detecting (face_stop s)
   \<and> fh_counter (face_stop s) = fh_counter s \<and> fh_history (face_stop s) = fh_history s
   \<and> fh_tracked (face_stop s) = fh_tracked s \<and> fh_stats (face_stop s) = fh_stats s"
  by (simp add: face_stop_def)

end
