(* ===== verification/HandTracking.thy ===== *)
theory HandTracking
  imports Prelude
begin

text \<open>
  The hand hook \<open>useHandTracking\<close> (src/hooks/useHandTracking.ts): the gesture
  table \<open>recognizeGesture\<close>, the finger counter \<open>countFingers\<close> (a stub that
  returns 0), readiness set by the mount effect, and start/stop.  The source
  runs no detection for hands: \<open>startDetection\<close> only raises the flag, so
  \<open>hands\<close> and \<open>gestureStats\<close> keep their initial values.

  The six named gesture labels begin with an emoji, which the source file
  stores mis-encoded (its UTF-8 bytes read as Windows-1252 characters);
  JavaScript strings are UTF-16, which an 8-bit \<open>char\<close> cannot hold, so
  the datatype \<open>gesture\<close> names the case and \<open>gesture_name\<close> gives the
  ASCII text after the emoji.
  The default case is printed in full: \<open>`${fingerCount} Fingers`\<close>.
\<close>

record landmark =
  lm_x :: rat
  lm_y :: rat
  lm_z :: rat

datatype handedness = Left | Right

datatype gesture = Fist | Pointing | Peace | OkSign | Rock | OpenHand | Fingers int

text \<open>\<open>interface HandDetection\<close> (lines 6--12).\<close>

record hand =
  hand_landmarks :: "landmark list"
  hand_gesture :: gesture
  hand_finger_count :: int
  hand_handedness :: handedness
  hand_timestamp :: timestamp

text \<open>The hook's state (lines 15--21).\<close>

record hand_hook =
  hh_is_ready :: bool
  hh_is_detecting :: bool
  hh_hands :: "hand list"
  hh_gesture_stats :: counts
  hh_interval :: bool

definition hand_init :: hand_hook where
  "hand_init = \<lparr>hh_is_ready = False, hh_is_detecting = False, hh_hands = [],
     hh_gesture_stats = [], hh_interval = False\<rparr>"

text \<open>The mount effect \<open>loadMediaPipe\<close> (lines 23--37): ready on both paths.\<close>

definition hand_load :: "hand_hook \<Rightarrow> hand_hook" where
  "hand_load s = s\<lparr>hh_is_ready := True\<rparr>"

text \<open>\<open>countFingers\<close> (lines 40--43): a stub.\<close>

definition count_fingers :: "landmark list \<Rightarrow> int" where
  "count_fingers lms = 0"

text \<open>\<open>recognizeGesture\<close> (lines 46--56): the \<open>switch\<close> on the count.\<close>

definition recognize_gesture :: "int \<Rightarrow> gesture" where
  "recognize_gesture n =
     (if n = 0 then Fist else if n = 1 then Pointing else if n = 2 then Peace
      else if n = 3 then OkSign else if n = 4 then Rock else if n = 5 then OpenHand
      else Fingers n)"

fun gesture_name :: "gesture \<Rightarrow> string" where
  "gesture_name Fist = ''Fist''"
| "gesture_name Pointing = ''Pointing''"
| "gesture_name Peace = ''Peace''"
| "gesture_name OkSign = ''OK Sign''"
| "gesture_name Rock = ''Rock''"
| "gesture_name OpenHand = ''Open Hand''"
| "gesture_name (Fingers n) = int_str n @ '' Fingers''"

text \<open>\<open>startDetection\<close> (lines 59--65) and \<open>stopDetection\<close> (lines 68--74).\<close>

definition hand_start :: "hand_hook \<Rightarrow> hand_hook" where
  "hand_start s = s\<lparr>hh_is_detecting := True\<rparr>"

definition hand_stop :: "hand_hook \<Rightarrow> hand_hook" where
  "hand_stop s = s\<lparr>hh_interval := False, hh_is_detecting := False\<rparr>"

datatype hand_event = HandLoaded | HandStart | HandStop

fun hand_step :: "hand_hook \<Rightarrow> hand_event \<Rightarrow> hand_hook" where
  "hand_step s HandLoaded = hand_load s"
| "hand_step s HandStart = hand_start s"
| "hand_step s HandStop = hand_stop s"

definition hand_run :: "hand_hook \<Rightarrow> hand_event list \<Rightarrow> hand_hook" where
  "hand_run s es = fold (\<lambda>e s. hand_step s e) es s"

subsection \<open>Lemmas\<close>

lemma recognize_gesture_named:
  "0 \<le> n \<Longrightarrow> n \<le> 5 \<Longrightarrow> recognize_gesture n \<in> {Fist, Pointing, Peace, OkSign, Rock, OpenHand}"
  by (auto simp: recognize_gesture_def)

lemma recognize_gesture_default:
  "n < 0 \<or> 5 < n \<Longrightarrow> recognize_gesture n = Fingers n"
  by (auto simp: recognize_gesture_def)

lemma hd_int_str: "hd (int_str n) = CHR ''-'' \<or> (48 \<le> (of_char (hd (int_str n)) :: nat) \<and> (of_char (hd (int_str n)) :: nat) < 58)"
proof (cases "n < 0")
  case True
  then show ?thesis by (simp add: int_str_def)
next
  case False
  have "hd (nat_str (nat n)) \<in> set (nat_str (nat n))" by (simp add: nat_str_nonempty)
  with False show ?thesis by (simp add: int_str_def nat_str_digits)
qed

lemma int_str_nonempty: "int_str n \<noteq> []"
  by (simp add: int_str_def nat_str_nonempty)

lemma fingers_name_not_named:
  "g \<in> {Fist, Pointing, Peace, OkSign, Rock, OpenHand} \<Longrightarrow> gesture_name (Fingers n) \<noteq> gesture_name g"
proof
  assume g: "g \<in> {Fist, Pointing, Peace, OkSign, Rock, OpenHand}"
    and eq: "gesture_name (Fingers n) = gesture_name g"
  have "hd (gesture_name (Fingers n)) = hd (int_str n)" by (simp add: int_str_nonempty)
  with eq have "hd (gesture_name g) = hd (int_str n)" by simp
  moreover from g have "hd (gesture_name g) \<in> {CHR ''F'', CHR ''P'', CHR ''O'', CHR ''R''}" by auto
  ultimately show False using hd_int_str [of n] by auto
qed

text \<open>
  recognizeGesture is injective: different finger counts give different
  gestures, and different label texts (the default label prints the count,
  and a printed number never starts like a named label).
\<close>

theorem recognize_gesture_injective:
  "(recognize_gesture n = recognize_gesture m \<longleftrightarrow> n = m)
   \<and> (gesture_name (recognize_gesture n) = gesture_name (recognize_gesture m) \<longleftrightarrow> n = m)"
proof -
  have g: "recognize_gesture n = recognize_gesture m \<longleftrightarrow> n = m" for n m
    by (auto simp: recognize_gesture_def split: if_splits)
  have "gesture_name (recognize_gesture n) = gesture_name (recognize_gesture m) \<Longrightarrow> n = m"
  proof -
    assume eq: "gesture_name (recognize_gesture n) = gesture_name (recognize_gesture m)"
    consider "0 \<le> n \<and> n \<le> 5 \<and> 0 \<le> m \<and> m \<le> 5" | "(n < 0 \<or> 5 < n) \<and> (m < 0 \<or> 5 < m)"
      | "0 \<le> n \<and> n \<le> 5 \<and> (m < 0 \<or> 5 < m)" | "(n < 0 \<or> 5 < n) \<and> 0 \<le> m \<and> m \<le> 5"
      by linarith
    then show "n = m"
    proof cases
      case 1
      with eq show ?thesis by (auto simp: recognize_gesture_def split: if_splits)
    next
      case 2
      with eq show ?thesis by (simp add: recognize_gesture_default int_str_inj)
    next
      case 3
      with eq fingers_name_not_named [OF recognize_gesture_named, of n m] show ?thesis
        by (simp add: recognize_gesture_default)
    next
      case 4
      with eq fingers_name_not_named [OF recognize_gesture_named, of m n] show ?thesis
        by (simp add: recognize_gesture_default)
    qed
  qed
  with g show ?thesis by blast
qed

lemma hand_step_inert:
  "hh_hands (hand_step s e) = hh_hands s \<and> hh_gesture_stats (hand_step s e) = hh_gesture_stats s"
  by (cases e) (simp_all add: hand_load_def hand_start_def hand_stop_def)

lemma hand_run_inert:
  "hh_hands (hand_run s es) = hh_hands s \<and> hh_gesture_stats (hand_run s es) = hh_gesture_stats s"
  by (induction es arbitrary: s) (simp_all add: hand_run_def hand_step_inert)

text \<open>
  The hand hook never observes a hand: in every reachable state the hand
  list and the gesture counters are empty, and the finger counter classifies
  any landmark set as a fist.
\<close>

theorem hand_hook_inert:
  "hh_hands (hand_run hand_init es) = [] \<and> hh_gesture_stats (hand_run hand_init es) = []
   \<and> recognize_gesture (count_fingers lms) = Fist"
  by (simp add: hand_run_inert hand_init_def count_fingers_def recognize_gesture_def)

end
