(* ===== verification/SessionController.thy ===== *)
theory SessionController
  imports ObjectDetection FaceTracking HandTracking
begin

text \<open>
  The Session Controller of src/components/AdvancedSessionManager.tsx: the
  component owns the three hooks and starts and stops them together.  Its
  state is the three hook records and whether a video element is mounted.
  \<open>handleStartAll\<close> and \<open>handleStopAll\<close> are the operations; which of them
  the user can invoke is decided by the rendered buttons: the Start button is
  rendered only when no hook is detecting and is disabled while the object
  model loads, the face models or the hand runtime are not ready, or there is
  no video; the Stop button is rendered only while a hook is detecting.
  The environment (model loading, the interval timer, resolving and rejecting
  detection calls, the hand runtime becoming ready, the video element
  changing) moves in between.  \<open>sess_step\<close> is the step relation and
  \<open>sess_reachable\<close> its reachable states.
\<close>

record session =
  s_obj :: obj_hook
  s_face :: face_hook
  s_hand :: hand_hook
  s_video :: bool

definition sess_init :: session where
  "sess_init = \<lparr>s_obj = obj_init, s_face = face_init, s_hand = hand_init, s_video = False\<rparr>"

text \<open>\<open>isSessionActive\<close> (line 49).\<close>

definition is_session_active :: "session \<Rightarrow> bool" where
  "is_session_active s \<longleftrightarrow>
     obj_is_detecting (s_obj s) \<or> fh_is_detecting (s_face s) \<or> hh_is_detecting (s_hand s)"

text \<open>The \<open>disabled\<close> condition of the Start button (line 216).\<close>

definition start_disabled :: "session \<Rightarrow> bool" where
  "start_disabled s \<longleftrightarrow>
     obj_is_loading (s_obj s) \<or> \<not> fh_models_loaded (s_face s) \<or> \<not> hh_is_ready (s_hand s)
     \<or> \<not> s_video s"

text \<open>\<open>handleStartAll\<close> (lines 137--143).\<close>

definition handle_start_all :: "session \<Rightarrow> session" where
  "handle_start_all s =
     (if \<not> s_video s then s
      else s\<lparr>s_obj := start_detection (s_obj s),
             s_face := (if fh_models_loaded (s_face s) then face_start (s_face s) else s_face s),
             s_hand := (if hh_is_ready (s_hand s) then hand_start (s_hand s) else s_hand s)\<rparr>)"

text \<open>\<open>handleStopAll\<close> (lines 145--149).\<close>

definition handle_stop_all :: "session \<Rightarrow> session" where
  "handle_stop_all s =
     s\<lparr>s_obj := stop_detection (s_obj s), s_face := face_stop (s_face s),
       s_hand := hand_stop (s_hand s)\<rparr>"

text \<open>Events of the object hook that come from the environment, not from a handler.\<close>

fun obj_env_event :: "obj_event \<Rightarrow> bool" where
  "obj_env_event StartDetection = False"
| "obj_env_event StopDetection = False"
| "obj_env_event e = True"

text \<open>The kind of a step: the Start button, the Stop button, or the
  environment.\<close>

datatype ctrl_op = OpStart | OpStop | OpEnv

inductive sess_step :: "ctrl_op \<Rightarrow> session \<Rightarrow> session \<Rightarrow> bool" where
  start_all: "\<not> is_session_active s \<Longrightarrow> \<not> start_disabled s \<Longrightarrow> sess_step OpStart s (handle_start_all s)"
| stop_all: "is_session_active s \<Longrightarrow> sess_step OpStop s (handle_stop_all s)"
| obj_env: "obj_env_event e \<Longrightarrow> sess_step OpEnv s (s\<lparr>s_obj := obj_step (s_obj s) e\<rparr>)"
| hand_ready: "sess_step OpEnv s (s\<lparr>s_hand := hand_load (s_hand s)\<rparr>)"
| video: "sess_step OpEnv s (s\<lparr>s_video := v\<rparr>)"

inductive sess_reachable :: "session \<Rightarrow> bool" where
  init: "sess_reachable sess_init"
| step: "sess_reachable s \<Longrightarrow> sess_step op s t \<Longrightarrow> sess_reachable t"

text \<open>
  What every reachable controller state satisfies: the object hook's
  invariant; its interval runs exactly while it is detecting, and only with
  a model; the face hook's tracked map is empty and its interval never set;
  the hand hook has seen no hand.
\<close>

definition sess_inv :: "session \<Rightarrow> bool" where
  "sess_inv s \<longleftrightarrow>
     obj_inv (s_obj s)
     \<and> obj_interval (s_obj s) = obj_is_detecting (s_obj s)
     \<and> (obj_is_detecting (s_obj s) \<longrightarrow> obj_model (s_obj s))
     \<and> fh_tracked (s_face s) = [] \<and> \<not> fh_interval (s_face s)
     \<and> hh_hands (s_hand s) = [] \<and> hh_gesture_stats (s_hand s) = []"

subsection \<open>The controller's contract\<close>

text \<open>
  The Session Controller of the specification (section 4.5) as an abstract
  machine: which modalities have an initialised adapter and which are
  polling.  \<open>start()\<close> is allowed only when nothing runs and starts every
  available modality; \<open>stop()\<close> is idempotent and stops everything; an adapter
  finishing its initialisation adds to the available ones.  \<open>sess_abs\<close>
  reads this view off the three hooks: a modality is available when its
  model or runtime is loaded and running while its hook is detecting.
\<close>

datatype modality = Objects | Faces | Hands

definition all_modalities :: "modality list" where
  "all_modalities = [Objects, Faces, Hands]"

record ctrl_spec =
  cs_available :: "modality set"
  cs_running :: "modality set"

inductive ctrl_spec_step :: "ctrl_op \<Rightarrow> ctrl_spec \<Rightarrow> ctrl_spec \<Rightarrow> bool" where
  spec_start: "cs_running a = {} \<Longrightarrow> ctrl_spec_step OpStart a (a\<lparr>cs_running := cs_available a\<rparr>)"
| spec_stop: "ctrl_spec_step OpStop a (a\<lparr>cs_running := {}\<rparr>)"
| spec_adapter_ready: "cs_available a \<subseteq> m \<Longrightarrow> ctrl_spec_step OpEnv a (a\<lparr>cs_available := m\<rparr>)"

fun sess_available :: "session \<Rightarrow> modality \<Rightarrow> bool" where
  "sess_available s Objects = obj_model (s_obj s)"
| "sess_available s Faces = fh_models_loaded (s_face s)"
| "sess_available s Hands = hh_is_ready (s_hand s)"

fun sess_running :: "session \<Rightarrow> modality \<Rightarrow> bool" where
  "sess_running s Objects = obj_is_detecting (s_obj s)"
| "sess_running s Faces = fh_is_detecting (s_face s)"
| "sess_running s Hands = hh_is_detecting (s_hand s)"

definition sess_abs :: "session \<Rightarrow> ctrl_spec" where
  "sess_abs s = \<lparr>cs_available = set (filter (sess_available s) all_modalities),
                 cs_running = set (filter (sess_running s) all_modalities)\<rparr>"

subsection \<open>Lemmas\<close>

lemma obj_env_step_frame:
  assumes "obj_env_event e"
  shows "obj_interval (obj_step h e) = obj_interval h
       \<and> obj_is_detecting (obj_step h e) = obj_is_detecting h
       \<and> (obj_model h \<longrightarrow> obj_model (obj_step h e))"
  using assms
  by (cases e) (simp_all add: load_model_ok_def load_model_failed_def interval_fires_def
      detect_resolved_def detect_rejected_def Let_def)

lemma sess_inv_init: "sess_inv sess_init"
  using obj_inv_init by (simp add: sess_inv_def sess_init_def obj_init_def face_init_def hand_init_def)

lemma sess_step_inv:
  assumes "sess_step op s t" and "sess_inv s"
  shows "sess_inv t"
  using assms
proof (induction rule: sess_step.induct)
  case (start_all s)
  have "obj_inv (start_detection (s_obj s))"
    using obj_step_inv [of "s_obj s" StartDetection] start_all.prems by (simp add: sess_inv_def)
  moreover have "\<not> start_disabled s" by (rule start_all.hyps(2))
  ultimately show ?case using start_all.prems
    by (auto simp: sess_inv_def handle_start_all_def start_detection_def start_disabled_def
        face_start_def hand_start_def)
next
  case (stop_all s)
  have "obj_inv (stop_detection (s_obj s))"
    using obj_step_inv [of "s_obj s" StopDetection] stop_all.prems by (simp add: sess_inv_def)
  with stop_all.prems show ?case
    by (simp add: sess_inv_def handle_stop_all_def stop_detection_def face_stop_def hand_stop_def)
next
  case (obj_env e s)
  have "obj_inv (obj_step (s_obj s) e)"
    using obj_step_inv obj_env.prems by (simp add: sess_inv_def)
  with obj_env.prems obj_env_step_frame [OF obj_env.hyps, of "s_obj s"] show ?case
    by (auto simp: sess_inv_def)
next
  case (hand_ready s)
  then show ?case by (simp add: sess_inv_def hand_load_def)
next
  case (video s v)
  then show ?case by (simp add: sess_inv_def)
qed

lemma sess_step_obj_env:
  "obj_env_event e \<Longrightarrow> t = s\<lparr>s_obj := obj_step (s_obj s) e\<rparr> \<Longrightarrow> sess_step OpEnv s t"
  by (simp add: sess_step.obj_env)

lemma sess_reachable_ready:
  "sess_reachable (sess_init\<lparr>s_video := True, s_hand := hand_load hand_init, s_obj := load_model_ok obj_init\<rparr>)"
proof -
  let ?s1 = "sess_init\<lparr>s_video := True\<rparr>"
  let ?s2 = "?s1\<lparr>s_hand := hand_load (s_hand ?s1)\<rparr>"
  have r2: "sess_reachable ?s2"
    by (rule sess_reachable.step [OF sess_reachable.step [OF sess_reachable.init sess_step.video]
          sess_step.hand_ready])
  have "sess_reachable (?s2\<lparr>s_obj := obj_step (s_obj ?s2) ModelLoaded\<rparr>)"
    by (rule sess_reachable.step [OF r2 sess_step_obj_env [where e = ModelLoaded]]) simp_all
  then show ?thesis by (simp add: sess_init_def)
qed

lemma sess_reachable_started:
  "sess_reachable (handle_start_all (sess_init\<lparr>s_video := True, s_hand := hand_load hand_init, s_obj := load_model_ok obj_init\<rparr>))"
proof -
  have "\<not> is_session_active (sess_init\<lparr>s_video := True, s_hand := hand_load hand_init, s_obj := load_model_ok obj_init\<rparr>)" and "\<not> start_disabled (sess_init\<lparr>s_video := True, s_hand := hand_load hand_init, s_obj := load_model_ok obj_init\<rparr>)"
    by (simp_all add: sess_init_def obj_init_def face_init_def hand_init_def load_model_ok_def load_model_failed_def hand_load_def start_disabled_def is_session_active_def handle_start_all_def start_detection_def face_start_def hand_start_def)
  then show ?thesis
    by (blast intro: sess_reachable.step [OF sess_reachable_ready] sess_step.start_all)
qed

text \<open>
  C26: In every state the controller can reach, the object hook satisfies its
  invariant, its interval runs exactly while it detects and only with a loaded
  model, the face hook tracks nothing and has no interval, and the hand hook
  has seen no hand.
\<close>

theorem sess_reachable_inv:
  assumes "sess_reachable s"
  shows "sess_inv s"
  using assms
proof (induction rule: sess_reachable.induct)
  case init
  show ?case by (rule sess_inv_init)
next
  case (step s t)
  then show ?case by (blast intro: sess_step_inv)
qed

theorem sess_reachable_inv_witness:
  "obj_interval (s_obj (handle_start_all (sess_init\<lparr>s_video := True, s_hand := hand_load hand_init, s_obj := load_model_ok obj_init\<rparr>)))
     = obj_is_detecting (s_obj (handle_start_all (sess_init\<lparr>s_video := True, s_hand := hand_load hand_init, s_obj := load_model_ok obj_init\<rparr>)))
   \<and> obj_model (s_obj (handle_start_all (sess_init\<lparr>s_video := True, s_hand := hand_load hand_init, s_obj := load_model_ok obj_init\<rparr>)))
   \<and> fh_tracked (s_face (handle_start_all (sess_init\<lparr>s_video := True, s_hand := hand_load hand_init, s_obj := load_model_ok obj_init\<rparr>))) = []"
  using sess_reachable_inv [OF sess_reachable_started]
  by (simp add: sess_inv_def sess_init_def obj_init_def face_init_def hand_init_def load_model_ok_def load_model_failed_def hand_load_def start_disabled_def is_session_active_def handle_start_all_def start_detection_def face_start_def hand_start_def)

text \<open>
  After handleStopAll no hook is detecting, the object interval is
  cleared, and a second handleStopAll changes nothing.
\<close>

theorem stop_all_idle:
  "\<not> is_session_active (handle_stop_all s)
   \<and> handle_stop_all (handle_stop_all s) = handle_stop_all s
   \<and> \<not> obj_interval (s_obj (handle_stop_all s))"
  by (simp add: is_session_active_def handle_stop_all_def stop_detection_def face_stop_def hand_stop_def)

text \<open>
  When the Start button is enabled and the object model is loaded,
  handleStartAll starts all three hooks, with an empty History Buffer and the
  face id counter back at zero.
\<close>

theorem start_all_starts_every_hook:
  assumes "\<not> start_disabled s" and "\<not> is_session_active s" and "obj_model (s_obj s)"
  shows "obj_is_detecting (s_obj (handle_start_all s)) \<and> fh_is_detecting (s_face (handle_start_all s))
       \<and> hh_is_detecting (s_hand (handle_start_all s))
       \<and> obj_history (s_obj (handle_start_all s)) = [] \<and> fh_counter (s_face (handle_start_all s)) = 0"
  using assms
  by (simp add: start_disabled_def is_session_active_def handle_start_all_def start_detection_def
      face_start_def hand_start_def)

theorem start_all_starts_every_hook_witness:
  "obj_is_detecting (s_obj (handle_start_all (sess_init\<lparr>s_video := True, s_hand := hand_load hand_init, s_obj := load_model_ok obj_init\<rparr>)))
   \<and> fh_is_detecting (s_face (handle_start_all (sess_init\<lparr>s_video := True, s_hand := hand_load hand_init, s_obj := load_model_ok obj_init\<rparr>)))
   \<and> hh_is_detecting (s_hand (handle_start_all (sess_init\<lparr>s_video := True, s_hand := hand_load hand_init, s_obj := load_model_ok obj_init\<rparr>)))"
  using start_all_starts_every_hook [of "(sess_init\<lparr>s_video := True, s_hand := hand_load hand_init, s_obj := load_model_ok obj_init\<rparr>)"]
  by (simp add: sess_init_def obj_init_def face_init_def hand_init_def load_model_ok_def load_model_failed_def hand_load_def start_disabled_def is_session_active_def handle_start_all_def start_detection_def face_start_def hand_start_def)

text \<open>
  If the object model failed to load, the Start button is still enabled
  (it only waits for loading to end), and handleStartAll starts a session in
  which the object hook is not detecting.
\<close>

theorem start_all_without_object_model:
  assumes "\<not> start_disabled s" and "\<not> is_session_active s" and "\<not> obj_model (s_obj s)"
  shows "is_session_active (handle_start_all s) \<and> \<not> obj_is_detecting (s_obj (handle_start_all s))"
  using assms
  by (simp add: start_disabled_def is_session_active_def handle_start_all_def start_detection_def
      face_start_def hand_start_def)

theorem start_all_without_object_model_witness:
  "is_session_active (handle_start_all (sess_init\<lparr>s_video := True, s_hand := hand_load hand_init, s_obj := load_model_failed obj_init\<rparr>))
   \<and> obj_history (s_obj (handle_start_all (sess_init\<lparr>s_video := True, s_hand := hand_load hand_init, s_obj := load_model_failed obj_init\<rparr>))) = []"
  using start_all_without_object_model [of "(sess_init\<lparr>s_video := True, s_hand := hand_load hand_init, s_obj := load_model_failed obj_init\<rparr>)"]
  by (simp add: sess_init_def obj_init_def face_init_def hand_init_def load_model_ok_def load_model_failed_def hand_load_def start_disabled_def is_session_active_def handle_start_all_def start_detection_def face_start_def hand_start_def)

text \<open>
  The controller can reach a stopped session (after start and stop) in
  which an environment step, the resolution of the detection call started by
  handleStartAll, still changes the History Buffer.
\<close>

theorem stopped_session_still_records:
  "let s5 = handle_stop_all (handle_start_all (sess_init\<lparr>s_video := True, s_hand := hand_load hand_init, s_obj := load_model_ok obj_init\<rparr>));
       s6 = s5\<lparr>s_obj := obj_step (s_obj s5)
              (DetectResolved 0 [\<lparr>pclass = ''car'', pscore = 9 / 10, pbbox = (0, 0, 10, 10)\<rparr>] 1000)\<rparr>
   in sess_reachable s5 \<and> \<not> is_session_active s5 \<and> sess_step OpEnv s5 s6
      \<and> obj_history (s_obj s6) \<noteq> obj_history (s_obj s5)"
proof -
  let ?s4 = "handle_start_all (sess_init\<lparr>s_video := True, s_hand := hand_load hand_init, s_obj := load_model_ok obj_init\<rparr>)"
  let ?s5 = "handle_stop_all ?s4"
  let ?s6 = "?s5\<lparr>s_obj := obj_step (s_obj ?s5)
              (DetectResolved 0 [\<lparr>pclass = ''car'', pscore = 9 / 10, pbbox = (0, 0, 10, 10)\<rparr>] 1000)\<rparr>"
  have "is_session_active ?s4"
    by (simp add: sess_init_def obj_init_def face_init_def hand_init_def load_model_ok_def hand_load_def is_session_active_def handle_start_all_def start_detection_def face_start_def hand_start_def)
  then have r5: "sess_reachable ?s5"
    by (blast intro: sess_reachable.step [OF sess_reachable_started] sess_step.stop_all)
  have idle: "\<not> is_session_active ?s5"
    using stop_all_idle by blast
  have step: "sess_step OpEnv ?s5 ?s6"
    by (rule sess_step.obj_env) simp
  have "obj_history (s_obj ?s6) \<noteq> obj_history (s_obj ?s5)"
    by (simp add: sess_init_def obj_init_def face_init_def hand_init_def load_model_ok_def hand_load_def is_session_active_def handle_start_all_def start_detection_def face_start_def hand_start_def handle_stop_all_def stop_detection_def detect_resolved_def
        history_append_def history_cap_def mk_detections_def Let_def)
  with r5 idle step show ?thesis by (simp only: Let_def) blast
qed

subsection \<open>Refinement of the contract\<close>

lemma in_all_modalities [simp]: "m \<in> set all_modalities"
  by (cases m) (simp_all add: all_modalities_def)

lemma sess_abs_sets:
  "cs_available (sess_abs s) = {m. sess_available s m}" "cs_running (sess_abs s) = {m. sess_running s m}"
  by (simp_all add: sess_abs_def)

lemma ctrl_spec_stepI:
  "cs_running a = {} \<Longrightarrow> cs_available b = cs_available a \<Longrightarrow> cs_running b = cs_available a \<Longrightarrow> ctrl_spec_step OpStart a b"
  "cs_available b = cs_available a \<Longrightarrow> cs_running b = {} \<Longrightarrow> ctrl_spec_step OpStop a b"
  "cs_available a \<subseteq> cs_available b \<Longrightarrow> cs_running b = cs_running a \<Longrightarrow> ctrl_spec_step OpEnv a b"
proof -
  have eq: "b = a\<lparr>cs_available := cs_available b, cs_running := cs_running b\<rparr>" for a b :: ctrl_spec
    by (rule ctrl_spec.equality) simp_all
  show "cs_running a = {} \<Longrightarrow> cs_available b = cs_available a \<Longrightarrow> cs_running b = cs_available a \<Longrightarrow> ctrl_spec_step OpStart a b"
    by (subst eq [of b a]) (simp add: spec_start)
  show "cs_available b = cs_available a \<Longrightarrow> cs_running b = {} \<Longrightarrow> ctrl_spec_step OpStop a b"
    by (subst eq [of b a]) (simp add: spec_stop)
  show "cs_available a \<subseteq> cs_available b \<Longrightarrow> cs_running b = cs_running a \<Longrightarrow> ctrl_spec_step OpEnv a b"
    by (subst eq [of b a]) (simp add: spec_adapter_ready)
qed

lemma sess_step_refines:
  assumes "sess_step op s t"
  shows "ctrl_spec_step op (sess_abs s) (sess_abs t)"
  using assms
proof cases
  case start_all
  have "sess_running t m = sess_available s m" for m
    using start_all by (cases m) (auto simp: handle_start_all_def start_detection_def face_start_def
        hand_start_def start_disabled_def is_session_active_def)
  moreover have "sess_available t m = sess_available s m" for m
    using start_all by (cases m) (auto simp: handle_start_all_def start_detection_def face_start_def
        hand_start_def start_disabled_def)
  moreover have "\<not> sess_running s m" for m
    using start_all(3) by (cases m) (simp_all add: is_session_active_def)
  ultimately show ?thesis unfolding start_all(1) by (intro ctrl_spec_stepI(1)) (simp_all add: sess_abs_sets)
next
  case stop_all
  have "\<not> sess_running t m" for m
    using stop_all by (cases m) (simp_all add: handle_stop_all_def stop_detection_def face_stop_def hand_stop_def)
  moreover have "sess_available t m = sess_available s m" for m
    using stop_all by (cases m) (simp_all add: handle_stop_all_def stop_detection_def face_stop_def hand_stop_def)
  ultimately show ?thesis unfolding stop_all(1) by (intro ctrl_spec_stepI(2)) (simp_all add: sess_abs_sets)
next
  case (obj_env e)
  have "sess_running t m = sess_running s m" for m
    using obj_env obj_env_step_frame [OF obj_env(3), of "s_obj s"] by (cases m) simp_all
  moreover have "sess_available s m \<longrightarrow> sess_available t m" for m
    using obj_env obj_env_step_frame [OF obj_env(3), of "s_obj s"] by (cases m) simp_all
  ultimately show ?thesis unfolding obj_env(1) by (intro ctrl_spec_stepI(3)) (auto simp: sess_abs_sets)
next
  case hand_ready
  have "sess_running t m = sess_running s m" for m
    using hand_ready by (cases m) (simp_all add: hand_load_def)
  moreover have "sess_available s m \<longrightarrow> sess_available t m" for m
    using hand_ready by (cases m) (simp_all add: hand_load_def)
  ultimately show ?thesis unfolding hand_ready(1) by (intro ctrl_spec_stepI(3)) (auto simp: sess_abs_sets)
next
  case (video v)
  have "sess_running t m = sess_running s m" for m
    using video by (cases m) simp_all
  moreover have "sess_available t m = sess_available s m" for m
    using video by (cases m) simp_all
  ultimately show ?thesis unfolding video(1) by (intro ctrl_spec_stepI(3)) (simp_all add: sess_abs_sets)
qed

lemma ctrl_spec_step_running_available:
  "ctrl_spec_step op a b \<Longrightarrow> cs_running a \<subseteq> cs_available a \<Longrightarrow> cs_running b \<subseteq> cs_available b"
  by (induction rule: ctrl_spec_step.induct) simp_all

text \<open>
  C24: The Session Controller implements the specification's contract,
  step for step and operation for operation: it starts idle (no modality
  running); a click on Start (rendered and enabled) is the contract's
  \<open>start()\<close>, which from idle runs exactly the available modalities; a
  click on Stop is the contract's \<open>stop()\<close>, which runs none; every
  environment step (model loading, detection ticks, the hand runtime
  becoming ready, the video changing) leaves the running modalities alone
  and only adds available ones.
\<close>

theorem sess_refines_spec:
  "cs_running (sess_abs sess_init) = {}
   \<and> (\<forall>op s t. sess_step op s t \<longrightarrow> ctrl_spec_step op (sess_abs s) (sess_abs t))"
proof
  have "\<not> sess_running sess_init m" for m
    by (cases m) (simp_all add: sess_init_def obj_init_def face_init_def hand_init_def)
  then show "cs_running (sess_abs sess_init) = {}"
    by (simp add: sess_abs_sets)
  show "\<forall>op s t. sess_step op s t \<longrightarrow> ctrl_spec_step op (sess_abs s) (sess_abs t)"
    using sess_step_refines by simp
qed

text \<open>Through the contract: no hook of a reachable controller state detects
  without its model or runtime.\<close>

theorem sess_running_available:
  "sess_reachable s \<Longrightarrow> cs_running (sess_abs s) \<subseteq> cs_available (sess_abs s)"
proof (induction rule: sess_reachable.induct)
  case init
  have "\<not> sess_running sess_init m" for m
    by (cases m) (simp_all add: sess_init_def obj_init_def face_init_def hand_init_def)
  then show ?case by (simp add: sess_abs_sets)
next
  case (step s op t)
  from step.hyps(2) step.IH show ?case
    by (rule ctrl_spec_step_running_available [OF sess_step_refines])
qed

theorem sess_refines_spec_witness:
  "ctrl_spec_step OpStart (sess_abs (sess_init\<lparr>s_video := True, s_hand := hand_load hand_init, s_obj := load_model_ok obj_init\<rparr>))
     (sess_abs (handle_start_all (sess_init\<lparr>s_video := True, s_hand := hand_load hand_init, s_obj := load_model_ok obj_init\<rparr>)))"
proof -
  have "sess_step OpStart (sess_init\<lparr>s_video := True, s_hand := hand_load hand_init, s_obj := load_model_ok obj_init\<rparr>)
     (handle_start_all (sess_init\<lparr>s_video := True, s_hand := hand_load hand_init, s_obj := load_model_ok obj_init\<rparr>))"
    by (rule sess_step.start_all) (simp_all add: sess_init_def obj_init_def face_init_def hand_init_def
        load_model_ok_def hand_load_def start_disabled_def is_session_active_def)
  with conjunct2 [OF sess_refines_spec] show ?thesis by blast
qed

end
