(* ===== verification/Json.thy ===== *)
theory Json
  imports Prelude
begin

text \<open>
  JSON values and the two JavaScript built-ins the application applies to them:
  \<open>JSON.stringify(v, null, 2)\<close>, used by the query route
  (src/app/api/query/route.ts, line 32), the summary texts
  (src/components/SessionManager.tsx, line 90;
  src/components/AdvancedSessionManager.tsx, lines 159, 167, 173) and the
  session export (src/hooks/useObjectDetection.ts, line 141), and the property
  reads, truthiness, \<open>String(v)\<close> and \<open>trim\<close> the route applies to a parsed
  request body.  They follow ECMA-262: \<open>QuoteJSONString\<close>,
  \<open>SerializeJSONObject\<close> and \<open>SerializeJSONArray\<close> with a gap of two
  spaces, \<open>ToBoolean\<close>, \<open>ToString\<close> and \<open>String.prototype.trim\<close>.

  Numbers are integers, which covers every number the application serialises
  except detection scores; an object is its list of own properties in
  enumeration order, which for keys that are not array indices is the order of
  first insertion.  Characters are 8-bit, so the \<open>\\u\<close> escape carries codes
  below 256.  \<open>json_unesc\<close>/\<open>json_unquote\<close> read a string literal back and
  \<open>json_parse_value\<close> (with fuel) any printed value: the lemmas at the end
  show that parsing the printer's output returns the value and the rest of
  the input, whenever the fuel exceeds the value's size.
\<close>

datatype json = JNull | JBool bool | JNum int | JStr string | JArr "json list" | JObj "(string \<times> json) list"

definition bs :: char where "bs = CHR 0x5C"
definition dq :: char where "dq = CHR 0x22"

definition hex_digit :: "nat \<Rightarrow> char" where
  "hex_digit n = (if n < 10 then char_of (48 + n) else char_of (87 + n))"

definition json_escape_char :: "char \<Rightarrow> string" where
  "json_escape_char c =
     (let n = (of_char c :: nat) in
      if n = 8 then [bs, CHR ''b''] else if n = 9 then [bs, CHR ''t'']
      else if n = 10 then [bs, CHR ''n''] else if n = 12 then [bs, CHR ''f'']
      else if n = 13 then [bs, CHR ''r''] else if n = 0x22 then [bs, dq]
      else if n = 0x5C then [bs, bs]
      else if n < 0x20 then [bs, CHR ''u'', CHR ''0'', CHR ''0'', hex_digit (n div 16), hex_digit (n mod 16)]
      else [c])"

definition json_quote :: "string \<Rightarrow> string" where
  "json_quote s = dq # concat (map json_escape_char s) @ [dq]"

fun join_with :: "string \<Rightarrow> string list \<Rightarrow> string" where
  "join_with sep [] = []"
| "join_with sep [x] = x"
| "join_with sep (x # xs) = x @ sep @ join_with sep xs"

fun json_pretty :: "string \<Rightarrow> json \<Rightarrow> string" where
  "json_pretty ind JNull = ''null''"
| "json_pretty ind (JBool b) = (if b then ''true'' else ''false'')"
| "json_pretty ind (JNum n) = int_str n"
| "json_pretty ind (JStr s) = json_quote s"
| "json_pretty ind (JArr vs) =
     (if vs = [] then ''[]''
      else ''['' @ ''\<newline>'' @ ind @ ''  '' @
           join_with ('','' @ ''\<newline>'' @ ind @ ''  '') (map (json_pretty (ind @ ''  '')) vs)
           @ ''\<newline>'' @ ind @ '']'')"
| "json_pretty ind (JObj kvs) =
     (if kvs = [] then ''{}''
      else ''{'' @ ''\<newline>'' @ ind @ ''  '' @
           join_with ('','' @ ''\<newline>'' @ ind @ ''  '')
             (map (\<lambda>(k, v). json_quote k @ '': '' @ json_pretty (ind @ ''  '') v) kvs)
           @ ''\<newline>'' @ ind @ ''}'')"


definition hex_val :: "char \<Rightarrow> nat option" where
  "hex_val c =
     (let n = (of_char c :: nat) in
      if 48 \<le> n \<and> n < 58 then Some (n - 48)
      else if 97 \<le> n \<and> n < 103 then Some (n - 87)
      else if 65 \<le> n \<and> n < 71 then Some (n - 55) else None)"

definition simple_unescape :: "char \<Rightarrow> char option" where
  "simple_unescape d =
     (if d = dq then Some dq else if d = bs then Some bs else if d = CHR ''/'' then Some d
      else if d = CHR ''b'' then Some (char_of (8::nat)) else if d = CHR ''f'' then Some (char_of (12::nat))
      else if d = CHR ''n'' then Some (char_of (10::nat)) else if d = CHR ''r'' then Some (char_of (13::nat))
      else if d = CHR ''t'' then Some (char_of (9::nat)) else None)"

definition hex4 :: "char \<Rightarrow> char \<Rightarrow> char \<Rightarrow> char \<Rightarrow> nat option" where
  "hex4 a b c d =
     (case (hex_val a, hex_val b, hex_val c, hex_val d) of
        (Some w, Some x, Some y, Some z) \<Rightarrow> Some (((w * 16 + x) * 16 + y) * 16 + z)
      | _ \<Rightarrow> None)"

fun json_unesc :: "string \<Rightarrow> (string \<times> string) option" where
  "json_unesc [] = None"
| "json_unesc (c # cs) =
     (if c = dq then Some ([], cs)
      else if c = bs then
        (case cs of
           [] \<Rightarrow> None
         | d # ds \<Rightarrow>
             if d = CHR ''u'' then
               (case ds of
                  h1 # h2 # h3 # h4 # r \<Rightarrow>
                    (case hex4 h1 h2 h3 h4 of
                       Some n \<Rightarrow> if n < 256 then map_option (apfst (Cons (char_of n))) (json_unesc r) else None
                     | None \<Rightarrow> None)
                | _ \<Rightarrow> None)
             else
               (case simple_unescape d of
                  Some e \<Rightarrow> map_option (apfst (Cons e)) (json_unesc ds)
                | None \<Rightarrow> None))
      else if (of_char c :: nat) < 32 then None
      else map_option (apfst (Cons c)) (json_unesc cs))"

definition json_unquote :: "string \<Rightarrow> (string \<times> string) option" where
  "json_unquote s = (case s of c # cs \<Rightarrow> if c = dq then json_unesc cs else None | [] \<Rightarrow> None)"

text \<open>\<open>ToBoolean\<close> of a property read: \<open>undefined\<close> (\<open>None\<close>), \<open>null\<close>,
  \<open>false\<close>, \<open>0\<close> and the empty string are falsy.\<close>

fun js_truthy :: "json option \<Rightarrow> bool" where
  "js_truthy None = False"
| "js_truthy (Some JNull) = False"
| "js_truthy (Some (JBool b)) = b"
| "js_truthy (Some (JNum n)) = (n \<noteq> 0)"
| "js_truthy (Some (JStr s)) = (s \<noteq> [])"
| "js_truthy (Some (JArr vs)) = True"
| "js_truthy (Some (JObj kvs)) = True"

text \<open>Property read \<open>v.k\<close> on a parsed JSON value: only objects have the
  application's keys.\<close>

fun js_get :: "json \<Rightarrow> string \<Rightarrow> json option" where
  "js_get (JObj kvs) k = map_of kvs k"
| "js_get v k = None"

text \<open>\<open>WhiteSpace\<close> and \<open>LineTerminator\<close> below 256: tab, line feed, vertical
  tab, form feed, carriage return, space and no-break space.\<close>

definition js_ws :: "char \<Rightarrow> bool" where
  "js_ws c \<longleftrightarrow> (of_char c :: nat) \<in> {9, 10, 11, 12, 13, 32, 160}"

definition js_trim :: "string \<Rightarrow> string" where
  "js_trim s = rev (dropWhile js_ws (rev (dropWhile js_ws s)))"

text \<open>\<open>String(v)\<close>, as a template literal prints \<open>${v}\<close>.\<close>

fun js_to_string :: "json \<Rightarrow> string" where
  "js_to_string JNull = ''null''"
| "js_to_string (JBool b) = (if b then ''true'' else ''false'')"
| "js_to_string (JNum n) = int_str n"
| "js_to_string (JStr s) = s"
| "js_to_string (JArr vs) = join_with '','' (map (\<lambda>v. if v = JNull then [] else js_to_string v) vs)"
| "js_to_string (JObj kvs) = ''[object Object]''"

text \<open>An array index: the canonical decimal form of a number below
  \<open>2\<^sup>3\<^sup>2 - 1\<close>.  An ordinary object enumerates such keys first, in
  ascending numeric order, and then its other keys in insertion order
  (\<open>OrdinaryOwnPropertyKeys\<close>), which is the order \<open>JSON.stringify\<close>
  prints.\<close>

definition is_array_index :: "string \<Rightarrow> bool" where
  "is_array_index k \<longleftrightarrow>
     k \<noteq> [] \<and> list_all (\<lambda>c. 48 \<le> (of_char c :: nat) \<and> (of_char c :: nat) < 58) k
     \<and> (k = ''0'' \<or> 49 \<le> (of_char (hd k) :: nat)) \<and> parse_nat k < 4294967295"

definition js_key_order :: "(string \<times> 'a) list \<Rightarrow> (string \<times> 'a) list" where
  "js_key_order kvs =
     sort_key (\<lambda>kv. parse_nat (fst kv)) (filter (\<lambda>kv. is_array_index (fst kv)) kvs)
     @ filter (\<lambda>kv. \<not> is_array_index (fst kv)) kvs"

text \<open>A counter object (\<open>{[label]: count}\<close>) as a JSON value.\<close>

definition json_of_counts :: "counts \<Rightarrow> json" where
  "json_of_counts c = JObj (js_key_order (map (\<lambda>(k, n). (k, JNum (int n))) c))"

text \<open>A parser for the output of \<open>json_pretty\<close> (JSON's grammar for the values
  the printer emits, whitespace between tokens allowed), with fuel: each
  nesting level and each list element consumes one unit.\<close>

definition json_ws :: "char \<Rightarrow> bool" where
  "json_ws c \<longleftrightarrow> (of_char c :: nat) \<in> {9, 10, 13, 32}"

definition is_digit :: "char \<Rightarrow> bool" where
  "is_digit c \<longleftrightarrow> 48 \<le> (of_char c :: nat) \<and> (of_char c :: nat) < 58"

definition parse_number :: "string \<Rightarrow> (json \<times> string) option" where
  "parse_number t =
     (case t of
        c # r \<Rightarrow>
          if c = CHR ''-'' then
            (let ds = takeWhile is_digit r in
             if ds = [] then None else Some (JNum (- int (parse_nat ds)), dropWhile is_digit r))
          else
            (let ds = takeWhile is_digit t in
             if ds = [] then None else Some (JNum (int (parse_nat ds)), dropWhile is_digit t))
      | [] \<Rightarrow> None)"

fun json_parse_value :: "nat \<Rightarrow> string \<Rightarrow> (json \<times> string) option"
and json_parse_elems :: "nat \<Rightarrow> string \<Rightarrow> (json list \<times> string) option"
and json_parse_members :: "nat \<Rightarrow> string \<Rightarrow> ((string \<times> json) list \<times> string) option" where
  "json_parse_value 0 s = None"
| "json_parse_value (Suc f) s =
     (let t = dropWhile json_ws s in
      if take 4 t = ''null'' then Some (JNull, drop 4 t)
      else if take 4 t = ''true'' then Some (JBool True, drop 4 t)
      else if take 5 t = ''false'' then Some (JBool False, drop 5 t)
      else
        (case t of
           [] \<Rightarrow> None
         | c # r \<Rightarrow>
             if c = dq then map_option (\<lambda>(x, r'). (JStr x, r')) (json_unesc r)
             else if c = CHR ''['' then
               (case dropWhile json_ws r of
                  [] \<Rightarrow> None
                | d # r' \<Rightarrow>
                    if d = CHR '']'' then Some (JArr [], r')
                    else map_option (\<lambda>(vs, r'). (JArr vs, r')) (json_parse_elems f r))
             else if c = CHR ''{'' then
               (case dropWhile json_ws r of
                  [] \<Rightarrow> None
                | d # r' \<Rightarrow>
                    if d = CHR ''}'' then Some (JObj [], r')
                    else map_option (\<lambda>(kvs, r'). (JObj kvs, r')) (json_parse_members f r))
             else parse_number t))"
| "json_parse_elems 0 s = None"
| "json_parse_elems (Suc f) s =
     (case json_parse_value f s of
        None \<Rightarrow> None
      | Some (v, r) \<Rightarrow>
          (case dropWhile json_ws r of
             [] \<Rightarrow> None
           | d # r' \<Rightarrow>
               if d = CHR '','' then map_option (\<lambda>(vs, r''). (v # vs, r'')) (json_parse_elems f r')
               else if d = CHR '']'' then Some ([v], r') else None))"
| "json_parse_members 0 s = None"
| "json_parse_members (Suc f) s =
     (case dropWhile json_ws s of
        [] \<Rightarrow> None
      | c # r \<Rightarrow>
          if c = dq then
            (case json_unesc r of
               None \<Rightarrow> None
             | Some (k, r1) \<Rightarrow>
                 (case dropWhile json_ws r1 of
                    [] \<Rightarrow> None
                  | d # r2 \<Rightarrow>
                      if d = CHR '':'' then
                        (case json_parse_value f r2 of
                           None \<Rightarrow> None
                         | Some (v, r3) \<Rightarrow>
                             (case dropWhile json_ws r3 of
                                [] \<Rightarrow> None
                              | e # r4 \<Rightarrow>
                                  if e = CHR '','' then
                                    map_option (\<lambda>(kvs, r5). ((k, v) # kvs, r5)) (json_parse_members f r4)
                                  else if e = CHR ''}'' then Some ([(k, v)], r4) else None))
                      else None))
          else None)"


text \<open>A character JSON text may carry outside the layout: line feed or a code from 0x20.\<close>

definition json_text_char :: "char \<Rightarrow> bool" where
  "json_text_char c \<longleftrightarrow> c = CHR 0x0A \<or> 0x20 \<le> (of_char c :: nat)"

subsection \<open>Lemmas\<close>

lemma hex_val_digit: "n < 16 \<Longrightarrow> hex_val (hex_digit n) = Some n"
  by (auto simp: hex_val_def hex_digit_def Let_def)

lemma json_unesc_escape_char:
  "json_unesc (json_escape_char c @ r) = map_option (apfst (Cons c)) (json_unesc r)"
proof -
  define n where "n = (of_char c :: nat)"
  have c: "c = char_of n" by (simp add: n_def)
  have n: "n < 256" by (simp add: n_def)
  show ?thesis
  proof (cases "n < 0x20 \<and> n \<notin> {8, 9, 10, 12, 13}")
    case True
    have "hex_val (CHR ''0'') = Some 0" by (simp add: hex_val_def)
    moreover have "hex_val (hex_digit (n div 16)) = Some (n div 16)"
      using True by (intro hex_val_digit) linarith
    moreover have "hex_val (hex_digit (n mod 16)) = Some (n mod 16)"
      by (intro hex_val_digit) simp
    ultimately have "hex4 (CHR ''0'') (CHR ''0'') (hex_digit (n div 16)) (hex_digit (n mod 16)) = Some n"
      by (simp add: hex4_def)
    with True show ?thesis
      by (simp add: json_escape_char_def n_def[symmetric] bs_def dq_def Let_def c)
  next
    case False
    then consider "n \<in> {8, 9, 10, 12, 13, 34, 92}" | "32 \<le> n \<and> n \<noteq> 34 \<and> n \<noteq> 92"
      by force
    then show ?thesis
    proof cases
      case 1
      have "char_of (34::nat) = CHR 0x22" "char_of (92::nat) = CHR 0x5C"
        by code_simp+
      with 1 show ?thesis
        by (auto simp: json_escape_char_def Let_def bs_def dq_def simple_unescape_def c)
    next
      case 2
      then have "c \<noteq> dq" "c \<noteq> bs" "\<not> (of_char c :: nat) < 32"
        by (auto simp: n_def dq_def bs_def)
      with 2 show ?thesis by (simp add: json_escape_char_def n_def[symmetric] Let_def)
    qed
  qed
qed

lemma json_unesc_escaped: "json_unesc (concat (map json_escape_char s) @ dq # r) = Some (s, r)"
  by (induction s) (simp_all add: json_unesc_escape_char)

lemma json_string_roundtrip: "json_unquote (json_quote s @ r) = Some (s, r)"
  by (simp add: json_unquote_def json_quote_def json_unesc_escaped)

lemma js_trim_pad:
  assumes "list_all js_ws a" "list_all js_ws b" "x \<noteq> []" "\<not> js_ws (hd x)" "\<not> js_ws (last x)"
  shows "js_trim (a @ x @ b) = x"
proof -
  have "dropWhile js_ws (a @ x @ b) = x @ b"
    using assms by (cases x) (simp_all add: list_all_iff dropWhile_append2)
  moreover have "dropWhile js_ws (rev b @ rev x) = rev x"
  proof -
    obtain y ys where r: "rev x = y # ys" using assms(3) by (cases "rev x") auto
    then have "y = last x" by (metis last_rev list.sel(1) rev_rev_ident)
    with assms(2,5) have "dropWhile js_ws (rev b @ y # ys) = y # ys"
      by (subst dropWhile_append2) (auto simp: list_all_iff)
    then show ?thesis unfolding r .
  qed
  ultimately show ?thesis by (simp add: js_trim_def)
qed

lemma js_trim_all_ws: "list_all js_ws s \<Longrightarrow> js_trim s = []"
proof -
  assume "list_all js_ws s"
  then have "dropWhile js_ws s = []" by (induction s) auto
  then show ?thesis unfolding js_trim_def by (metis dropWhile.simps(1) rev.simps(1))
qed

lemma js_trim_Nil [simp]: "js_trim [] = []"
  by (simp add: js_trim_def)

lemma last_dropWhile: "dropWhile P xs \<noteq> [] \<Longrightarrow> last (dropWhile P xs) = last xs"
  by (induction xs) auto

lemma js_trim_ends:
  assumes "js_trim s \<noteq> []"
  shows "\<not> js_ws (hd (js_trim s)) \<and> \<not> js_ws (last (js_trim s))"
proof -
  define d where "d = dropWhile js_ws s"
  define l where "l = dropWhile js_ws (rev d)"
  have t: "js_trim s = rev l" by (simp add: js_trim_def d_def l_def)
  with assms have l: "l \<noteq> []" by simp
  then have d: "d \<noteq> []" by (auto simp: l_def)
  have "\<not> js_ws (hd l)" using l hd_dropWhile [of js_ws "rev d"] by (simp add: l_def)
  moreover have "last l = hd d" using l last_dropWhile [of js_ws "rev d"] d by (simp add: l_def last_rev)
  moreover have "\<not> js_ws (hd d)" using d hd_dropWhile [of js_ws s] by (simp add: d_def)
  ultimately show ?thesis using t l by (simp add: hd_rev last_rev)
qed

lemma js_trim_idem: "js_trim (js_trim s) = js_trim s"
proof (cases "js_trim s = []")
  case False
  then show ?thesis
  proof -
    let ?x = "js_trim s"
    have e: "\<not> js_ws (hd ?x)" "\<not> js_ws (last ?x)" using js_trim_ends [OF False] by simp_all
    have "dropWhile js_ws ?x = ?x" using False e(1) by (cases ?x) simp_all
    moreover have "dropWhile js_ws (rev ?x) = rev ?x" using False e(2) by (cases "rev ?x") (simp_all add: hd_rev [symmetric])
    ultimately show ?thesis by (simp add: js_trim_def [of ?x])
  qed
next
  case True
  then show ?thesis by (simp only: True) (simp add: js_trim_def)
qed

lemma js_key_order_plain:
  "list_all (\<lambda>kv. \<not> is_array_index (fst kv)) kvs \<Longrightarrow> js_key_order kvs = kvs"
  by (simp add: js_key_order_def list_all_iff)

lemma json_of_counts_Nil [simp]: "json_pretty ind (json_of_counts []) = ''{}''"
  by (simp add: json_of_counts_def js_key_order_def)

lemma dropWhile_ws_prefix:
  "list_all json_ws ws \<Longrightarrow> dropWhile json_ws (ws @ t) = dropWhile json_ws t"
  by (induction ws) auto

lemma nat_str_cons: "\<exists>c t. nat_str n = c # t \<and> is_digit c"
proof -
  obtain c t where "nat_str n = c # t" using nat_str_nonempty by (cases "nat_str n") auto
  moreover then have "c \<in> set (nat_str n)" by simp
  ultimately show ?thesis using nat_str_digits is_digit_def by blast
qed

lemma int_str_cons: "\<exists>c t. int_str n = c # t \<and> (c = CHR ''-'' \<or> is_digit c)"
proof (cases "n < 0")
  case True
  then show ?thesis by (simp add: int_str_def)
next
  case False
  then show ?thesis using nat_str_cons [of "nat n"] by (auto simp: int_str_def)
qed

lemma digits_take_drop:
  "r = [] \<or> \<not> is_digit (hd r) \<Longrightarrow>
     takeWhile is_digit (nat_str m @ r) = nat_str m \<and> dropWhile is_digit (nat_str m @ r) = r"
proof -
  assume r: "r = [] \<or> \<not> is_digit (hd r)"
  have "\<forall>c \<in> set (nat_str m). is_digit c" using nat_str_digits is_digit_def by blast
  with r show ?thesis by (cases r) (auto simp: takeWhile_append2 dropWhile_append2)
qed

lemma parse_number_int_str:
  "r = [] \<or> \<not> is_digit (hd r) \<Longrightarrow> parse_number (int_str n @ r) = Some (JNum n, r)"
proof (cases "n < 0")
  case True
  assume r: "r = [] \<or> \<not> is_digit (hd r)"
  have "CHR ''-'' \<noteq> c" if "is_digit c" for c using that by (auto simp: is_digit_def)
  with True r show ?thesis
    using nat_str_nonempty digits_take_drop [OF r, of "nat (- n)"]
    by (simp add: parse_number_def int_str_def parse_nat_str)
next
  case False
  assume r: "r = [] \<or> \<not> is_digit (hd r)"
  obtain c t where ct: "nat_str (nat n) = c # t" and d: "is_digit c" using nat_str_cons by blast
  then have "c \<noteq> CHR ''-''" by (auto simp: is_digit_def)
  moreover have "parse_nat (c # t) = nat n" using parse_nat_str [of "nat n"] ct by simp
  ultimately show ?thesis using False r ct d
    using digits_take_drop [OF r, of "nat n"]
    by (simp add: parse_number_def int_str_def parse_nat_str Let_def del: nat_str.simps)
qed

lemma json_ws_chars [simp]:
  "json_ws (CHR 0x0A)" "json_ws (CHR '' '')" "\<not> json_ws (CHR '','')" "\<not> json_ws (CHR '']'')"
  "\<not> json_ws (CHR ''}'')" "\<not> json_ws (CHR '':'')" "\<not> json_ws dq" "\<not> json_ws (CHR ''['')"
  "\<not> json_ws (CHR ''{'')" "\<not> json_ws (CHR ''n'')" "\<not> json_ws (CHR ''t'')" "\<not> json_ws (CHR ''f'')"
  "\<not> json_ws (CHR ''-'')"
  by (simp_all add: json_ws_def dq_def)

lemma dq_chars [simp]:
  "dq \<noteq> CHR '']''" "dq \<noteq> CHR ''}''" "dq \<noteq> CHR ''[''" "dq \<noteq> CHR ''{''" "dq \<noteq> CHR ''n''"
  "dq \<noteq> CHR ''t''" "dq \<noteq> CHR ''f''" "CHR ''['' \<noteq> dq" "CHR ''{'' \<noteq> dq"
  by (simp_all add: dq_def)

lemma digit_not_ws: "is_digit c \<Longrightarrow> \<not> json_ws c"
  by (auto simp: is_digit_def json_ws_def)

lemma parse_elems_join:
  assumes IH: "\<And>x ws f r. x \<in> set vs \<Longrightarrow> list_all json_ws ws \<Longrightarrow> size x < f
                 \<Longrightarrow> r = [] \<or> \<not> is_digit (hd r)
                 \<Longrightarrow> json_parse_value f (ws @ json_pretty i2 x @ r) = Some (x, r)"
    and "vs \<noteq> []" and "size_list size vs < f" and "list_all json_ws ws"
    and "list_all json_ws ind" and "list_all json_ws i2"
  shows "json_parse_elems f
           (ws @ join_with (CHR '','' # CHR 0x0A # i2) (map (json_pretty i2) vs) @ CHR 0x0A # ind @ CHR '']'' # r)
         = Some (vs, r)"
  using assms
proof (induction vs arbitrary: ws f)
  case Nil
  then show ?case by simp
next
  case (Cons v vs)
  then obtain f' where f: "f = Suc f'" and sv: "size v < f'" and svs: "size_list size vs < f'"
    by (cases f) auto
  show ?case
  proof (cases vs)
    case Nil
    have "json_parse_value f' (ws @ json_pretty i2 v @ CHR 0x0A # ind @ CHR '']'' # r)
          = Some (v, CHR 0x0A # ind @ CHR '']'' # r)"
      using Cons.prems(1) Cons.prems(4) sv by (intro Cons.prems(1)) (simp_all add: is_digit_def)
    with Nil f Cons.prems(5) show ?thesis by (simp add: dropWhile_ws_prefix)
  next
    case (Cons w ws')
    let ?rest = "join_with (CHR '','' # CHR 0x0A # i2) (map (json_pretty i2) vs) @ CHR 0x0A # ind @ CHR '']'' # r"
    have pv: "json_parse_value f' (ws @ json_pretty i2 v @ CHR '','' # CHR 0x0A # i2 @ ?rest)
              = Some (v, CHR '','' # CHR 0x0A # i2 @ ?rest)"
      using Cons.prems(1) Cons.prems(4) sv by (intro Cons.prems(1)) (simp_all add: is_digit_def)
    have "json_parse_elems f' ((CHR 0x0A # i2) @ ?rest) = Some (vs, r)"
      using Cons.IH [where ws = "CHR 0x0A # i2" and f = f'] Cons.prems svs Cons by simp
    with pv f Cons show ?thesis by simp
  qed
qed

lemma parse_members_join:
  assumes IH: "\<And>k x ws f r. (k, x) \<in> set kvs \<Longrightarrow> list_all json_ws ws \<Longrightarrow> size x < f
                 \<Longrightarrow> r = [] \<or> \<not> is_digit (hd r)
                 \<Longrightarrow> json_parse_value f (ws @ json_pretty i2 x @ r) = Some (x, r)"
    and "kvs \<noteq> []" and "size_list (size_prod (\<lambda>x. 0) size) kvs < f" and "list_all json_ws ws"
    and "list_all json_ws ind" and "list_all json_ws i2"
  shows "json_parse_members f
           (ws @ join_with (CHR '','' # CHR 0x0A # i2)
                   (map (\<lambda>(k, v). json_quote k @ '': '' @ json_pretty i2 v) kvs)
               @ CHR 0x0A # ind @ CHR ''}'' # r)
         = Some (kvs, r)"
  using assms
proof (induction kvs arbitrary: ws f)
  case Nil
  then show ?case by simp
next
  case (Cons kv kvs)
  obtain k v where kv: "kv = (k, v)" by (cases kv)
  with Cons.prems(3) obtain f' where f: "f = Suc f'" and sv: "size v < f'"
      and svs: "size_list (size_prod (\<lambda>x. 0) size) kvs < f'"
    by (cases f) auto
  have key: "json_unesc (concat (map json_escape_char k) @ dq # t) = Some (k, t)" for t
    by (rule json_unesc_escaped)
  show ?case
  proof (cases kvs)
    case Nil
    have "json_parse_value f' (CHR '' '' # json_pretty i2 v @ CHR 0x0A # ind @ CHR ''}'' # r)
          = Some (v, CHR 0x0A # ind @ CHR ''}'' # r)"
      using Cons.prems(1) [of k v "[CHR '' '']"] kv sv by (simp add: is_digit_def)
    with Nil f kv Cons.prems(4,5) show ?thesis
      by (simp add: json_quote_def key dropWhile_ws_prefix)
  next
    case (Cons kw kvs')
    let ?rest = "join_with (CHR '','' # CHR 0x0A # i2) (map (\<lambda>(k, v). json_quote k @ '': '' @ json_pretty i2 v) kvs)
                 @ CHR 0x0A # ind @ CHR ''}'' # r"
    have pv: "json_parse_value f' (CHR '' '' # json_pretty i2 v @ CHR '','' # CHR 0x0A # i2 @ ?rest)
              = Some (v, CHR '','' # CHR 0x0A # i2 @ ?rest)"
      using Cons.prems(1) [of k v "[CHR '' '']"] kv sv by (simp add: is_digit_def)
    have IH': "json_parse_value f (ws @ json_pretty i2 x @ r) = Some (x, r)"
      if "(k, x) \<in> set kvs" "list_all json_ws ws" "size x < f" "r = [] \<or> \<not> is_digit (hd r)"
      for k x ws f r
      using that by (intro Cons.prems(1) [of k]) auto
    have "json_parse_members f' ((CHR 0x0A # i2) @ ?rest) = Some (kvs, r)"
      by (rule Cons.IH [where ws = "CHR 0x0A # i2" and f = f', OF IH'])
         (use Cons.prems svs Cons in simp_all)
    with pv f kv Cons Cons.prems(4) show ?thesis
      by (simp add: json_quote_def key dropWhile_ws_prefix)
  qed
qed

lemma json_pretty_head:
  "\<exists>c t. json_pretty ind v = c # t \<and> \<not> json_ws c \<and> c \<noteq> CHR '']'' \<and> c \<noteq> CHR ''}''"
proof (cases v)
  case (JNum n)
  obtain c t where "int_str n = c # t" and "c = CHR ''-'' \<or> is_digit c" using int_str_cons by blast
  moreover from this(2) have "\<not> json_ws c" by (auto dest: digit_not_ws)
  moreover from calculation(2) have "c \<noteq> CHR '']''" "c \<noteq> CHR ''}''" by (auto simp: is_digit_def)
  ultimately show ?thesis using JNum by simp
qed (auto simp: json_quote_def)

lemma join_with_head: "xs \<noteq> [] \<Longrightarrow> \<exists>u. join_with sep xs = hd xs @ u"
proof (cases xs)
  case (Cons x xs')
  then show ?thesis by (cases xs') auto
qed simp

lemma json_parse_pretty:
  "list_all json_ws ws \<Longrightarrow> list_all json_ws ind \<Longrightarrow> size v < f \<Longrightarrow> r = [] \<or> \<not> is_digit (hd r)
   \<Longrightarrow> json_parse_value f (ws @ json_pretty ind v @ r) = Some (v, r)"
proof (induction v arbitrary: ws ind f r)
  case JNull
  then obtain f' where "f = Suc f'" by (cases f) auto
  with JNull show ?case by (simp add: dropWhile_ws_prefix)
next
  case (JBool b)
  then obtain f' where "f = Suc f'" by (cases f) auto
  with JBool show ?case by (simp add: dropWhile_ws_prefix)
next
  case (JNum n)
  then obtain f' where f: "f = Suc f'" by (cases f) auto
  obtain c t where ct: "int_str n = c # t" and c: "c = CHR ''-'' \<or> is_digit c" using int_str_cons by blast
  from c have nw: "\<not> json_ws c" by (auto dest: digit_not_ws)
  from c have nc: "c \<noteq> dq" "c \<noteq> CHR ''['' " "c \<noteq> CHR ''{''" "c \<noteq> CHR ''n''"
    "c \<noteq> CHR ''t''" "c \<noteq> CHR ''f''"
    by (auto simp: is_digit_def dq_def)
  have "parse_number (c # t @ r) = Some (JNum n, r)"
    using parse_number_int_str [OF JNum.prems(4), of n] ct by simp
  with f ct nc nw JNum.prems(1) show ?case by (simp add: dropWhile_ws_prefix)
next
  case (JStr s)
  then obtain f' where "f = Suc f'" by (cases f) auto
  with JStr show ?case by (simp add: dropWhile_ws_prefix json_quote_def json_unesc_escaped)
next
  case (JArr vs)
  then obtain f' where f: "f = Suc f'" and svs: "size_list size vs < f'" by (cases f) auto
  show ?case
  proof (cases "vs = []")
    case True
    with f JArr.prems show ?thesis by (simp add: dropWhile_ws_prefix)
  next
    case False
    define i2 where "i2 = ind @ ''  ''"
    define J where "J = join_with (CHR '','' # CHR 0x0A # i2) (map (json_pretty i2) vs)"
    have i2: "list_all json_ws i2" using JArr.prems(2) by (simp add: i2_def)
    have elems: "json_parse_elems f' ((CHR 0x0A # i2) @ J @ CHR 0x0A # ind @ CHR '']'' # r) = Some (vs, r)"
      unfolding J_def
    proof (rule parse_elems_join)
      show "json_parse_value g (w @ json_pretty i2 x @ q) = Some (x, q)"
        if "x \<in> set vs" "list_all json_ws w" "size x < g" "q = [] \<or> \<not> is_digit (hd q)" for x w g q
        using JArr.IH [OF that(1) that(2) i2 that(3) that(4)] .
    qed (use False svs JArr.prems i2 in simp_all)
    obtain u where "J = json_pretty i2 (hd vs) @ u"
      using join_with_head [of "map (json_pretty i2) vs"] False by (auto simp: J_def hd_map)
    moreover obtain c t where "json_pretty i2 (hd vs) = c # t" and "\<not> json_ws c" and "c \<noteq> CHR '']''"
      using json_pretty_head by blast
    ultimately have "dropWhile json_ws ((CHR 0x0A # i2) @ J @ CHR 0x0A # ind @ CHR '']'' # r)
                     = c # t @ u @ CHR 0x0A # ind @ CHR '']'' # r" and "c \<noteq> CHR '']''"
      using i2 by (simp_all add: dropWhile_ws_prefix)
    with elems f False JArr.prems(1) show ?thesis
      by (simp add: dropWhile_ws_prefix J_def i2_def)
  qed
next
  case (JObj kvs)
  then obtain f' where f: "f = Suc f'" and svs: "size_list (size_prod (\<lambda>x. 0) size) kvs < f'"
    by (cases f) auto
  show ?case
  proof (cases "kvs = []")
    case True
    with f JObj.prems show ?thesis by (simp add: dropWhile_ws_prefix)
  next
    case False
    define i2 where "i2 = ind @ ''  ''"
    define J where "J = join_with (CHR '','' # CHR 0x0A # i2)
                          (map (\<lambda>(k, v). json_quote k @ '': '' @ json_pretty i2 v) kvs)"
    have i2: "list_all json_ws i2" using JObj.prems(2) by (simp add: i2_def)
    have members: "json_parse_members f' ((CHR 0x0A # i2) @ J @ CHR 0x0A # ind @ CHR ''}'' # r) = Some (kvs, r)"
      unfolding J_def
    proof (rule parse_members_join)
      show "json_parse_value g (w @ json_pretty i2 x @ q) = Some (x, q)"
        if "(k, x) \<in> set kvs" "list_all json_ws w" "size x < g" "q = [] \<or> \<not> is_digit (hd q)" for k x w g q
        using JObj.IH [OF that(1) _ that(2) i2 that(3) that(4)] by simp
    qed (use False svs JObj.prems i2 in simp_all)
    obtain k v where hkv: "hd kvs = (k, v)" by (cases "hd kvs")
    obtain u where "J = (json_quote k @ '': '' @ json_pretty i2 v) @ u"
      using join_with_head [of "map (\<lambda>(k, v). json_quote k @ '': '' @ json_pretty i2 v) kvs"] False hkv
      by (auto simp: J_def hd_map)
    then have "dropWhile json_ws ((CHR 0x0A # i2) @ J @ CHR 0x0A # ind @ CHR ''}'' # r)
               = dq # concat (map json_escape_char k) @ dq # '': '' @ json_pretty i2 v @ u @ CHR 0x0A # ind @ CHR ''}'' # r"
      using i2 by (simp add: dropWhile_ws_prefix json_quote_def)
    with members f False JObj.prems(1) show ?thesis
      by (simp add: dropWhile_ws_prefix J_def i2_def)
  qed
qed

lemma json_pretty_inj:
  assumes "list_all json_ws ind" and "json_pretty ind v = json_pretty ind w"
  shows "v = w"
proof -
  have 1: "json_parse_value (Suc (size v + size w)) ([] @ json_pretty ind v @ []) = Some (v, [])"
    by (rule json_parse_pretty) (use assms(1) in simp_all)
  have 2: "json_parse_value (Suc (size v + size w)) ([] @ json_pretty ind w @ []) = Some (w, [])"
    by (rule json_parse_pretty) (use assms(1) in simp_all)
  from 1 2 assms(2) show ?thesis by simp
qed

lemma js_trim_keeps_middle:
  assumes "list_all js_ws a" and "x \<noteq> []" and "\<not> js_ws (hd x)" and "c \<in> set y" and "\<not> js_ws c"
  shows "\<exists>y'. js_trim (a @ x @ y) = x @ y' \<and> take 1 y' = take 1 y"
proof -
  have d1: "dropWhile js_ws (a @ x @ y) = x @ y"
    using assms(1-3) by (cases x) (simp_all add: list_all_iff dropWhile_append2)
  define t where "t = takeWhile js_ws (rev y)"
  define d where "d = dropWhile js_ws (rev y)"
  have ty: "y = rev d @ rev t" by (simp add: t_def d_def flip: rev_append)
  have "c \<in> set d"
  proof -
    have "c \<in> set (t @ d)" using assms(4) by (simp add: t_def d_def)
    moreover have "c \<notin> set t" using assms(5) by (auto simp: t_def dest: set_takeWhileD)
    ultimately show ?thesis by auto
  qed
  have "dropWhile js_ws (rev y @ rev x) = d @ rev x"
    unfolding d_def by (rule dropWhile_append1 [of c]) (use assms(4,5) in simp_all)
  then have "js_trim (a @ x @ y) = x @ rev d"
    using d1 by (simp add: js_trim_def)
  moreover have "take 1 (rev d) = take 1 y"
    using \<open>c \<in> set d\<close> ty by (cases "rev d") auto
  ultimately show ?thesis by blast
qed

lemma hex_digit_printable: "n < 16 \<Longrightarrow> 0x20 \<le> (of_char (hex_digit n) :: nat)"
  by (simp add: hex_digit_def)

lemma json_escape_char_printable:
  assumes "x \<in> set (json_escape_char c)"
  shows "0x20 \<le> (of_char x :: nat)"
proof -
  have "(of_char c :: nat) div 16 < 16"
    using nat_of_char_less_256 [of c] by (simp add: div_less_iff_less_mult)
  then show ?thesis
    using assms hex_digit_printable [of "of_char c div 16"] hex_digit_printable [of "of_char c mod 16"]
    by (auto simp: json_escape_char_def Let_def bs_def dq_def split: if_splits)
qed

lemma json_quote_printable: "x \<in> set (json_quote s) \<Longrightarrow> 0x20 \<le> (of_char x :: nat)"
  by (auto simp: json_quote_def dq_def dest: json_escape_char_printable)

lemma int_str_printable: "x \<in> set (int_str n) \<Longrightarrow> 0x20 \<le> (of_char x :: nat)"
  by (auto simp: int_str_def split: if_splits dest: nat_str_digits)

lemma list_all_join_with:
  "list_all P sep \<Longrightarrow> (\<And>x. x \<in> set xs \<Longrightarrow> list_all P x) \<Longrightarrow> list_all P (join_with sep xs)"
  by (induction sep xs rule: join_with.induct) simp_all

text \<open>
  \<open>JSON.stringify(v, null, 2)\<close> as the application calls it produces
  text whose only control characters are the line feeds of its layout:
  every control character inside a string or key is escaped, so the printed
  value cannot break the lines of the summary texts and prompts it is
  embedded in.
\<close>

theorem json_pretty_text:
  "list_all json_text_char ind \<Longrightarrow> list_all json_text_char (json_pretty ind v)"
proof (induction ind v rule: json_pretty.induct)
  case (3 ind n)
  then show ?case by (auto simp: list_all_iff json_text_char_def dest: int_str_printable)
next
  case (4 ind s)
  then show ?case by (auto simp: list_all_iff json_text_char_def dest: json_quote_printable)
next
  case (5 ind vs)
  have sep: "list_all json_text_char ('','' @ ''\<newline>'' @ ind @ ''  '')"
    using "5.prems" by (simp add: json_text_char_def list_all_iff)
  have ind2: "list_all json_text_char (ind @ ''  '')"
    using "5.prems" by (simp add: json_text_char_def list_all_iff)
  have "list_all json_text_char (json_pretty (ind @ ''  '') v)" if "v \<in> set vs" for v
    using that ind2 by (intro "5.IH") auto
  then have "list_all json_text_char (join_with ('','' @ ''\<newline>'' @ ind @ ''  '') (map (json_pretty (ind @ ''  '')) vs))"
    using sep by (intro list_all_join_with) auto
  with "5.prems" show ?case by (auto simp: json_text_char_def list_all_iff)
next
  case (6 ind kvs)
  have sep: "list_all json_text_char ('','' @ ''\<newline>'' @ ind @ ''  '')"
    using "6.prems" by (simp add: json_text_char_def list_all_iff)
  have "list_all json_text_char (json_quote k @ '': '' @ json_pretty (ind @ ''  '') v)" if "(k, v) \<in> set kvs" for k v
  proof -
    have ind2: "list_all json_text_char (ind @ ''  '')"
      using "6.prems" by (simp add: json_text_char_def list_all_iff)
    have "list_all json_text_char (json_pretty (ind @ ''  '') v)"
      using that ind2 by (intro "6.IH") auto
    then show ?thesis by (auto simp: list_all_iff json_text_char_def dest: json_quote_printable)
  qed
  then have "list_all json_text_char (join_with ('','' @ ''\<newline>'' @ ind @ ''  '')
       (map (\<lambda>(k, v). json_quote k @ '': '' @ json_pretty (ind @ ''  '') v) kvs))"
    using sep by (intro list_all_join_with) auto
  with "6.prems" show ?case by (auto simp: json_text_char_def list_all_iff)
qed (simp_all add: json_text_char_def)

theorem json_pretty_text_witness:
  "list_all json_text_char (json_pretty [] (JObj [(''a\<newline>b'', JArr [JStr [CHR 0x09], JNum (-3)])]))"
  by (rule json_pretty_text) simp

end
