(* ===== verification/Canvas.thy ===== *)
theory Canvas
  imports Prelude
begin

text \<open>
  The part of the HTML canvas API the detection overlays use.  A canvas is its
  size and its 2D context; the context holds the drawing state (font, fill and
  stroke style, line width, current path) and, as the picture, the list of
  items painted since the bitmap was last cleared.  As the HTML standard
  specifies, assigning \<open>canvas.width\<close> or \<open>canvas.height\<close> (even the same
  value) clears the bitmap and resets the context to its defaults, and
  \<open>clearRect\<close> over the whole canvas leaves nothing painted.
  \<open>measureText\<close> depends on the font engine, so it is a parameter
  \<open>measure font text\<close> of the code that calls it.  Colours are kept as the
  strings the code assigns.
\<close>

datatype painted =
    PStrokeRect string rat rat rat rat rat
  | PFillRect string rat rat rat rat
  | PText string string string rat rat
  | PFilledArc string rat rat rat

record ctx2d =
  cx_font :: string
  cx_fill :: string
  cx_stroke :: string
  cx_line_width :: rat
  cx_path :: "(rat \<times> rat \<times> rat) list"
  cx_painted :: "painted list"

record canvas =
  cv_width :: nat
  cv_height :: nat
  cv_ctx :: ctx2d

text \<open>The context's initial state.\<close>

definition ctx_reset :: ctx2d where
  "ctx_reset = \<lparr>cx_font = ''10px sans-serif'', cx_fill = ''#000000'', cx_stroke = ''#000000'',
     cx_line_width = 1, cx_path = [], cx_painted = []\<rparr>"

text \<open>\<open>canvas.width = w; canvas.height = h\<close>.\<close>

definition set_size :: "nat \<Rightarrow> nat \<Rightarrow> canvas \<Rightarrow> canvas" where
  "set_size w h cv = \<lparr>cv_width = w, cv_height = h, cv_ctx = ctx_reset\<rparr>"

text \<open>\<open>ctx.clearRect(0, 0, canvas.width, canvas.height)\<close>.\<close>

definition clear_all :: "ctx2d \<Rightarrow> ctx2d" where
  "clear_all c = c\<lparr>cx_painted := []\<rparr>"

definition stroke_rect :: "rat \<Rightarrow> rat \<Rightarrow> rat \<Rightarrow> rat \<Rightarrow> ctx2d \<Rightarrow> ctx2d" where
  "stroke_rect x y w h c =
     c\<lparr>cx_painted := cx_painted c @ [PStrokeRect (cx_stroke c) (cx_line_width c) x y w h]\<rparr>"

definition fill_rect :: "rat \<Rightarrow> rat \<Rightarrow> rat \<Rightarrow> rat \<Rightarrow> ctx2d \<Rightarrow> ctx2d" where
  "fill_rect x y w h c = c\<lparr>cx_painted := cx_painted c @ [PFillRect (cx_fill c) x y w h]\<rparr>"

definition fill_text :: "string \<Rightarrow> rat \<Rightarrow> rat \<Rightarrow> ctx2d \<Rightarrow> ctx2d" where
  "fill_text t x y c = c\<lparr>cx_painted := cx_painted c @ [PText (cx_fill c) (cx_font c) t x y]\<rparr>"

definition begin_path :: "ctx2d \<Rightarrow> ctx2d" where
  "begin_path c = c\<lparr>cx_path := []\<rparr>"

text \<open>\<open>ctx.arc(x, y, r, 0, 2 * Math.PI)\<close>: a full circle.\<close>

definition arc :: "rat \<Rightarrow> rat \<Rightarrow> rat \<Rightarrow> ctx2d \<Rightarrow> ctx2d" where
  "arc x y r c = c\<lparr>cx_path := cx_path c @ [(x, y, r)]\<rparr>"

definition fill_path :: "ctx2d \<Rightarrow> ctx2d" where
  "fill_path c =
     c\<lparr>cx_painted := cx_painted c @ map (\<lambda>(x, y, r). PFilledArc (cx_fill c) x y r) (cx_path c)\<rparr>"

text \<open>\<open>n || d\<close> for a media dimension: \<open>0\<close> is falsy.\<close>

definition or_default :: "nat \<Rightarrow> nat \<Rightarrow> nat" where
  "or_default n d = (if n = 0 then d else n)"

subsection \<open>Lemmas\<close>

lemma painted_ops [simp]:
  "cx_painted (stroke_rect x y w h c) = cx_painted c @ [PStrokeRect (cx_stroke c) (cx_line_width c) x y w h]"
  "cx_painted (fill_rect x y w h c) = cx_painted c @ [PFillRect (cx_fill c) x y w h]"
  "cx_painted (fill_text t x y c) = cx_painted c @ [PText (cx_fill c) (cx_font c) t x y]"
  "cx_painted (clear_all c) = []"
  by (simp_all add: stroke_rect_def fill_rect_def fill_text_def clear_all_def)

lemma style_ops [simp]:
  "cx_font (stroke_rect x y w h c) = cx_font c" "cx_font (fill_rect x y w h c) = cx_font c"
  "cx_font (fill_text t x y c) = cx_font c" "cx_font (clear_all c) = cx_font c"
  "cx_fill (stroke_rect x y w h c) = cx_fill c" "cx_fill (fill_rect x y w h c) = cx_fill c"
  "cx_fill (fill_text t x y c) = cx_fill c" "cx_fill (clear_all c) = cx_fill c"
  by (simp_all add: stroke_rect_def fill_rect_def fill_text_def clear_all_def)

end
