(* ===== verification/SessionViews.thy ===== *)
theory SessionViews
  imports SessionController Json Canvas
begin

text \<open>
  What the two session managers show: their detection overlays, drawn by a
  \<open>useEffect\<close> on a canvas, the summary text \<open>handleGenerateSummary\<close>
  hands to the parent, and AdvancedSessionManager's dashboard.  SessionManager.tsx drives the object hook alone;
  AdvancedSessionManager.tsx drives the controller of \<open>SessionController\<close>.

  A React render is followed by the commit of its elements and refs, then by
  the effects whose dependencies changed.  SessionManager's canvas is
  rendered only when \<open>isDetecting && canvasRef.current\<close> holds, and the ref
  is set only by mounting that canvas: \<open>sm_commit\<close> is this, and
  \<open>sm_render\<close> is a render followed by the drawing effect.
\<close>

subsection \<open>SessionManager.tsx\<close>

text \<open>The element the overlay is sized on: a video (\<open>videoWidth\<close>,
  \<open>videoHeight\<close>) or an image (\<open>naturalWidth\<close>, \<open>naturalHeight\<close>).\<close>

datatype media = MediaVideo nat nat | MediaImage nat nat

definition media_size :: "media \<Rightarrow> nat \<times> nat" where
  "media_size m =
     (case m of
        MediaVideo w h \<Rightarrow> (or_default w 640, or_default h 480)
      | MediaImage w h \<Rightarrow> (or_default w 640, or_default h 480))"

definition sm_label :: "detection \<Rightarrow> string" where
  "sm_label d = det_class d @ '' '' @ int_str (js_round (det_score d * 100)) @ ''%''"

text \<open>One iteration of \<open>detections.forEach\<close> (lines 51--71); the label is
  measured before the font is set.\<close>

definition sm_draw_detection :: "(string \<Rightarrow> string \<Rightarrow> rat) \<Rightarrow> detection \<Rightarrow> ctx2d \<Rightarrow> ctx2d" where
  "sm_draw_detection mt d c =
     (case det_bbox d of
        (x, y, w, h) \<Rightarrow>
          let c1 = stroke_rect x y w h (c\<lparr>cx_stroke := ''#00ff00'', cx_line_width := 3\<rparr>);
              tw = mt (cx_font c1) (sm_label d);
              c2 = fill_rect x (y - 20 - 4) (tw + 10) (20 + 4) (c1\<lparr>cx_fill := ''#00ff00''\<rparr>)
          in fill_text (sm_label d) (x + 5) (y - 8) (c2\<lparr>cx_fill := ''#000'', cx_font := ''bold 14px Arial''\<rparr>))"

text \<open>The drawing effect (lines 31--72): the canvas the ref holds afterwards.\<close>

definition sm_draw_effect ::
  "(string \<Rightarrow> string \<Rightarrow> rat) \<Rightarrow> canvas option \<Rightarrow> media option \<Rightarrow> detection list \<Rightarrow> canvas option" where
  "sm_draw_effect mt cvo mo dets =
     (case (cvo, mo) of
        (Some cv, Some m) \<Rightarrow>
          if dets = [] then Some cv
          else
            (let cv1 = set_size (fst (media_size m)) (snd (media_size m)) cv
             in Some (cv1\<lparr>cv_ctx := fold (sm_draw_detection mt) dets (clear_all (cv_ctx cv1))\<rparr>))
      | _ \<Rightarrow> cvo)"

record sm_view =
  smv_canvas :: "canvas option"

definition sm_view_init :: sm_view where
  "sm_view_init = \<lparr>smv_canvas = None\<rparr>"

text \<open>Render and commit (lines 100--114): the canvas stays mounted, with its
  ref, only while the condition holds.\<close>

definition sm_commit :: "bool \<Rightarrow> sm_view \<Rightarrow> sm_view" where
  "sm_commit detecting v =
     (if detecting \<and> smv_canvas v \<noteq> None then v else v\<lparr>smv_canvas := None\<rparr>)"

definition sm_render ::
  "(string \<Rightarrow> string \<Rightarrow> rat) \<Rightarrow> media option \<Rightarrow> obj_hook \<Rightarrow> sm_view \<Rightarrow> sm_view" where
  "sm_render mt mo h v =
     (let v1 = sm_commit (obj_is_detecting h) v
      in v1\<lparr>smv_canvas := sm_draw_effect mt (smv_canvas v1) mo (obj_detections h)\<rparr>)"

text \<open>\<open>handleStart\<close> and \<open>handleStop\<close> (lines 74--82).\<close>

definition sm_handle_start :: "media option \<Rightarrow> obj_hook \<Rightarrow> obj_hook" where
  "sm_handle_start mo h = (case mo of Some m \<Rightarrow> start_detection h | None \<Rightarrow> h)"

definition sm_handle_stop :: "obj_hook \<Rightarrow> obj_hook" where
  "sm_handle_stop h = stop_detection h"

text \<open>The summary text of \<open>handleGenerateSummary\<close> (lines 84--95).
  \<open>toLocaleTimeString\<close> is the parameter \<open>fmt\<close>.\<close>

definition sm_summary_text :: "(timestamp \<Rightarrow> string) \<Rightarrow> obj_summary \<Rightarrow> string" where
  "sm_summary_text fmt sm = js_trim
     (''\<newline>Session Analytics:\<newline>- Duration: '' @ sum_duration sm
      @ ''\<newline>- Total Detections: '' @ nat_str (sum_total sm)
      @ ''\<newline>- Object Counts: '' @ json_pretty [] (json_of_counts (sum_counts sm))
      @ ''\<newline>- Recent Activity: ''
      @ join_with '', '' (map (\<lambda>t. fmt (te_time t) @ '': '' @ te_object t) (js_slice_neg 10 (sum_timeline sm)))
      @ ''\<newline>    '')"

definition sm_generate_summary :: "(timestamp \<Rightarrow> string) \<Rightarrow> timestamp \<Rightarrow> obj_hook \<Rightarrow> string" where
  "sm_generate_summary fmt now h = sm_summary_text fmt (get_detection_summary h now None)"

subsection \<open>AdvancedSessionManager.tsx\<close>

text \<open>The overlay effect (lines 52--135): objects in blue, faces in green,
  hands in orange.  \<open>gtext\<close> is the text \<open>${hand.gesture}\<close> prints.\<close>

definition asm_draw_object :: "detection \<Rightarrow> ctx2d \<Rightarrow> ctx2d" where
  "asm_draw_object d c =
     (case det_bbox d of
        (x, y, w, h) \<Rightarrow>
          let c1 = stroke_rect x y w h (c\<lparr>cx_stroke := ''#3b82f6'', cx_line_width := 2\<rparr>);
              c2 = fill_rect x (y - 20) w 20 (c1\<lparr>cx_fill := ''#3b82f6''\<rparr>)
          in fill_text (sm_label d) (x + 5) (y - 5) (c2\<lparr>cx_fill := ''#fff'', cx_font := ''12px Arial''\<rparr>))"

definition face_caption :: "face \<Rightarrow> string" where
  "face_caption f =
     face_emotion f @ '' ''
     @ (case face_age f of
          Some a \<Rightarrow> if a \<noteq> 0 then ''('' @ int_str (js_round a) @ ''y, ''
                                 @ (case face_gender f of Some g \<Rightarrow> g | None \<Rightarrow> ''undefined'') @ '')''
                    else []
        | None \<Rightarrow> [])"

definition asm_draw_face :: "(string \<Rightarrow> string \<Rightarrow> rat) \<Rightarrow> face \<Rightarrow> ctx2d \<Rightarrow> ctx2d" where
  "asm_draw_face mt f c =
     (let b = face_box f;
          c1 = stroke_rect (box_x b) (box_y b) (box_w b) (box_h b)
                 (c\<lparr>cx_stroke := ''#10b981'', cx_line_width := 3\<rparr>);
          label = ''Person #'' @ nat_str (face_id f) @ '' - '' @ face_emotion f;
          lw = mt (cx_font c1) label + 10;
          c2 = fill_rect (box_x b) (box_y b - 50) lw 50 (c1\<lparr>cx_fill := ''#10b981''\<rparr>);
          c3 = fill_text (''Person #'' @ nat_str (face_id f)) (box_x b + 5) (box_y b - 30)
                 (c2\<lparr>cx_fill := ''#fff'', cx_font := ''bold 14px Arial''\<rparr>)
      in fill_text (face_caption f) (box_x b + 5) (box_y b - 10) (c3\<lparr>cx_font := ''12px Arial''\<rparr>))"

fun handedness_str :: "handedness \<Rightarrow> string" where
  "handedness_str Left = ''Left''"
| "handedness_str Right = ''Right''"

definition asm_draw_landmark :: "nat \<Rightarrow> nat \<Rightarrow> landmark \<Rightarrow> ctx2d \<Rightarrow> ctx2d" where
  "asm_draw_landmark cw ch l c =
     fill_path (arc (lm_x l * of_nat cw) (lm_y l * of_nat ch) 5 (begin_path (c\<lparr>cx_fill := ''#f59e0b''\<rparr>)))"

definition asm_draw_hand ::
  "(string \<Rightarrow> string \<Rightarrow> rat) \<Rightarrow> (gesture \<Rightarrow> string) \<Rightarrow> nat \<Rightarrow> nat \<Rightarrow> hand \<Rightarrow> ctx2d \<Rightarrow> ctx2d" where
  "asm_draw_hand mt gtext cw ch hn c =
     (case hand_landmarks hn of
        [] \<Rightarrow> c
      | wrist # _ \<Rightarrow>
          let c1 = fold (asm_draw_landmark cw ch) (hand_landmarks hn) c;
              x = lm_x wrist * of_nat cw; y = lm_y wrist * of_nat ch;
              label = handedness_str (hand_handedness hn) @ '': '' @ gtext (hand_gesture hn);
              lw = mt (cx_font c1) label + 10;
              c2 = fill_rect x (y - 30) lw 25 (c1\<lparr>cx_fill := ''#f59e0b''\<rparr>)
          in fill_text label (x + 5) (y - 10) (c2\<lparr>cx_fill := ''#000'', cx_font := ''bold 12px Arial''\<rparr>))"

definition asm_draw_effect ::
  "(string \<Rightarrow> string \<Rightarrow> rat) \<Rightarrow> (gesture \<Rightarrow> string) \<Rightarrow> canvas option \<Rightarrow> (nat \<times> nat) option
   \<Rightarrow> detection list \<Rightarrow> face list \<Rightarrow> hand list \<Rightarrow> canvas option" where
  "asm_draw_effect mt gtext cvo vo dets faces hands =
     (case (cvo, vo) of
        (Some cv, Some (vw, vh)) \<Rightarrow>
          (let cv1 = set_size (or_default vw 640) (or_default vh 480) cv;
               c = fold (asm_draw_object) dets (clear_all (cv_ctx cv1));
               c' = fold (asm_draw_face mt) faces c
           in Some (cv1\<lparr>cv_ctx := fold (asm_draw_hand mt gtext (cv_width cv1) (cv_height cv1)) hands c'\<rparr>))
      | _ \<Rightarrow> cvo)"

text \<open>The summary text (lines 151--179).  Its section headings begin with
  emoji, code points above 255, so the text is parametric in how each emoji
  is written (\<open>emj\<close>); \<open>EStopwatch\<close> is U+23F1 with its variation selector.\<close>

datatype emoji = ETarget | EPackage | EPerson | ESmile | EHandshake | ERaisedHand | EStopwatch

definition asm_summary_text ::
  "(emoji \<Rightarrow> string) \<Rightarrow> obj_summary \<Rightarrow> face_summary \<Rightarrow> counts \<Rightarrow> string" where
  "asm_summary_text emj os fs gestures = js_trim
     (''\<newline>'' @ emj ETarget @ '' Complete Session Analytics:\<newline>\<newline>''
      @ emj EPackage @ '' Objects Detected:\<newline>'' @ json_pretty [] (json_of_counts (sum_counts os))
      @ ''\<newline>\<newline>'' @ emj EPerson @ '' People Analysis:\<newline>- Unique People: '' @ nat_str (fs_unique_people fs)
      @ ''\<newline>- Total Face Detections: '' @ nat_str (fs_total_detections fs)
      @ ''\<newline>- Current People in Frame: '' @ nat_str (fs_current_faces fs)
      @ ''\<newline>\<newline>'' @ emj ESmile @ '' Emotions:\<newline>'' @ json_pretty [] (json_of_counts (fs_emotions fs))
      @ ''\<newline>\<newline>'' @ emj EHandshake @ '' Interactions:\<newline>'' @ join_with ''\<newline>'' (fs_interactions fs)
      @ ''\<newline>\<newline>'' @ emj ERaisedHand @ '' Gestures Detected:\<newline>'' @ json_pretty [] (json_of_counts gestures)
      @ ''\<newline>\<newline>'' @ emj EStopwatch @ '' Session Duration: '' @ sum_duration os
      @ ''\<newline>    '')"

definition asm_generate_summary :: "(emoji \<Rightarrow> string) \<Rightarrow> timestamp \<Rightarrow> session \<Rightarrow> string" where
  "asm_generate_summary emj now s =
     asm_summary_text emj (get_detection_summary (s_obj s) now None) (face_get_summary (s_face s))
       (hh_gesture_stats (s_hand s))"

text \<open>The dashboard (lines 181--336), as the data it shows.  The overlay
  canvas, the statistics and the action buttons are rendered only while the
  session is active; the loading note while the object model loads; the
  Start button (with its \<open>disabled\<close> condition) while idle, the Stop button
  while active.  The statistics show the unique people and the faces in
  frame, the first two emotion entries and the last interaction, one card
  per hand when there are hands, and the first six object counters when the
  counter object has a key; entries come in \<open>Object.entries\<close> order.\<close>

datatype asm_button = StartButton bool | StopButton

record asm_panels =
  ap_unique_people :: nat
  ap_in_frame :: nat
  ap_emotions :: counts
  ap_last_interaction :: "string option"
  ap_hands :: "(handedness \<times> gesture \<times> int) list option"
  ap_objects :: "counts option"

record asm_dashboard =
  ad_canvas :: bool
  ad_loading :: bool
  ad_button :: asm_button
  ad_panels :: "asm_panels option"
  ad_actions :: bool

definition asm_panels_of :: "session \<Rightarrow> asm_panels" where
  "asm_panels_of s =
     (let fs = fh_stats (s_face s); hs = hh_hands (s_hand s); os = obj_stats (s_obj s) in
      \<lparr>ap_unique_people = unique_people fs,
       ap_in_frame = length (fh_faces (s_face s)),
       ap_emotions = take 2 (js_key_order (emotions fs)),
       ap_last_interaction = (if interactions fs \<noteq> [] then Some (last (interactions fs)) else None),
       ap_hands = (if hs \<noteq> [] then Some (map (\<lambda>h. (hand_handedness h, hand_gesture h, hand_finger_count h)) hs)
                   else None),
       ap_objects = (if os \<noteq> [] then Some (take 6 (js_key_order os)) else None)\<rparr>)"

definition asm_dashboard :: "session \<Rightarrow> asm_dashboard" where
  "asm_dashboard s =
     \<lparr>ad_canvas = is_session_active s,
      ad_loading = obj_is_loading (s_obj s),
      ad_button = (if is_session_active s then StopButton else StartButton (start_disabled s)),
      ad_panels = (if is_session_active s then Some (asm_panels_of s) else None),
      ad_actions = is_session_active s\<rparr>"

text \<open>The face hook as the controller leaves it: no detection loop runs, so
  no face, history entry or statistic is ever recorded.\<close>

definition face_quiet :: "face_hook \<Rightarrow> bool" where
  "face_quiet f \<longleftrightarrow> fh_faces f = [] \<and> fh_history f = [] \<and> fh_stats f = empty_person_stats"

subsection \<open>Lemmas\<close>

lemma sm_render_unmounted:
  "smv_canvas v = None \<Longrightarrow> smv_canvas (sm_render mt mo h v) = None"
  by (simp add: sm_render_def sm_commit_def sm_draw_effect_def Let_def)

text \<open>
  C9: SessionManager's overlay canvas is never mounted: whatever the hook
  does, after every render its ref is still null, so no detection box is
  ever drawn.
\<close>

theorem sm_overlay_never_mounted:
  "smv_canvas (fold (\<lambda>(mo, h) v. sm_render mt mo h v) rs sm_view_init) = None"
proof -
  have "smv_canvas v = None \<Longrightarrow> smv_canvas (fold (\<lambda>(mo, h) v. sm_render mt mo h v) rs v) = None" for v
    by (induction rs arbitrary: v) (auto simp: sm_render_unmounted)
  then show ?thesis by (simp add: sm_view_init_def)
qed

lemma sess_step_quiet:
  assumes "sess_step op s t" and "face_quiet (s_face s)" and "hh_gesture_stats (s_hand s) = []"
  shows "face_quiet (s_face t) \<and> hh_gesture_stats (s_hand t) = []"
  using assms
  by (induction rule: sess_step.induct)
     (auto simp: handle_start_all_def handle_stop_all_def face_quiet_def face_start_def face_stop_def
        hand_start_def hand_stop_def hand_load_def)

lemma sess_reachable_quiet:
  "sess_reachable s \<Longrightarrow> face_quiet (s_face s) \<and> hh_gesture_stats (s_hand s) = []"
  by (induction rule: sess_reachable.induct)
     (auto simp: sess_init_def face_init_def hand_init_def face_quiet_def dest: sess_step_quiet)

text \<open>
  In every reachable controller state, the generated summary reports
  zero people and face detections, empty emotions, no interactions and no
  gestures: only the object sections and the duration vary.
\<close>

theorem session_summary_quiet:
  assumes "sess_reachable s"
  shows "asm_generate_summary emj now s =
     asm_summary_text emj (get_detection_summary (s_obj s) now None)
       \<lparr>fs_unique_people = 0, fs_total_detections = 0, fs_emotions = [], fs_interactions = [],
        fs_current_faces = 0\<rparr> []"
  using sess_reachable_quiet [OF assms]
  by (simp add: asm_generate_summary_def face_get_summary_def face_quiet_def empty_person_stats_def)

text \<open>
  The object-count section of SessionManager's summary text parses
  back: the text is a fixed prefix, the counter object printed by
  \<open>JSON.stringify(_, null, 2)\<close>, and a rest on which the JSON parser
  stops, returning exactly that object.
\<close>

theorem sm_summary_counts_roundtrip:
  "\<exists>post. sm_summary_text fmt sm =
      ''Session Analytics:\<newline>- Duration: '' @ sum_duration sm @ ''\<newline>- Total Detections: ''
      @ nat_str (sum_total sm) @ ''\<newline>- Object Counts: '' @ json_pretty [] (json_of_counts (sum_counts sm)) @ post
    \<and> json_parse_value (Suc (size (json_of_counts (sum_counts sm))))
        (json_pretty [] (json_of_counts (sum_counts sm)) @ post)
      = Some (json_of_counts (sum_counts sm), post)"
proof -
  let ?x = "''Session Analytics:\<newline>- Duration: '' @ sum_duration sm @ ''\<newline>- Total Detections: ''
      @ nat_str (sum_total sm) @ ''\<newline>- Object Counts: '' @ json_pretty [] (json_of_counts (sum_counts sm))"
  let ?y = "''\<newline>- Recent Activity: ''
      @ join_with '', '' (map (\<lambda>t. fmt (te_time t) @ '': '' @ te_object t) (js_slice_neg 10 (sum_timeline sm)))
      @ ''\<newline>    ''"
  obtain y' where y': "js_trim (''\<newline>'' @ ?x @ ?y) = ?x @ y'" and hd: "take 1 y' = take 1 ?y"
    using js_trim_keeps_middle [of "''\<newline>''" ?x "CHR ''R''" ?y] by (auto simp: js_ws_def)
  have "sm_summary_text fmt sm = ?x @ y'"
    using y' by (simp add: sm_summary_text_def)
  moreover have "y' = [] \<or> \<not> is_digit (hd y')"
    using hd by (cases y') (auto simp: is_digit_def)
  then have "json_parse_value (Suc (size (json_of_counts (sum_counts sm))))
        ([] @ json_pretty [] (json_of_counts (sum_counts sm)) @ y') = Some (json_of_counts (sum_counts sm), y')"
    by (intro json_parse_pretty) simp_all
  ultimately show ?thesis by auto
qed

text \<open>The buttons the dashboard offers are exactly the controller's
  handler steps: an enabled Start button while \<open>handle_start_all\<close> may
  run, the Stop button while \<open>handle_stop_all\<close> may.\<close>

lemma asm_dashboard_buttons:
  "ad_button (asm_dashboard s) = StartButton False \<longleftrightarrow> \<not> is_session_active s \<and> \<not> start_disabled s"
  "ad_button (asm_dashboard s) = StopButton \<longleftrightarrow> is_session_active s"
  by (simp_all add: asm_dashboard_def)

lemma sess_reachable_no_hands: "sess_reachable s \<Longrightarrow> hh_hands (s_hand s) = []"
proof -
  assume "sess_reachable s"
  then have "sess_inv s"
    by (induction rule: sess_reachable.induct) (simp_all add: sess_inv_init sess_step_inv)
  then show ?thesis by (simp add: sess_inv_def)
qed

text \<open>While a session runs, the dashboard's face panel shows nobody and
  no emotion or interaction, and the hand panel is absent: no hook of the
  controller ever records a face or a hand.\<close>

theorem asm_dashboard_quiet:
  assumes "sess_reachable s" and "is_session_active s"
  shows "ad_panels (asm_dashboard s) = Some (asm_panels_of s)
    \<and> ap_unique_people (asm_panels_of s) = 0 \<and> ap_in_frame (asm_panels_of s) = 0
    \<and> ap_emotions (asm_panels_of s) = [] \<and> ap_last_interaction (asm_panels_of s) = None
    \<and> ap_hands (asm_panels_of s) = None"
  using assms sess_reachable_quiet [OF assms(1)] sess_reachable_no_hands [OF assms(1)]
  by (simp add: asm_dashboard_def asm_panels_of_def face_quiet_def empty_person_stats_def js_key_order_def Let_def)

subsection \<open>Witnesses\<close>

theorem session_summary_quiet_witness:
  "asm_generate_summary (\<lambda>e. ''*'') 5000
     (handle_start_all (sess_init\<lparr>s_video := True, s_hand := hand_load hand_init, s_obj := load_model_ok obj_init\<rparr>))
   = asm_summary_text (\<lambda>e. ''*'')
       (get_detection_summary (s_obj (handle_start_all (sess_init\<lparr>s_video := True, s_hand := hand_load hand_init,
           s_obj := load_model_ok obj_init\<rparr>))) 5000 None)
       \<lparr>fs_unique_people = 0, fs_total_detections = 0, fs_emotions = [], fs_interactions = [],
        fs_current_faces = 0\<rparr> []"
  by (rule session_summary_quiet [OF sess_reachable_started])

end
