(* ===== verification/VideoPlayer.thy ===== *)
theory VideoPlayer
  imports Prelude
begin

text \<open>
  \<open>VideoPlayer\<close> (src/components/VideoPlayer.tsx): its state (lines 13--16),
  the handlers \<open>togglePlay\<close>, \<open>toggleMute\<close>, \<open>handleTimeUpdate\<close>,
  \<open>handleLoadedMetadata\<close> and \<open>handleSeek\<close> (lines 18--54), the \<open>onEnded\<close>
  handler (line 72) and \<open>formatTime\<close> (lines 56--60).  The media element
  is part of the state: paused or not, muted or not, its position and
  duration.  \<open>video.play()\<close> returns a promise that the browser may reject
  (autoplay policy, no source); its outcome is an argument of the event.
  Times are non-negative rationals; \<open>NaN\<close> and \<open>Infinity\<close> durations are
  not modelled.
\<close>

record vp_element =
  el_paused :: bool
  el_muted :: bool
  el_time :: rat
  el_duration :: rat

record vp_state =
  vp_playing :: bool
  vp_muted :: bool
  vp_current :: rat
  vp_duration :: rat
  vp_el :: vp_element

definition vp_init :: "vp_element \<Rightarrow> vp_state" where
  "vp_init el = \<lparr>vp_playing = False, vp_muted = False, vp_current = 0, vp_duration = 0, vp_el = el\<rparr>"

text \<open>\<open>togglePlay\<close>: the state flips whether or not \<open>play()\<close> succeeds.\<close>

definition toggle_play :: "bool \<Rightarrow> vp_state \<Rightarrow> vp_state" where
  "toggle_play play_ok s =
     (if vp_playing s then s\<lparr>vp_el := (vp_el s)\<lparr>el_paused := True\<rparr>, vp_playing := False\<rparr>
      else s\<lparr>vp_el := (vp_el s)\<lparr>el_paused := \<not> play_ok\<rparr>, vp_playing := True\<rparr>)"

definition toggle_mute :: "vp_state \<Rightarrow> vp_state" where
  "toggle_mute s = s\<lparr>vp_el := (vp_el s)\<lparr>el_muted := \<not> vp_muted s\<rparr>, vp_muted := \<not> vp_muted s\<rparr>"

definition handle_time_update :: "vp_state \<Rightarrow> vp_state" where
  "handle_time_update s = s\<lparr>vp_current := el_time (vp_el s)\<rparr>"

definition handle_loaded_metadata :: "vp_state \<Rightarrow> vp_state" where
  "handle_loaded_metadata s = s\<lparr>vp_duration := el_duration (vp_el s)\<rparr>"

definition handle_seek :: "rat \<Rightarrow> vp_state \<Rightarrow> vp_state" where
  "handle_seek t s = s\<lparr>vp_el := (vp_el s)\<lparr>el_time := t\<rparr>, vp_current := t\<rparr>"

text \<open>The element reaching its end fires \<open>ended\<close>: it pauses, and the handler
  clears \<open>isPlaying\<close>.\<close>

definition handle_ended :: "vp_state \<Rightarrow> vp_state" where
  "handle_ended s = s\<lparr>vp_el := (vp_el s)\<lparr>el_paused := True\<rparr>, vp_playing := False\<rparr>"

datatype vp_event = VpTogglePlay bool | VpToggleMute | VpTimeUpdate rat | VpLoaded rat | VpSeek rat | VpEnded

text \<open>Playback moves the element's position before \<open>timeupdate\<close> fires; the
  metadata event carries the duration the element reads.\<close>

fun vp_step :: "vp_state \<Rightarrow> vp_event \<Rightarrow> vp_state" where
  "vp_step s (VpTogglePlay ok) = toggle_play ok s"
| "vp_step s VpToggleMute = toggle_mute s"
| "vp_step s (VpTimeUpdate t) = handle_time_update (s\<lparr>vp_el := (vp_el s)\<lparr>el_time := t\<rparr>\<rparr>)"
| "vp_step s (VpLoaded d) = handle_loaded_metadata (s\<lparr>vp_el := (vp_el s)\<lparr>el_duration := d\<rparr>\<rparr>)"
| "vp_step s (VpSeek t) = handle_seek t s"
| "vp_step s VpEnded = handle_ended s"

definition vp_run :: "vp_state \<Rightarrow> vp_event list \<Rightarrow> vp_state" where
  "vp_run s es = fold (\<lambda>e s. vp_step s e) es s"

text \<open>\<open>formatTime\<close>: \<open>Math.floor(time / 60)\<close>, \<open>Math.floor(time % 60)\<close> and
  \<open>padStart(2, '0')\<close>; for a non-negative time, \<open>%\<close> is the floored
  remainder.\<close>

definition pad_start2 :: "string \<Rightarrow> string" where
  "pad_start2 s = replicate (2 - length s) (CHR ''0'') @ s"

definition format_time :: "rat \<Rightarrow> string" where
  "format_time t = int_str \<lfloor>t / 60\<rfloor> @ '':'' @ pad_start2 (int_str \<lfloor>t - 60 * of_int \<lfloor>t / 60\<rfloor>\<rfloor>)"

text \<open>Reading \<open>m:ss\<close> back as seconds.\<close>

definition parse_time :: "string \<Rightarrow> nat" where
  "parse_time s = 60 * parse_nat (takeWhile (\<lambda>c. c \<noteq> CHR '':'') s)
                  + parse_nat (tl (dropWhile (\<lambda>c. c \<noteq> CHR '':'') s))"

text \<open>What the player shows (lines 62--131): the \<open><video>\<close> with its
  \<open>src\<close>, the range input (\<open>max={duration || 0}\<close>,
  \<open>value={currentTime}\<close>), the play and mute buttons with their
  \<open>aria-label\<close>s, the time display and the title, \<open>'Video'\<close> when the
  prop is absent (line 11).\<close>

record vp_view =
  vv_src :: string
  vv_range_max :: rat
  vv_range_value :: rat
  vv_play_label :: string
  vv_mute_label :: string
  vv_time :: string
  vv_title :: string

definition vp_render :: "string \<Rightarrow> string option \<Rightarrow> vp_state \<Rightarrow> vp_view" where
  "vp_render src title s =
     \<lparr>vv_src = src, vv_range_max = vp_duration s, vv_range_value = vp_current s,
      vv_play_label = (if vp_playing s then ''Pause'' else ''Play''),
      vv_mute_label = (if vp_muted s then ''Unmute'' else ''Mute''),
      vv_time = format_time (vp_current s) @ '' / '' @ format_time (vp_duration s),
      vv_title = (case title of Some t \<Rightarrow> t | None \<Rightarrow> ''Video'')\<rparr>"

subsection \<open>Lemmas\<close>

lemma vp_step_muted_sync:
  "vp_muted s = el_muted (vp_el s) \<Longrightarrow> vp_muted (vp_step s e) = el_muted (vp_el (vp_step s e))"
  by (cases e) (simp_all add: toggle_play_def toggle_mute_def handle_time_update_def
      handle_loaded_metadata_def handle_seek_def handle_ended_def)

lemma vp_run_muted_sync:
  "\<not> el_muted el \<Longrightarrow> vp_muted (vp_run (vp_init el) es) = el_muted (vp_el (vp_run (vp_init el) es))"
proof -
  assume "\<not> el_muted el"
  have "vp_muted s = el_muted (vp_el s) \<Longrightarrow> vp_muted (fold (\<lambda>e s. vp_step s e) es s) = el_muted (vp_el (fold (\<lambda>e s. vp_step s e) es s))" for s
    by (induction es arbitrary: s) (simp_all add: vp_step_muted_sync)
  with \<open>\<not> el_muted el\<close> show ?thesis by (simp add: vp_run_def vp_init_def)
qed

text \<open>C6: \<open>isMuted\<close> always agrees with the element, \<open>isPlaying\<close> does not:
  from any state that shows "Play", a click whose \<open>play()\<close> is rejected
  labels the button "Pause" over a paused video (where an accepted one
  plays it); the next click then calls \<open>pause()\<close> and shows "Play" again, so
  the video never starts.\<close>

theorem play_rejected_desync:
  assumes "\<not> vp_playing s"
  shows "let s1 = toggle_play False s; s2 = toggle_play ok s1
         in vv_play_label (vp_render src title s) = ''Play''
          \<and> vv_play_label (vp_render src title s1) = ''Pause'' \<and> el_paused (vp_el s1)
          \<and> \<not> el_paused (vp_el (toggle_play True s))
          \<and> vv_play_label (vp_render src title s2) = ''Play'' \<and> el_paused (vp_el s2)"
  using assms by (simp add: toggle_play_def vp_render_def)

lemma parse_nat_zeros: "parse_nat (replicate k (CHR ''0'') @ xs) = parse_nat xs"
proof -
  have "fold (\<lambda>c n. 10 * n + (of_char c - 48)) (replicate k (CHR ''0'')) 0 = (0::nat)"
    by (induction k) simp_all
  then show ?thesis by (simp add: parse_nat_def)
qed

lemma colon_not_in_nat_str: "CHR '':'' \<notin> set (nat_str n)"
  using nat_str_digits [of "CHR '':''" n] by auto

lemma split_at_colon:
  "CHR '':'' \<notin> set xs \<Longrightarrow>
     takeWhile (\<lambda>c. c \<noteq> CHR '':'') (xs @ CHR '':'' # ys) = xs
     \<and> dropWhile (\<lambda>c. c \<noteq> CHR '':'') (xs @ CHR '':'' # ys) = CHR '':'' # ys"
  by (induction xs) auto

text \<open>\<open>formatTime\<close> loses only the fraction of a second.\<close>

lemma format_time_roundtrip:
  assumes "0 \<le> t"
  shows "parse_time (format_time t) = nat \<lfloor>t\<rfloor>"
proof -
  define m where "m = \<lfloor>t / 60\<rfloor>"
  define s where "s = \<lfloor>t - 60 * of_int m\<rfloor>"
  have m0: "0 \<le> m" using assms by (simp add: m_def)
  have s_eq: "s = \<lfloor>t\<rfloor> - 60 * m"
    unfolding s_def by (metis floor_diff_of_int of_int_mult of_int_numeral)
  have "60 * of_int m \<le> t" unfolding m_def using floor_divide_lower [of 60 t] by simp
  then have s0: "0 \<le> s" unfolding s_def by linarith
  have "format_time t = int_str m @ '':'' @ pad_start2 (int_str s)"
    by (simp only: format_time_def m_def s_def)
  then have "format_time t = nat_str (nat m) @ CHR '':'' # pad_start2 (nat_str (nat s))"
    using m0 s0 by (simp add: int_str_def)
  then have "parse_time (format_time t) = 60 * nat m + nat s"
    using split_at_colon [OF colon_not_in_nat_str [of "nat m"]]
    by (simp add: parse_time_def parse_nat_str pad_start2_def parse_nat_zeros)
  also have "\<dots> = nat \<lfloor>t\<rfloor>" using s_eq m0 s0 by linarith
  finally show ?thesis .
qed


theorem play_rejected_desync_witness:
  "let s = vp_init \<lparr>el_paused = True, el_muted = False, el_time = 0, el_duration = 90\<rparr>;
       s1 = toggle_play False s; s2 = toggle_play True s1
   in \<not> vp_playing s
    \<and> vv_play_label (vp_render ''movie.mp4'' None s) = ''Play''
    \<and> vv_play_label (vp_render ''movie.mp4'' None s1) = ''Pause'' \<and> el_paused (vp_el s1)
    \<and> \<not> el_paused (vp_el (toggle_play True s))
    \<and> vv_play_label (vp_render ''movie.mp4'' None s2) = ''Play'' \<and> el_paused (vp_el s2)"
  using play_rejected_desync [where s = "vp_init \<lparr>el_paused = True, el_muted = False, el_time = 0, el_duration = 90\<rparr>"
      and src = "''movie.mp4''" and title = None and ok = True]
  by (simp add: vp_init_def Let_def)
end
