(* ===== verification/QueryRoute.thy ===== *)
theory QueryRoute
  imports Json
begin

text \<open>
  The query endpoint \<open>POST\<close> (src/app/api/query/route.ts) and the helper it
  calls, \<open>analyzeImageWithContext\<close> with \<open>analyzeImage\<close>
  (src/lib/gemini.ts, lines 9--60).  A request is the result of
  \<open>req.json()\<close>: a parse failure with its message, or a JSON value.  The
  generative model is outside the program: \<open>route_env\<close> holds the text call
  of the session branch (\<open>generateContent\<close> then \<open>response.text()\<close>), the
  image call of \<open>analyzeImage\<close>, each returning \<open>Inl\<close> the message of the
  error it throws or \<open>Inr\<close> the answer, the time \<open>new Date().toISOString()\<close>,
  and the message of the \<open>TypeError\<close> that destructuring \<open>null\<close> throws.
  Every \<open>return\<close> and every path to the \<open>catch\<close> block is a branch of
  \<open>route_post\<close>.
\<close>

record route_env =
  env_text_model :: "string \<Rightarrow> string + string"
  env_vision_model :: "json \<Rightarrow> string \<Rightarrow> string + string"
  env_now :: string
  env_null_destructure :: string

datatype request = ReqInvalidJson string | ReqJson json

record http_response =
  http_status :: nat
  http_body :: json

definition respond_400 :: "string \<Rightarrow> http_response" where
  "respond_400 msg = \<lparr>http_status = 400, http_body = JObj [(''error'', JStr msg)]\<rparr>"

text \<open>The \<open>catch\<close> block (lines 71--81): every error thrown here is an \<open>Error\<close>.\<close>

definition respond_500 :: "string \<Rightarrow> http_response" where
  "respond_500 details = \<lparr>http_status = 500,
     http_body = JObj [(''error'', JStr ''Failed to process query''), (''details'', JStr details)]\<rparr>"

definition respond_ok :: "json \<Rightarrow> http_response" where
  "respond_ok r = \<lparr>http_status = 200, http_body = JObj [(''success'', JBool True), (''result'', r)]\<rparr>"

definition query_result :: "string \<Rightarrow> string \<Rightarrow> json" where
  "query_result answer now =
     JObj [(''answer'', JStr answer), (''confidence'', JStr ''High''), (''timestamp'', JStr now)]"

text \<open>\<open>analyzeImage\<close> (gemini.ts, lines 9--34): a failed call is rethrown with a
  fixed message.\<close>

definition analyze_image :: "route_env \<Rightarrow> json \<Rightarrow> string \<Rightarrow> string + string" where
  "analyze_image env img q =
     (case env_vision_model env img q of
        Inl e \<Rightarrow> Inl ''Failed to analyze image with AI''
      | Inr a \<Rightarrow> Inr a)"

text \<open>The prompt of \<open>analyzeImageWithContext\<close> (gemini.ts, lines 46--48).\<close>

definition context_query :: "json option \<Rightarrow> string \<Rightarrow> string" where
  "context_query cam q =
     (if js_truthy cam
      then ''You are analyzing a live camera feed from '' @ js_to_string (the cam) @ ''. '' @ q
           @ ''\<newline>\<newline>Provide a detailed, accurate answer based on what you see in the image.''
      else q)"

definition analyze_image_with_context ::
  "route_env \<Rightarrow> json \<Rightarrow> string \<Rightarrow> json option \<Rightarrow> string + json" where
  "analyze_image_with_context env img q cam =
     (case analyze_image env img (context_query cam q) of
        Inl e \<Rightarrow> Inl e
      | Inr a \<Rightarrow> Inr (query_result a (env_now env)))"

text \<open>The session prompt (lines 28--37): the template literal, then \<open>trim()\<close>.\<close>

definition session_prompt :: "json \<Rightarrow> string \<Rightarrow> string" where
  "session_prompt sd q = js_trim
     (''\<newline>You are analyzing real-time object detection data from a video surveillance system.\<newline>\<newline>Session Data:\<newline>''
      @ json_pretty [] sd @ ''\<newline>\<newline>User Question: '' @ q
      @ ''\<newline>\<newline>Please provide a detailed, accurate answer based on the detection data provided.\<newline>      '')"

text \<open>The branch on the request's data (lines 23--69).\<close>

definition route_dispatch ::
  "route_env \<Rightarrow> json option \<Rightarrow> string \<Rightarrow> json option \<Rightarrow> json option \<Rightarrow> http_response" where
  "route_dispatch env img q cam sd =
     (if js_truthy sd \<and> \<not> js_truthy img then
        (case env_text_model env (session_prompt (the sd) q) of
           Inl e \<Rightarrow> respond_500 e
         | Inr a \<Rightarrow> respond_ok (query_result a (env_now env)))
      else if js_truthy img then
        (case analyze_image_with_context env (the img) q cam of
           Inl e \<Rightarrow> respond_500 e
         | Inr r \<Rightarrow> respond_ok r)
      else respond_400 ''Must provide either imageData or sessionData'')"

text \<open>\<open>POST\<close> (lines 4--82): body, destructuring, the two validations, dispatch.\<close>

definition route_post :: "route_env \<Rightarrow> request \<Rightarrow> http_response" where
  "route_post env req =
     (case req of
        ReqInvalidJson msg \<Rightarrow> respond_500 msg
      | ReqJson v \<Rightarrow>
          if v = JNull then respond_500 (env_null_destructure env)
          else
            (let q = js_get v ''query'' in
             if \<not> js_truthy q then respond_400 ''Missing required field: query''
             else
               (case q of
                  Some (JStr qs) \<Rightarrow>
                    if js_trim qs = [] then respond_400 ''Query must be a non-empty string''
                    else route_dispatch env (js_get v ''imageData'') qs (js_get v ''cameraName'')
                           (js_get v ''sessionData'')
                | _ \<Rightarrow> respond_400 ''Query must be a non-empty string'')))"

text \<open>The two checks of lines 9--21 together: a string with a non-blank trim.\<close>

definition valid_query :: "json option \<Rightarrow> bool" where
  "valid_query q = (case q of Some (JStr s) \<Rightarrow> js_trim s \<noteq> [] | _ \<Rightarrow> False)"

subsection \<open>Lemmas\<close>

lemma valid_query_truthy: "valid_query q \<Longrightarrow> js_truthy q"
  by (auto simp: valid_query_def js_trim_def split: option.splits json.splits)

lemma respond_status [simp]:
  "http_status (respond_400 m) = 400" "http_status (respond_500 m) = 500" "http_status (respond_ok r) = 200"
  by (simp_all add: respond_400_def respond_500_def respond_ok_def)

lemma route_dispatch_status:
  "http_status (route_dispatch env img q cam sd) = 400 \<longleftrightarrow> \<not> js_truthy img \<and> \<not> js_truthy sd"
  by (auto simp: route_dispatch_def analyze_image_with_context_def split: sum.split)

lemma route_post_json:
  "v \<noteq> JNull \<Longrightarrow> route_post env (ReqJson v) =
     (if \<not> js_truthy (js_get v ''query'') then respond_400 ''Missing required field: query''
      else if \<not> valid_query (js_get v ''query'') then respond_400 ''Query must be a non-empty string''
      else route_dispatch env (js_get v ''imageData'') (case js_get v ''query'' of Some (JStr qs) \<Rightarrow> qs)
             (js_get v ''cameraName'') (js_get v ''sessionData''))"
  by (auto simp: route_post_def valid_query_def Let_def split: option.split json.split)

text \<open>
  C36: The route answers 400 exactly when the body is a non-null JSON value
  whose \<open>query\<close> is not a string with non-blank content, or which has
  neither a truthy \<open>imageData\<close> nor a truthy \<open>sessionData\<close>.
\<close>

theorem route_bad_request:
  "http_status (route_post env req) = 400 \<longleftrightarrow>
     (\<exists>v. req = ReqJson v \<and> v \<noteq> JNull \<and>
        (\<not> valid_query (js_get v ''query'')
         \<or> \<not> js_truthy (js_get v ''imageData'') \<and> \<not> js_truthy (js_get v ''sessionData'')))"
proof (cases req)
  case (ReqInvalidJson m)
  then show ?thesis by (simp add: route_post_def)
next
  case (ReqJson v)
  show ?thesis
  proof (cases "v = JNull")
    case True
    with ReqJson show ?thesis by (simp add: route_post_def)
  next
    case False
    with ReqJson show ?thesis
      by (auto simp: route_post_json route_dispatch_status dest: valid_query_truthy)
  qed
qed

lemma session_prompt_text:
  "session_prompt sd q =
     ''You are analyzing real-time object detection data from a video surveillance system.\<newline>\<newline>Session Data:\<newline>''
     @ json_pretty [] sd @ ''\<newline>\<newline>User Question: '' @ q
     @ ''\<newline>\<newline>Please provide a detailed, accurate answer based on the detection data provided.''"
proof -
  let ?x = "''You are analyzing real-time object detection data from a video surveillance system.\<newline>\<newline>Session Data:\<newline>''
     @ json_pretty [] sd @ ''\<newline>\<newline>User Question: '' @ q
     @ ''\<newline>\<newline>Please provide a detailed, accurate answer based on the detection data provided.''"
  have "js_trim (''\<newline>'' @ ?x @ ''\<newline>      '') = ?x"
    by (rule js_trim_pad) (simp_all add: js_ws_def)
  then show ?thesis by (simp add: session_prompt_def)
qed

lemma map_of_filter_other:
  "k \<noteq> k' \<Longrightarrow> map_of (filter (\<lambda>kv. fst kv \<noteq> k') kvs) k = map_of kvs k"
  by (induction kvs) auto

text \<open>
  C37: With session data and no image, the text model is called once, with
  the session data pretty-printed by \<open>JSON.stringify(_, null, 2)\<close> and the
  query verbatim (the template's surrounding whitespace trimmed); its answer
  is returned with confidence High, its error as a 500.
\<close>

theorem route_session_branch:
  assumes "js_get v ''query'' = Some (JStr q)" and "js_trim q \<noteq> []"
    and "js_get v ''sessionData'' = Some sd" and "js_truthy (Some sd)"
    and "\<not> js_truthy (js_get v ''imageData'')"
  shows "route_post env (ReqJson v) =
     (case env_text_model env
        (''You are analyzing real-time object detection data from a video surveillance system.\<newline>\<newline>Session Data:\<newline>''
         @ json_pretty [] sd @ ''\<newline>\<newline>User Question: '' @ q
         @ ''\<newline>\<newline>Please provide a detailed, accurate answer based on the detection data provided.'') of
        Inl e \<Rightarrow> respond_500 e
      | Inr a \<Rightarrow> respond_ok (query_result a (env_now env)))"
proof -
  from assms(1) have "v \<noteq> JNull" by auto
  moreover from assms(2) have "q \<noteq> []" by auto
  ultimately show ?thesis using assms
    by (simp add: route_post_json valid_query_def route_dispatch_def session_prompt_text)
qed

text \<open>
  C38: When \<open>imageData\<close> is truthy, \<open>sessionData\<close> has no effect on the
  response: it is ignored, not combined with the image.
\<close>

theorem route_image_ignores_session:
  "js_truthy (js_get (JObj kvs) ''imageData'') \<Longrightarrow>
     route_post env (ReqJson (JObj (filter (\<lambda>kv. fst kv \<noteq> ''sessionData'') kvs)))
     = route_post env (ReqJson (JObj kvs))"
  by (simp add: route_post_json route_dispatch_def map_of_filter_other)

lemma route_string_query:
  "route_post env (ReqJson (JObj ((''query'', JStr s) # kvs))) =
     (if s = [] then respond_400 ''Missing required field: query''
      else if js_trim s = [] then respond_400 ''Query must be a non-empty string''
      else route_dispatch env (map_of kvs ''imageData'') s (map_of kvs ''cameraName'') (map_of kvs ''sessionData''))"
  by (simp add: route_post_json valid_query_def)

subsection \<open>Witnesses\<close>

theorem route_bad_request_witness:
  "http_status (route_post
     \<lparr>env_text_model = \<lambda>p. Inr ''answer'', env_vision_model = \<lambda>i p. Inr ''answer'',
      env_now = ''2025-01-01T00:00:00.000Z'', env_null_destructure = ''TypeError''\<rparr>
     (ReqJson (JObj [(''query'', JStr ''  ''), (''imageData'', JStr ''QUJD'')]))) = 400"
  by (subst route_bad_request) (simp add: valid_query_def js_trim_def js_ws_def)

theorem route_session_branch_witness:
  "route_post
     \<lparr>env_text_model = \<lambda>p. Inr ''Two cars.'', env_vision_model = \<lambda>i p. Inr ''answer'',
      env_now = ''2025-01-01T00:00:00.000Z'', env_null_destructure = ''TypeError''\<rparr>
     (ReqJson (JObj [(''query'', JStr ''How many cars?''), (''sessionData'', JObj [(''car'', JNum 2)])]))
   = respond_ok (query_result ''Two cars.'' ''2025-01-01T00:00:00.000Z'')"
  by (subst route_session_branch [where q = "''How many cars?''" and sd = "JObj [(''car'', JNum 2)]"])
     (simp_all add: js_trim_def js_ws_def)

theorem route_image_ignores_session_witness:
  "route_post
     \<lparr>env_text_model = \<lambda>p. Inr ''text'', env_vision_model = \<lambda>i p. Inr ''image'',
      env_now = ''2025-01-01T00:00:00.000Z'', env_null_destructure = ''TypeError''\<rparr>
     (ReqJson (JObj [(''imageData'', JStr ''QUJD''), (''query'', JStr ''What is this?'')]))
   = route_post
     \<lparr>env_text_model = \<lambda>p. Inr ''text'', env_vision_model = \<lambda>i p. Inr ''image'',
      env_now = ''2025-01-01T00:00:00.000Z'', env_null_destructure = ''TypeError''\<rparr>
     (ReqJson (JObj [(''imageData'', JStr ''QUJD''), (''query'', JStr ''What is this?''),
                     (''sessionData'', JObj [(''car'', JNum 2)])]))"
  using route_image_ignores_session
    [where kvs = "[(''imageData'', JStr ''QUJD''), (''query'', JStr ''What is this?''), (''sessionData'', JObj [(''car'', JNum 2)])]"]
  by simp

end
