(* ===== verification/YouTubeId.thy ===== *)
theory YouTubeId
  imports Prelude
begin

text \<open>
  The YouTube id extractors \<open>extractYoutubeId\<close>
  (src/components/VideoSelector.tsx, lines 16--27) and \<open>extractVideoId\<close>
  (src/components/LiveYouTubeStream.tsx, lines 10--21).  Each tries two
  regular expressions in order and returns the first capture group:
  \<^item> \<open>/(?:A|B|C)([^&\n?#]+)/\<close>, unanchored: JavaScript's \<open>match\<close> returns the
    leftmost position at which the pattern matches; at that position the
    alternatives are tried in order and the greedy group takes the longest
    run of allowed characters, which must be non-empty;
  \<^item> \<open>/^([a-zA-Z0-9_-]{11})$/\<close>: the whole string is eleven id characters
    (without the \<open>m\<close> flag, \<open>$\<close> matches only at the end of the input).
  \<open>regex_search\<close> is that search for a list of literal alternatives.  The two
  components differ only in the alternatives: the live-stream one also accepts
  \<open>youtube.com/live/\<close>.  Strings are lists of 8-bit characters, which covers
  inputs whose UTF-16 code units are below 256.
\<close>

text \<open>\<open>[^&\n?#]\<close>: the characters the capture group accepts.\<close>

definition id_group_char :: "char \<Rightarrow> bool" where
  "id_group_char c \<longleftrightarrow> c \<noteq> CHR ''&'' \<and> c \<noteq> CHR 0x0A \<and> c \<noteq> CHR ''?'' \<and> c \<noteq> CHR ''#''"

definition starts_with :: "string \<Rightarrow> string \<Rightarrow> bool" where
  "starts_with p s \<longleftrightarrow> take (length p) s = p"

text \<open>One position: the first alternative that matches here with a non-empty group.\<close>

fun match_here :: "(char \<Rightarrow> bool) \<Rightarrow> string list \<Rightarrow> string \<Rightarrow> string option" where
  "match_here P [] s = None"
| "match_here P (a # as) s =
     (let g = takeWhile P (drop (length a) s)
      in if starts_with a s \<and> g \<noteq> [] then Some g else match_here P as s)"

text \<open>\<open>String.prototype.match\<close> without the \<open>g\<close> flag: leftmost position first.\<close>

fun regex_search :: "(char \<Rightarrow> bool) \<Rightarrow> string list \<Rightarrow> string \<Rightarrow> string option" where
  "regex_search P alts [] = match_here P alts []"
| "regex_search P alts (c # cs) =
     (case match_here P alts (c # cs) of Some g \<Rightarrow> Some g | None \<Rightarrow> regex_search P alts cs)"

text \<open>\<open>[a-zA-Z0-9_-]\<close>.\<close>

definition id_char :: "char \<Rightarrow> bool" where
  "id_char c \<longleftrightarrow> c \<in> set (''abcdefghijklmnopqrstuvwxyzABCDEFGHIJKLMNOPQRSTUVWXYZ0123456789_-'')"

definition bare_id :: "string \<Rightarrow> bool" where
  "bare_id s \<longleftrightarrow> length s = 11 \<and> list_all id_char s"

definition selector_alts :: "string list" where
  "selector_alts = [''youtube.com/watch?v='', ''youtu.be/'', ''youtube.com/embed/'']"

definition live_alts :: "string list" where
  "live_alts = [''youtube.com/watch?v='', ''youtu.be/'', ''youtube.com/embed/'', ''youtube.com/live/'']"

text \<open>The loop over the two patterns, returning \<open>match[1]\<close> of the first that matches.\<close>

definition extract_with :: "string list \<Rightarrow> string \<Rightarrow> string option" where
  "extract_with alts url =
     (case regex_search id_group_char alts url of
        Some g \<Rightarrow> Some g
      | None \<Rightarrow> if bare_id url then Some url else None)"

definition extract_youtube_id :: "string \<Rightarrow> string option" where
  "extract_youtube_id url = extract_with selector_alts url"

definition extract_video_id :: "string \<Rightarrow> string option" where
  "extract_video_id url = extract_with live_alts url"

subsection \<open>Lemmas\<close>

lemma match_here_Some:
  "match_here P alts s = Some g \<Longrightarrow>
     \<exists>a \<in> set alts. \<exists>rest. s = a @ g @ rest \<and> g \<noteq> [] \<and> list_all P g"
proof (induction P alts s rule: match_here.induct)
  case (1 P s)
  then show ?case by simp
next
  case (2 P a as s)
  let ?g = "takeWhile P (drop (length a) s)"
  show ?case
  proof (cases "starts_with a s \<and> ?g \<noteq> []")
    case True
    with "2.prems" have g: "g = ?g" by (simp add: Let_def)
    have "s = a @ drop (length a) s"
      using True by (metis starts_with_def append_take_drop_id)
    then have eq: "s = a @ ?g @ dropWhile P (drop (length a) s)"
      by simp
    have all: "list_all P ?g"
      by (auto simp: list_all_iff dest: set_takeWhileD)
    have "a \<in> set (a # as)" by simp
    with eq all True g show ?thesis by blast
  next
    case False
    with "2.prems" have "match_here P as s = Some g" by (simp add: Let_def)
    with "2.IH" False show ?thesis by (auto simp: Let_def)
  qed
qed

lemma regex_search_Some:
  "regex_search P alts s = Some g \<Longrightarrow>
     g \<noteq> [] \<and> list_all P g \<and> (\<exists>p q. s = p @ g @ q)"
proof (induction P alts s rule: regex_search.induct)
  case (1 P alts)
  then show ?case by (auto dest!: match_here_Some)
next
  case (2 P alts c cs)
  show ?case
  proof (cases "match_here P alts (c # cs)")
    case None
    with "2.prems" have "regex_search P alts cs = Some g" by simp
    with "2.IH" None obtain p q where "cs = p @ g @ q" and "g \<noteq> [] \<and> list_all P g"
      by blast
    then show ?thesis by (metis append_Cons)
  next
    case (Some g')
    with "2.prems" have "g' = g" by simp
    with Some show ?thesis by (fastforce dest!: match_here_Some)
  qed
qed

lemma id_char_group: "id_char c \<Longrightarrow> id_group_char c"
  unfolding id_char_def id_group_char_def by auto

lemma id_char_not_dot: "id_char c \<Longrightarrow> c \<noteq> CHR ''.''"
proof -
  have "CHR ''.'' \<notin> set ''abcdefghijklmnopqrstuvwxyzABCDEFGHIJKLMNOPQRSTUVWXYZ0123456789_-''"
    by simp
  then show "id_char c \<Longrightarrow> c \<noteq> CHR ''.''"
    by (auto simp only: id_char_def)
qed

lemma bare_id_group: "bare_id s \<Longrightarrow> s \<noteq> [] \<and> list_all id_group_char s"
  by (auto simp: bare_id_def list_all_iff id_char_group)

lemma extract_with_sound:
  "extract_with alts url = Some g \<Longrightarrow> g \<noteq> [] \<and> list_all id_group_char g"
  by (auto simp: extract_with_def bare_id_group split: option.splits if_splits dest!: regex_search_Some)

text \<open>
  C31: Whatever \<open>extractYoutubeId\<close> returns is a non-empty run of characters
  outside \<open>&\<close>, newline, \<open>?\<close> and \<open>#\<close> that occurs in the URL.
\<close>

theorem extract_youtube_id_sound:
  assumes "extract_youtube_id url = Some g"
  shows "g \<noteq> [] \<and> list_all id_group_char g \<and> (\<exists>p q. url = p @ g @ q)"
proof (cases "regex_search id_group_char selector_alts url")
  case None
  with assms have "bare_id url" and "g = url"
    by (auto simp: extract_youtube_id_def extract_with_def split: if_splits)
  then have "url \<noteq> [] \<and> list_all id_group_char url" and "url = [] @ url @ []"
    by (simp_all add: bare_id_group)
  with \<open>g = url\<close> show ?thesis by blast
next
  case (Some g')
  with assms have "regex_search id_group_char selector_alts url = Some g"
    by (simp add: extract_youtube_id_def extract_with_def)
  then show ?thesis by (rule regex_search_Some)
qed

lemma match_here_needs_dot:
  "(\<forall>a \<in> set alts. CHR ''.'' \<in> set a) \<Longrightarrow> CHR ''.'' \<notin> set s \<Longrightarrow> match_here P alts s = None"
proof (induction P alts s rule: match_here.induct)
  case (1 P s)
  then show ?case by simp
next
  case (2 P a as s)
  have "\<not> starts_with a s"
  proof
    assume "starts_with a s"
    then have "set a \<subseteq> set s" by (metis starts_with_def set_take_subset)
    with "2.prems" show False by auto
  qed
  with 2 show ?case by (simp add: Let_def)
qed

lemma regex_search_needs_dot:
  "(\<forall>a \<in> set alts. CHR ''.'' \<in> set a) \<Longrightarrow> CHR ''.'' \<notin> set s \<Longrightarrow> regex_search P alts s = None"
  by (induction P alts s rule: regex_search.induct) (simp_all add: match_here_needs_dot)

text \<open>
  A bare eleven-character id is returned unchanged by both extractors:
  no alternative of the first pattern can match, since each contains a dot.
\<close>

theorem extract_bare_id:
  assumes "bare_id s"
  shows "extract_youtube_id s = Some s \<and> extract_video_id s = Some s"
proof -
  from assms have "CHR ''.'' \<notin> set s"
    by (auto simp: bare_id_def list_all_iff dest: id_char_not_dot)
  then have "regex_search id_group_char selector_alts s = None" and "regex_search id_group_char live_alts s = None"
    by (simp_all add: regex_search_needs_dot selector_alts_def live_alts_def)
  with assms show ?thesis
    by (simp add: extract_youtube_id_def extract_video_id_def extract_with_def)
qed

lemma match_here_head_mismatch:
  "\<forall>a \<in> set alts. a \<noteq> [] \<and> hd a \<noteq> c \<Longrightarrow> match_here P alts (c # s) = None"
proof (induction alts)
  case Nil
  then show ?case by simp
next
  case (Cons a as)
  then obtain a' as' where "a = a' # as'" and "a' \<noteq> c" by (cases a) auto
  with Cons show ?case by (simp add: starts_with_def Let_def)
qed

lemma regex_search_skip_prefix:
  "\<forall>c \<in> set p. \<forall>a \<in> set alts. a \<noteq> [] \<and> hd a \<noteq> c \<Longrightarrow> regex_search P alts (p @ s) = regex_search P alts s"
  by (induction p) (simp_all add: match_here_head_mismatch)

lemma takeWhile_id_then_stop:
  "list_all P v \<Longrightarrow> rest = [] \<or> \<not> P (hd rest)
   \<Longrightarrow> takeWhile P (v @ rest) = v"
  by (cases rest) (auto simp: list_all_iff takeWhile_append2)

lemma match_here_snoc:
  "match_here P (as @ [b]) s = (case match_here P as s of None \<Rightarrow> match_here P [b] s | Some g \<Rightarrow> Some g)"
  by (induction as) (simp_all add: Let_def)

lemma regex_search_snoc_alt:
  "list_all (\<lambda>t. \<not> starts_with b t) (suffixes s) \<Longrightarrow> regex_search P (as @ [b]) s = regex_search P as s"
  by (induction s) (simp_all add: match_here_snoc split: option.split)

lemma live_alts_snoc: "live_alts = selector_alts @ [''youtube.com/live/'']"
  by (simp add: live_alts_def selector_alts_def)

text \<open>
  When no suffix of the URL starts with youtube.com/live/, the two
  extractors return the same result.
\<close>

theorem extractors_agree_without_live:
  "list_all (\<lambda>t. \<not> starts_with ''youtube.com/live/'' t) (suffixes url)
   \<Longrightarrow> extract_video_id url = extract_youtube_id url"
  by (simp add: extract_video_id_def extract_youtube_id_def extract_with_def live_alts_snoc regex_search_snoc_alt)

text \<open>
  C33: For the three URL forms of \<open>extractYoutubeId\<close> and the live form of
  \<open>extractVideoId\<close>, the extractor returns exactly the id that follows the
  prefix, up to the first \<open>&\<close>, \<open>?\<close>, \<open>#\<close> or newline.  The id may contain
  \<open>/\<close> or any other character of the group, so a path after the id is kept.
\<close>

theorem extract_round_trip:
  assumes "v \<noteq> []" and "list_all id_group_char v" and "rest = [] \<or> \<not> id_group_char (hd rest)"
  shows "extract_youtube_id (''https://www.youtube.com/watch?v='' @ v @ rest) = Some v
    \<and> extract_youtube_id (''https://youtu.be/'' @ v @ rest) = Some v
    \<and> extract_youtube_id (''https://www.youtube.com/embed/'' @ v @ rest) = Some v
    \<and> extract_video_id (''https://www.youtube.com/live/'' @ v @ rest) = Some v"
proof -
  have tw: "takeWhile id_group_char (v @ rest) = v"
    using assms(2,3) by (rule takeWhile_id_then_stop)
  have "regex_search id_group_char selector_alts (''https://www.'' @ ''youtube.com/watch?v='' @ v @ rest) = Some v"
    by (subst regex_search_skip_prefix) (simp_all add: selector_alts_def starts_with_def tw assms(1))
  moreover have "regex_search id_group_char selector_alts (''https://'' @ ''youtu.be/'' @ v @ rest) = Some v"
    by (subst regex_search_skip_prefix) (simp_all add: selector_alts_def starts_with_def tw assms(1))
  moreover have "regex_search id_group_char selector_alts (''https://www.'' @ ''youtube.com/embed/'' @ v @ rest) = Some v"
    by (subst regex_search_skip_prefix) (simp_all add: selector_alts_def starts_with_def tw assms(1))
  moreover have "regex_search id_group_char live_alts (''https://www.'' @ ''youtube.com/live/'' @ v @ rest) = Some v"
    by (subst regex_search_skip_prefix) (simp_all add: live_alts_def starts_with_def tw assms(1))
  ultimately show ?thesis
    by (simp add: extract_youtube_id_def extract_video_id_def extract_with_def)
qed

text \<open>
  The two extractors disagree on live-stream URLs: the selector's
  extractor rejects them, the live-stream component accepts them.
\<close>

theorem live_url_extractors_differ:
  "extract_youtube_id ''https://www.youtube.com/live/dQw4w9WgXcQ'' = None
   \<and> extract_video_id ''https://www.youtube.com/live/dQw4w9WgXcQ'' = Some ''dQw4w9WgXcQ''"
  by code_simp

subsection \<open>Witnesses\<close>

theorem extract_youtube_id_sound_witness:
  "''dQw4w9WgXcQ'' \<noteq> [] \<and> list_all id_group_char ''dQw4w9WgXcQ''
   \<and> (\<exists>p q. ''https://youtu.be/dQw4w9WgXcQ?t=1'' = p @ ''dQw4w9WgXcQ'' @ q)"
  by (rule extract_youtube_id_sound) code_simp

theorem extract_bare_id_witness:
  "extract_youtube_id ''dQw4w9WgXcQ'' = Some ''dQw4w9WgXcQ'' \<and> extract_video_id ''dQw4w9WgXcQ'' = Some ''dQw4w9WgXcQ''"
  by (rule extract_bare_id) code_simp

theorem extract_round_trip_witness:
  "extract_youtube_id (''https://www.youtube.com/watch?v='' @ ''dQw4w9WgXcQ'' @ ''&t=42'') = Some ''dQw4w9WgXcQ''
    \<and> extract_youtube_id (''https://youtu.be/'' @ ''dQw4w9WgXcQ'' @ ''&t=42'') = Some ''dQw4w9WgXcQ''
    \<and> extract_youtube_id (''https://www.youtube.com/embed/'' @ ''dQw4w9WgXcQ'' @ ''&t=42'') = Some ''dQw4w9WgXcQ''
    \<and> extract_video_id (''https://www.youtube.com/live/'' @ ''dQw4w9WgXcQ'' @ ''&t=42'') = Some ''dQw4w9WgXcQ''"
  by (rule extract_round_trip) (simp_all add: id_group_char_def)

theorem extractors_agree_without_live_witness:
  "extract_video_id ''https://youtu.be/dQw4w9WgXcQ'' = extract_youtube_id ''https://youtu.be/dQw4w9WgXcQ''"
  by (rule extractors_agree_without_live) (simp add: starts_with_def)

end
