(* ===== verification/QueryPage.thy ===== *)
theory QueryPage
  imports QueryRoute YouTubeId
begin

text \<open>
  The query path of the page: the home page's state and \<open>handleQuery\<close>
  (src/app/page.tsx, lines 13--144), VideoSelector
  (src/components/VideoSelector.tsx: state, handlers, rendered screen and
  events) and QueryInterface (src/components/QueryInterface.tsx: state,
  \<open>handleSubmit\<close>, suggestions, rendered form and events).

  The browser is a \<open>page_env\<close>: the \<open>src\<close> of the embedded YouTube player if
  one is on the page, whether the webcam and file video elements exist,
  whether a 2D context is available, the data URL \<open>canvas.toDataURL\<close> yields,
  the outcome of fetching and reading a thumbnail, and the query endpoint.
  A call of \<open>handleQuery\<close> ends in a \<open>query_outcome\<close>: the promise resolves,
  rejects, or never settles (\<open>Pending\<close>).  The last case is real: in the two
  thumbnail branches the request is sent from an \<open>async\<close> \<open>onloadend\<close>
  handler, and an exception thrown there rejects only that handler's own
  promise, never the one \<open>handleQuery\<close> returned.
\<close>

datatype source_type = SrcVideo | SrcLive | SrcWebcam

datatype video_type = VFile | VYouTube

text \<open>The page's state (lines 14--15) and \<open>handleVideoSelect\<close> (lines 17--19).\<close>

record page_state =
  pg_source :: source_type
  pg_video :: "(string \<times> video_type) option"

definition page_init :: page_state where
  "page_init = \<lparr>pg_source = SrcLive, pg_video = None\<rparr>"

definition handle_video_select :: "page_state \<Rightarrow> string \<Rightarrow> video_type \<Rightarrow> page_state" where
  "handle_video_select s url t = s\<lparr>pg_video := Some (url, t)\<rparr>"

text \<open>A rejection carries an \<open>Error\<close> with its message, or, from
  \<open>reader.onerror\<close>, the \<open>ProgressEvent\<close>, which is not an \<open>Error\<close>.\<close>

datatype query_failure = ErrorMsg string | ReaderEvent

datatype 'a query_outcome = Resolved 'a | Rejected query_failure | Pending

datatype thumb_result = ThumbFetchFails string | ThumbReadFails | ThumbDataUrl string

record page_env =
  pe_live_iframe_src :: "string option"
  pe_thumbnail :: "string \<Rightarrow> thumb_result"
  pe_autoplay_video :: bool
  pe_controls_video :: bool
  pe_canvas_ctx :: bool
  pe_frame_url :: string
  pe_api :: "json \<Rightarrow> http_response"

text \<open>\<open>s.split(',')[1]\<close>: the text between the first and the second comma,
  \<open>undefined\<close> when there is no comma.\<close>

definition split_comma_1 :: "string \<Rightarrow> string option" where
  "split_comma_1 s =
     (if CHR '','' \<in> set s
      then Some (takeWhile (\<lambda>c. c \<noteq> CHR '','') (tl (dropWhile (\<lambda>c. c \<noteq> CHR '','') s)))
      else None)"

text \<open>The body \<open>JSON.stringify({imageData, query, cameraName})\<close> as the route
  parses it back: an \<open>undefined\<close> property is left out.\<close>

definition request_body :: "string option \<Rightarrow> string \<Rightarrow> string \<Rightarrow> json" where
  "request_body img q cam =
     JObj ((case img of Some b \<Rightarrow> [(''imageData'', JStr b)] | None \<Rightarrow> [])
           @ [(''query'', JStr q), (''cameraName'', JStr cam)])"

text \<open>\<open>error.error || 'Query failed'\<close>, passed to \<open>new Error\<close>.\<close>

definition api_error_message :: "json \<Rightarrow> string" where
  "api_error_message body =
     (if js_truthy (js_get body ''error'') then js_to_string (the (js_get body ''error''))
      else ''Query failed'')"

text \<open>The request and its check, awaited in the body of \<open>handleQuery\<close>
  (lines 122--138).\<close>

definition post_query :: "page_env \<Rightarrow> json \<Rightarrow> json option query_outcome" where
  "post_query env body =
     (let r = pe_api env body in
      if 200 \<le> http_status r \<and> http_status r < 300 then Resolved (js_get (http_body r) ''result'')
      else Rejected (ErrorMsg (api_error_message (http_body r))))"

text \<open>The thumbnail branches (lines 32--60 and 79--107): fetch and read the
  thumbnail, then send it from \<open>reader.onloadend\<close>.  Only \<open>resolve\<close> and
  \<open>reader.onerror\<close> settle the returned promise.\<close>

definition thumbnail_query ::
  "page_env \<Rightarrow> string \<Rightarrow> string \<Rightarrow> string \<Rightarrow> json option query_outcome" where
  "thumbnail_query env vid q cam =
     (case pe_thumbnail env vid of
        ThumbFetchFails m \<Rightarrow> Rejected (ErrorMsg m)
      | ThumbReadFails \<Rightarrow> Rejected ReaderEvent
      | ThumbDataUrl u \<Rightarrow>
          (case post_query env (request_body (split_comma_1 u) q cam) of
             Resolved v \<Rightarrow> Resolved v
           | _ \<Rightarrow> Pending))"

text \<open>A captured frame (lines 66--75 and 109--118).\<close>

definition frame_query ::
  "page_env \<Rightarrow> bool \<Rightarrow> string \<Rightarrow> string \<Rightarrow> string \<Rightarrow> json option query_outcome" where
  "frame_query env has_video missing q cam =
     (if \<not> has_video then Rejected (ErrorMsg missing)
      else if \<not> pe_canvas_ctx env then Rejected (ErrorMsg ''Failed to get canvas context'')
      else post_query env (request_body (split_comma_1 (pe_frame_url env)) q cam))"

text \<open>\<open>/embed\/([^?]+)/\<close> on the player's \<open>src\<close> (line 29).\<close>

definition embed_video_id :: "string \<Rightarrow> string option" where
  "embed_video_id src = regex_search (\<lambda>c. c \<noteq> CHR ''?'') [''embed/''] src"

definition no_live_stream :: "json option query_outcome" where
  "no_live_stream = Rejected (ErrorMsg ''No live stream loaded. Please paste a YouTube URL first.'')"

text \<open>\<open>handleQuery\<close> (lines 21--144); the camera name of the frame branches
  is \<open>sourceType.toUpperCase()\<close>.\<close>

definition handle_query :: "page_env \<Rightarrow> page_state \<Rightarrow> string \<Rightarrow> json option query_outcome" where
  "handle_query env s q =
     (case pg_source s of
        SrcLive \<Rightarrow>
          (case pe_live_iframe_src env of
             Some src \<Rightarrow>
               (case embed_video_id src of
                  Some vid \<Rightarrow> thumbnail_query env vid q ''Live YouTube Stream''
                | None \<Rightarrow> no_live_stream)
           | None \<Rightarrow> no_live_stream)
      | SrcWebcam \<Rightarrow> frame_query env (pe_autoplay_video env) ''Webcam not active'' q ''WEBCAM''
      | SrcVideo \<Rightarrow>
          (case pg_video s of
             Some (vid, VYouTube) \<Rightarrow> thumbnail_query env vid q ''YouTube Video''
           | _ \<Rightarrow> frame_query env (pe_controls_video env) ''No video loaded'' q ''VIDEO''))"

subsection \<open>The video selector\<close>

text \<open>The selector's state (lines 11--14; \<open>vs_alerted\<close> records that \<open>alert\<close> ran) and
  \<open>handleYoutubeSubmit\<close>, \<open>handleFileUpload\<close>, \<open>handleReset\<close> (lines 29--58).
  A handler's effect on the page is the \<open>onVideoSelect\<close> call it makes.\<close>

datatype input_mode = ModeYouTube | ModeUpload

record selector_state =
  vs_url :: string
  vs_video_id :: "string option"
  vs_uploaded :: "string option"
  vs_alerted :: bool
  vs_mode :: input_mode

definition vs_init :: selector_state where
  "vs_init = \<lparr>vs_url = [], vs_video_id = None, vs_uploaded = None, vs_alerted = False, vs_mode = ModeYouTube\<rparr>"

definition handle_youtube_submit ::
  "selector_state \<times> page_state \<Rightarrow> selector_state \<times> page_state" where
  "handle_youtube_submit st =
     (let (v, p) = st in
      case extract_youtube_id (vs_url v) of
        Some vid \<Rightarrow> (v\<lparr>vs_video_id := Some vid\<rparr>, handle_video_select p vid VYouTube)
      | None \<Rightarrow> (v\<lparr>vs_alerted := True\<rparr>, p))"

definition handle_file_upload ::
  "bool \<Rightarrow> string \<Rightarrow> selector_state \<times> page_state \<Rightarrow> selector_state \<times> page_state" where
  "handle_file_upload is_video obj_url st =
     (let (v, p) = st in
      if is_video then (v\<lparr>vs_uploaded := Some obj_url, vs_video_id := None\<rparr>, handle_video_select p obj_url VFile)
      else (v, p))"

definition handle_reset :: "selector_state \<times> page_state \<Rightarrow> selector_state \<times> page_state" where
  "handle_reset st =
     (let (v, p) = st in (v\<lparr>vs_url := [], vs_video_id := None, vs_uploaded := None\<rparr>, p))"

text \<open>What the selector renders (lines 60--188): \<open>if (youtubeVideoId)\<close> the
  player of that id, else \<open>if (uploadedVideo)\<close> the file's video, else the
  mode buttons with the URL form or the file input; a string is truthy when
  non-empty.  Each event acts only through a control on screen: the mode
  buttons, the URL field and its submit button, the file input, and
  "Change Video" on either player.\<close>

definition str_truthy :: "string option \<Rightarrow> bool" where
  "str_truthy x = (case x of Some t \<Rightarrow> t \<noteq> [] | None \<Rightarrow> False)"

datatype vs_view = VsPlayer string | VsFilePlayer string | VsForm input_mode string

definition vs_render :: "selector_state \<Rightarrow> vs_view" where
  "vs_render v =
     (if str_truthy (vs_video_id v)
      then VsPlayer (''https://www.youtube.com/embed/'' @ the (vs_video_id v) @ ''?enablejsapi=1'')
      else if str_truthy (vs_uploaded v) then VsFilePlayer (the (vs_uploaded v))
      else VsForm (vs_mode v) (vs_url v))"

datatype vs_event = VsMode input_mode | VsType string | VsSubmitUrl | VsPickFile bool string | VsChangeVideo

fun vs_step :: "selector_state \<times> page_state \<Rightarrow> vs_event \<Rightarrow> selector_state \<times> page_state" where
  "vs_step (v, p) (VsMode m) = (case vs_render v of VsForm _ _ \<Rightarrow> (v\<lparr>vs_mode := m\<rparr>, p) | _ \<Rightarrow> (v, p))"
| "vs_step (v, p) (VsType u) = (case vs_render v of VsForm ModeYouTube _ \<Rightarrow> (v\<lparr>vs_url := u\<rparr>, p) | _ \<Rightarrow> (v, p))"
| "vs_step (v, p) VsSubmitUrl = (case vs_render v of VsForm ModeYouTube _ \<Rightarrow> handle_youtube_submit (v, p) | _ \<Rightarrow> (v, p))"
| "vs_step (v, p) (VsPickFile isv u) =
     (case vs_render v of VsForm ModeUpload _ \<Rightarrow> handle_file_upload isv u (v, p) | _ \<Rightarrow> (v, p))"
| "vs_step (v, p) VsChangeVideo = (case vs_render v of VsForm _ _ \<Rightarrow> (v, p) | _ \<Rightarrow> handle_reset (v, p))"

subsection \<open>The query form\<close>

text \<open>\<open>QueryInterface\<close>'s state (lines 24--27) and \<open>handleSubmit\<close>
  (lines 45--61): the state once the promise of \<open>onQuery\<close> has settled, or,
  when it never settles, the state the form stays in.\<close>

record qi_state =
  qi_query :: string
  qi_result :: "json option"
  qi_error :: "string option"
  qi_searching :: bool

definition qi_init :: qi_state where
  "qi_init = \<lparr>qi_query = [], qi_result = None, qi_error = None, qi_searching = False\<rparr>"

fun failure_text :: "query_failure \<Rightarrow> string" where
  "failure_text (ErrorMsg m) = m"
| "failure_text ReaderEvent = ''Failed to process query''"

definition handle_submit ::
  "(string \<Rightarrow> json option query_outcome) \<Rightarrow> qi_state \<Rightarrow> qi_state" where
  "handle_submit on_query s =
     (if js_trim (qi_query s) = [] \<or> qi_searching s then s
      else
        (let s1 = s\<lparr>qi_searching := True, qi_error := None, qi_result := None\<rparr> in
         case on_query (js_trim (qi_query s)) of
           Resolved r \<Rightarrow> s1\<lparr>qi_result := r, qi_searching := False\<rparr>
         | Rejected e \<Rightarrow> s1\<lparr>qi_error := Some (failure_text e), qi_searching := False\<rparr>
         | Pending \<Rightarrow> s1))"

text \<open>\<open>suggestedQueries\<close> (lines 29--43), chosen by the truthiness of the
  \<open>sessionData\<close> prop, and \<open>handleSuggestedQuery\<close> (lines 63--65).\<close>

definition suggested_queries :: "json option \<Rightarrow> string list" where
  "suggested_queries sd =
     (if js_truthy sd then
        [''How many cars passed in the last 5 minutes?'', ''What was the most common object detected?'',
         ''How many people were detected total?'', ''What time had the most activity?'',
         ''Summarize the traffic patterns'', ''How many different types of vehicles?'']
      else
        [''What do you see in this image?'', ''How many people are visible?'', ''What's the weather like?'',
         ''Describe the traffic conditions'', ''Are there any vehicles present?'',
         ''What time of day does it appear to be?''])"

definition handle_suggested_query :: "string \<Rightarrow> qi_state \<Rightarrow> qi_state" where
  "handle_suggested_query q s = s\<lparr>qi_query := q\<rparr>"

text \<open>What the form renders (lines 67--181): the input's value and
  \<open>disabled\<close>, the submit button's \<open>disabled\<close>, the suggestion buttons
  (shown while there is no truthy result and no search), the error panel
  (\<open>{error && ...}\<close>: an empty message is falsy), the answer panel with
  \<open>result.answer\<close> and \<open>result.confidence\<close>, and the searching panel.
  The answer's time, \<open>toLocaleTimeString\<close>, depends on the locale and is
  left out.\<close>

record qi_view =
  qv_input :: string
  qv_input_disabled :: bool
  qv_submit_disabled :: bool
  qv_suggestions :: "string list"
  qv_error :: "string option"
  qv_answer :: "(json option \<times> json option) option"
  qv_searching :: bool

definition qi_render :: "json option \<Rightarrow> qi_state \<Rightarrow> qi_view" where
  "qi_render sd s =
     \<lparr>qv_input = qi_query s,
      qv_input_disabled = qi_searching s,
      qv_submit_disabled = (js_trim (qi_query s) = [] \<or> qi_searching s),
      qv_suggestions = (if \<not> js_truthy (qi_result s) \<and> \<not> qi_searching s then take 3 (suggested_queries sd) else []),
      qv_error = (case qi_error s of Some e \<Rightarrow> if e \<noteq> [] then Some e else None | None \<Rightarrow> None),
      qv_answer = (if js_truthy (qi_result s)
                   then Some (js_get (the (qi_result s)) ''answer'', js_get (the (qi_result s)) ''confidence'')
                   else None),
      qv_searching = qi_searching s\<rparr>"

text \<open>The form's events: typing (ignored while the input is disabled), the
  \<open>i\<close>-th suggestion button on screen, submitting the form, and "Ask
  another question" (line 157), present only with the answer panel.\<close>

datatype qi_event = QiType string | QiSuggest nat | QiSubmit | QiAskAnother

fun qi_step ::
  "json option \<Rightarrow> (string \<Rightarrow> json option query_outcome) \<Rightarrow> qi_state \<Rightarrow> qi_event \<Rightarrow> qi_state" where
  "qi_step sd f s (QiType v) = (if qi_searching s then s else s\<lparr>qi_query := v\<rparr>)"
| "qi_step sd f s (QiSuggest i) =
     (let sg = qv_suggestions (qi_render sd s) in if i < length sg then handle_suggested_query (sg ! i) s else s)"
| "qi_step sd f s QiSubmit = handle_submit f s"
| "qi_step sd f s QiAskAnother = (if qv_answer (qi_render sd s) \<noteq> None then s\<lparr>qi_result := None\<rparr> else s)"

definition qi_run ::
  "json option \<Rightarrow> (string \<Rightarrow> json option query_outcome) \<Rightarrow> qi_state \<Rightarrow> qi_event list \<Rightarrow> qi_state" where
  "qi_run sd f s es = fold (\<lambda>e s. qi_step sd f s e) es s"

subsection \<open>Lemmas\<close>

lemma handle_submit_searching:
  "qi_searching s \<Longrightarrow> handle_submit f s = s"
  by (simp add: handle_submit_def)

text \<open>
  For a YouTube video, a request the endpoint answers with an error
  status leaves the promise of \<open>handleQuery\<close> pending: the query form stays
  in its searching state and ignores every later submission.
\<close>

theorem youtube_query_error_hangs:
  assumes "pg_source p = SrcVideo" and "pg_video p = Some (vid, VYouTube)"
    and "pe_thumbnail env vid = ThumbDataUrl u"
    and "\<not> (200 \<le> http_status (pe_api env (request_body (split_comma_1 u) (js_trim (qi_query f)) ''YouTube Video''))
           \<and> http_status (pe_api env (request_body (split_comma_1 u) (js_trim (qi_query f)) ''YouTube Video'')) < 300)"
    and "js_trim (qi_query f) \<noteq> []" and "\<not> qi_searching f"
  shows "handle_query env p (js_trim (qi_query f)) = Pending
    \<and> qi_searching (handle_submit (handle_query env p) f)
    \<and> (\<forall>g. handle_submit g (handle_submit (handle_query env p) f) = handle_submit (handle_query env p) f)"
proof -
  have pend: "handle_query env p (js_trim (qi_query f)) = Pending"
    using assms(1-4) by (simp add: handle_query_def thumbnail_query_def post_query_def Let_def)
  then have "qi_searching (handle_submit (handle_query env p) f)"
    using assms(5,6) by (simp add: handle_submit_def)
  with pend show ?thesis by (simp add: handle_submit_searching)
qed

lemma route_post_request_body:
  "js_trim q \<noteq> [] \<Longrightarrow> route_post renv (ReqJson (request_body img q cam)) =
     route_dispatch renv (map_option JStr img) q (Some (JStr cam)) None"
  by (cases img) (auto simp: request_body_def route_post_json valid_query_def)

text \<open>
  C40: A webcam query, sent to the query route, reaches the image model with
  the prompt naming the camera WEBCAM and the captured frame as the image;
  the session-data branch is never taken, and a model failure reaches the
  form as the route's generic message.
\<close>

theorem webcam_query_prompt:
  assumes "pg_source p = SrcWebcam" and "pe_autoplay_video env" and "pe_canvas_ctx env"
    and "split_comma_1 (pe_frame_url env) = Some b" and "b \<noteq> []" and "js_trim q \<noteq> []"
    and "pe_api env = (\<lambda>body. route_post renv (ReqJson body))"
  shows "handle_query env p q =
     (case env_vision_model renv (JStr b)
        (''You are analyzing a live camera feed from WEBCAM. '' @ q
         @ ''\<newline>\<newline>Provide a detailed, accurate answer based on what you see in the image.'') of
        Inl e \<Rightarrow> Rejected (ErrorMsg ''Failed to process query'')
      | Inr a \<Rightarrow> Resolved (Some (query_result a (env_now renv))))"
  using assms
  by (simp add: handle_query_def frame_query_def post_query_def route_post_request_body route_dispatch_def
      analyze_image_with_context_def analyze_image_def context_query_def api_error_message_def
      respond_500_def respond_ok_def split: sum.split)

lemma handle_reset_keeps_page: "snd (handle_reset st) = snd st"
  by (simp add: handle_reset_def split: prod.split)

subsection \<open>Witnesses\<close>

theorem youtube_query_error_hangs_witness:
  "handle_query
     \<lparr>pe_live_iframe_src = None, pe_thumbnail = \<lambda>v. ThumbDataUrl ''data:image/jpeg;base64,QUJD'',
      pe_autoplay_video = False, pe_controls_video = False, pe_canvas_ctx = True, pe_frame_url = [],
      pe_api = \<lambda>b. route_post
        \<lparr>env_text_model = \<lambda>p. Inl ''quota exceeded'', env_vision_model = \<lambda>i p. Inl ''quota exceeded'',
         env_now = ''2025-01-01T00:00:00.000Z'', env_null_destructure = ''TypeError''\<rparr> (ReqJson b)\<rparr>
     \<lparr>pg_source = SrcVideo, pg_video = Some (''dQw4w9WgXcQ'', VYouTube)\<rparr> ''What is this?'' = Pending
   \<and> qi_searching (handle_submit (handle_query
     \<lparr>pe_live_iframe_src = None, pe_thumbnail = \<lambda>v. ThumbDataUrl ''data:image/jpeg;base64,QUJD'',
      pe_autoplay_video = False, pe_controls_video = False, pe_canvas_ctx = True, pe_frame_url = [],
      pe_api = \<lambda>b. route_post
        \<lparr>env_text_model = \<lambda>p. Inl ''quota exceeded'', env_vision_model = \<lambda>i p. Inl ''quota exceeded'',
         env_now = ''2025-01-01T00:00:00.000Z'', env_null_destructure = ''TypeError''\<rparr> (ReqJson b)\<rparr>
     \<lparr>pg_source = SrcVideo, pg_video = Some (''dQw4w9WgXcQ'', VYouTube)\<rparr>)
     (qi_init\<lparr>qi_query := ''What is this?''\<rparr>))"
  using youtube_query_error_hangs
    [where f = "qi_init\<lparr>qi_query := ''What is this?''\<rparr>" and vid = "''dQw4w9WgXcQ''"
       and env = "\<lparr>pe_live_iframe_src = None, pe_thumbnail = \<lambda>v. ThumbDataUrl ''data:image/jpeg;base64,QUJD'',
      pe_autoplay_video = False, pe_controls_video = False, pe_canvas_ctx = True, pe_frame_url = [],
      pe_api = \<lambda>b. route_post
        \<lparr>env_text_model = \<lambda>p. Inl ''quota exceeded'', env_vision_model = \<lambda>i p. Inl ''quota exceeded'',
         env_now = ''2025-01-01T00:00:00.000Z'', env_null_destructure = ''TypeError''\<rparr> (ReqJson b)\<rparr>"
       and u = "''data:image/jpeg;base64,QUJD''"
       and p = "\<lparr>pg_source = SrcVideo, pg_video = Some (''dQw4w9WgXcQ'', VYouTube)\<rparr>"]
  by (simp add: qi_init_def js_trim_def js_ws_def split_comma_1_def request_body_def route_post_json valid_query_def
      route_dispatch_def analyze_image_with_context_def analyze_image_def)

theorem webcam_query_prompt_witness:
  "handle_query
     \<lparr>pe_live_iframe_src = None, pe_thumbnail = \<lambda>v. ThumbReadFails,
      pe_autoplay_video = True, pe_controls_video = False, pe_canvas_ctx = True,
      pe_frame_url = ''data:image/jpeg;base64,QUJD'',
      pe_api = \<lambda>b. route_post
        \<lparr>env_text_model = \<lambda>p. Inr ''text'', env_vision_model = \<lambda>i p. Inr ''A person at a desk.'',
         env_now = ''2025-01-01T00:00:00.000Z'', env_null_destructure = ''TypeError''\<rparr> (ReqJson b)\<rparr>
     \<lparr>pg_source = SrcWebcam, pg_video = None\<rparr> ''Who is there?''
   = Resolved (Some (query_result ''A person at a desk.'' ''2025-01-01T00:00:00.000Z''))"
  by (subst webcam_query_prompt [where b = "''QUJD''" and renv =
        "\<lparr>env_text_model = \<lambda>p. Inr ''text'', env_vision_model = \<lambda>i p. Inr ''A person at a desk.'',
          env_now = ''2025-01-01T00:00:00.000Z'', env_null_destructure = ''TypeError''\<rparr>"])
     (simp_all add: split_comma_1_def js_trim_def js_ws_def)

subsection \<open>The query form: properties\<close>

lemma qi_step_exclusive:
  "qi_result s = None \<or> qi_error s = None \<Longrightarrow> qi_result (qi_step sd f s e) = None \<or> qi_error (qi_step sd f s e) = None"
  by (cases e) (auto simp: handle_submit_def handle_suggested_query_def Let_def split: query_outcome.split)

text \<open>
  C21: The form never shows an error and an answer together: every event leaves
  the result or the error unset.
\<close>

theorem qi_panels_exclusive:
  "qv_error (qi_render sd (qi_run sd f qi_init es)) = None \<or> qv_answer (qi_render sd (qi_run sd f qi_init es)) = None"
proof -
  have "qi_result s = None \<or> qi_error s = None \<Longrightarrow>
        qi_result (fold (\<lambda>e s. qi_step sd f s e) es s) = None \<or> qi_error (fold (\<lambda>e s. qi_step sd f s e) es s) = None" for s
    by (induction es arbitrary: s) (simp_all add: qi_step_exclusive)
  then have "qi_result (qi_run sd f qi_init es) = None \<or> qi_error (qi_run sd f qi_init es) = None"
    by (simp add: qi_run_def qi_init_def)
  then show ?thesis by (auto simp: qi_render_def)
qed

text \<open>
  The Search button is disabled exactly when submitting does nothing,
  whatever \<open>onQuery\<close> does: the query is blank after \<open>trim()\<close> or a search
  is running (the guard of line 47 and the \<open>disabled\<close> of line 81 agree).
\<close>

theorem qi_submit_disabled_noop:
  "qv_submit_disabled (qi_render sd s) \<longleftrightarrow> (\<forall>f. handle_submit f s = s)"
proof
  assume "qv_submit_disabled (qi_render sd s)"
  then show "\<forall>f. handle_submit f s = s" by (auto simp: qi_render_def handle_submit_def)
next
  assume "\<forall>f. handle_submit f s = s"
  then have "handle_submit (\<lambda>q. Pending) s = s" ..
  then show "qv_submit_disabled (qi_render sd s)"
    by (auto simp: qi_render_def handle_submit_def Let_def split: if_splits dest: arg_cong [where f = qi_searching])
qed

text \<open>
  C30: Every query the form can send passes the route's validation: the
  form sends the trimmed text only when it is not blank, and trimming twice
  changes nothing, so the route dispatches on the request the page builds
  and never answers with one of its two query errors.
\<close>

theorem form_queries_pass_validation:
  assumes "\<not> qv_submit_disabled (qi_render sd s)"
  shows "route_post renv (ReqJson (request_body img (js_trim (qi_query s)) cam))
     = route_dispatch renv (map_option JStr img) (js_trim (qi_query s)) (Some (JStr cam)) None"
  using assms by (simp add: qi_render_def route_post_request_body js_trim_idem)
subsection \<open>Witnesses of the form's properties\<close>

theorem qi_submit_disabled_noop_witness:
  "qv_submit_disabled (qi_render None (qi_init\<lparr>qi_query := ''  ''\<rparr>))
   \<and> handle_submit (\<lambda>q. Pending) (qi_init\<lparr>qi_query := ''  ''\<rparr>) = qi_init\<lparr>qi_query := ''  ''\<rparr>"
proof -
  have "qv_submit_disabled (qi_render None (qi_init\<lparr>qi_query := ''  ''\<rparr>))"
    by (simp add: qi_render_def qi_init_def js_trim_def js_ws_def)
  with qi_submit_disabled_noop show ?thesis by blast
qed

theorem form_queries_pass_validation_witness:
  "route_post \<lparr>env_text_model = \<lambda>p. Inr ''text'', env_vision_model = \<lambda>i p. Inr ''Two people.'',
       env_now = ''2025-01-01T00:00:00.000Z'', env_null_destructure = ''TypeError''\<rparr>
     (ReqJson (request_body (Some ''QUJD'') (js_trim (qi_query (qi_init\<lparr>qi_query := '' How many people are visible? ''\<rparr>))) ''WEBCAM''))
   = route_dispatch \<lparr>env_text_model = \<lambda>p. Inr ''text'', env_vision_model = \<lambda>i p. Inr ''Two people.'',
       env_now = ''2025-01-01T00:00:00.000Z'', env_null_destructure = ''TypeError''\<rparr>
     (Some (JStr ''QUJD'')) (js_trim (qi_query (qi_init\<lparr>qi_query := '' How many people are visible? ''\<rparr>)))
     (Some (JStr ''WEBCAM'')) None"
  by (rule form_queries_pass_validation [where sd = None, of _ _ "Some ''QUJD''", simplified])
     (simp add: qi_render_def qi_init_def js_trim_def js_ws_def)

subsection \<open>The selector and the page\<close>

text \<open>
  C28: "Change Video" does not reach the page: after a YouTube video was
  loaded and the user asks to change it, the selector shows the empty URL
  form, but the page keeps the old video and its queries still ask about
  that video's thumbnail.
\<close>

theorem change_video_keeps_old_query:
  assumes "extract_youtube_id (vs_url v) = Some vid" and "vs_render v = VsForm ModeYouTube (vs_url v)"
    and "pg_source p = SrcVideo"
  shows "vs_render (fst (vs_step (vs_step (v, p) VsSubmitUrl) VsChangeVideo)) = VsForm ModeYouTube []
    \<and> handle_query env (snd (vs_step (vs_step (v, p) VsSubmitUrl) VsChangeVideo)) q
        = thumbnail_query env vid q ''YouTube Video''"
proof -
  have vid: "vid \<noteq> []" using assms(1) extract_with_sound by (auto simp: extract_youtube_id_def)
  have "\<not> str_truthy (vs_video_id v)" "\<not> str_truthy (vs_uploaded v)"
    using assms(2) by (auto simp: vs_render_def split: if_splits)
  then have sub: "vs_step (v, p) VsSubmitUrl = (v\<lparr>vs_video_id := Some vid\<rparr>, handle_video_select p vid VYouTube)"
    using assms(1,2) by (simp add: handle_youtube_submit_def)
  have "vs_render (v\<lparr>vs_video_id := Some vid\<rparr>) = VsPlayer (''https://www.youtube.com/embed/'' @ vid @ ''?enablejsapi=1'')"
    using vid by (simp add: vs_render_def str_truthy_def)
  with sub have "vs_step (vs_step (v, p) VsSubmitUrl) VsChangeVideo
      = (v\<lparr>vs_video_id := Some vid, vs_url := [], vs_video_id := None, vs_uploaded := None\<rparr>, handle_video_select p vid VYouTube)"
    by (simp add: handle_reset_def)
  moreover have "vs_mode v = ModeYouTube" using assms(2) by (auto simp: vs_render_def split: if_splits)
  ultimately show ?thesis
    using assms(3) by (simp add: vs_render_def str_truthy_def handle_query_def handle_video_select_def)
qed

theorem change_video_keeps_old_query_witness:
  "vs_render (fst (vs_step (vs_step (vs_init\<lparr>vs_url := ''https://youtu.be/dQw4w9WgXcQ''\<rparr>, page_init\<lparr>pg_source := SrcVideo\<rparr>) VsSubmitUrl) VsChangeVideo))
     = VsForm ModeYouTube []
   \<and> handle_query \<lparr>pe_live_iframe_src = None, pe_thumbnail = \<lambda>v. ThumbReadFails,
        pe_autoplay_video = False, pe_controls_video = False, pe_canvas_ctx = False, pe_frame_url = [],
        pe_api = \<lambda>b. respond_400 ''unused''\<rparr>
       (snd (vs_step (vs_step (vs_init\<lparr>vs_url := ''https://youtu.be/dQw4w9WgXcQ''\<rparr>, page_init\<lparr>pg_source := SrcVideo\<rparr>) VsSubmitUrl) VsChangeVideo))
       ''What is this?''
     = thumbnail_query \<lparr>pe_live_iframe_src = None, pe_thumbnail = \<lambda>v. ThumbReadFails,
        pe_autoplay_video = False, pe_controls_video = False, pe_canvas_ctx = False, pe_frame_url = [],
        pe_api = \<lambda>b. respond_400 ''unused''\<rparr> ''dQw4w9WgXcQ'' ''What is this?'' ''YouTube Video''"
  by (rule change_video_keeps_old_query) (code_simp, simp add: vs_render_def vs_init_def str_truthy_def, simp add: page_init_def)

end
