(* ===== verification/LiveStream.thy ===== *)
theory LiveStream
  imports YouTubeId
begin

text \<open>
  \<open>LiveYouTubeStream\<close> (src/components/LiveYouTubeStream.tsx): the text
  field \<open>inputUrl\<close> and the accepted \<open>videoId\<close> (lines 7--8), the handlers
  \<open>handleSubmit\<close> and \<open>handleReset\<close> (lines 23--37), and what the component
  renders (lines 39--133): with a truthy \<open>videoId\<close> an embedded player and an
  "Open in YouTube" link, otherwise the form.  \<open>alert\<close> is an output of the
  handler.  The form and its submit button are rendered only without a
  video, the "Change Stream" button only with one; \<open>lys_step\<close> ignores an
  event whose control is not on screen.
\<close>

record lys_state =
  lys_input :: string
  lys_video :: "string option"

definition lys_init :: lys_state where
  "lys_init = \<lparr>lys_input = [], lys_video = None\<rparr>"

text \<open>\<open>handleSubmit\<close>: \<open>if (id)\<close> tests the string's truthiness.\<close>

definition lys_invalid_msg :: string where
  "lys_invalid_msg = ''Invalid YouTube URL. Please try again.''"

definition lys_submit :: "lys_state \<Rightarrow> lys_state \<times> string option" where
  "lys_submit s =
     (case extract_video_id (lys_input s) of
        Some i \<Rightarrow> if i \<noteq> [] then (s\<lparr>lys_video := Some i\<rparr>, None) else (s, Some lys_invalid_msg)
      | None \<Rightarrow> (s, Some lys_invalid_msg))"

definition lys_reset :: "lys_state \<Rightarrow> lys_state" where
  "lys_reset s = s\<lparr>lys_input := [], lys_video := None\<rparr>"

text \<open>The iframe's \<open>src\<close> (line 44) and the link's \<open>href\<close> (line 61).\<close>

definition embed_src :: "string \<Rightarrow> string" where
  "embed_src i = ''https://www.youtube.com/embed/'' @ i @ ''?autoplay=1&mute=0&controls=1''"

definition watch_href :: "string \<Rightarrow> string" where
  "watch_href i = ''https://www.youtube.com/watch?v='' @ i"

datatype lys_view = LysPlayer string string | LysForm string

definition lys_render :: "lys_state \<Rightarrow> lys_view" where
  "lys_render s =
     (case lys_video s of
        Some i \<Rightarrow> if i \<noteq> [] then LysPlayer (embed_src i) (watch_href i) else LysForm (lys_input s)
      | None \<Rightarrow> LysForm (lys_input s))"

datatype lys_event = LysType string | LysSubmit | LysChangeStream

fun lys_step :: "lys_state \<Rightarrow> lys_event \<Rightarrow> lys_state \<times> string option" where
  "lys_step s (LysType v) = (case lys_render s of LysForm _ \<Rightarrow> (s\<lparr>lys_input := v\<rparr>, None) | _ \<Rightarrow> (s, None))"
| "lys_step s LysSubmit = (case lys_render s of LysForm _ \<Rightarrow> lys_submit s | _ \<Rightarrow> (s, None))"
| "lys_step s LysChangeStream = (case lys_render s of LysPlayer _ _ \<Rightarrow> (lys_reset s, None) | _ \<Rightarrow> (s, None))"

text \<open>A session of events, collecting the alerts shown.\<close>

fun lys_run :: "lys_state \<Rightarrow> lys_event list \<Rightarrow> lys_state \<times> string list" where
  "lys_run s [] = (s, [])"
| "lys_run s (e # es) =
     (let (s', a) = lys_step s e; (s'', as) = lys_run s' es in (s'', (case a of Some m \<Rightarrow> [m] | None \<Rightarrow> []) @ as))"

text \<open>What every state of the component satisfies: an accepted id is non-empty and
  free of the characters the capture group excludes.\<close>

definition lys_inv :: "lys_state \<Rightarrow> bool" where
  "lys_inv s \<longleftrightarrow> (case lys_video s of Some i \<Rightarrow> i \<noteq> [] \<and> list_all id_group_char i | None \<Rightarrow> True)"

subsection \<open>Lemmas\<close>

lemma extract_video_id_nonempty: "extract_video_id url = Some i \<Longrightarrow> i \<noteq> [] \<and> list_all id_group_char i"
  unfolding extract_video_id_def by (rule extract_with_sound)

lemma lys_submit_ok:
  "extract_video_id (lys_input s) = Some i \<Longrightarrow> lys_submit s = (s\<lparr>lys_video := Some i\<rparr>, None)"
  using extract_video_id_nonempty [of "lys_input s" i] by (simp add: lys_submit_def)

text \<open>
  C25: The player the component shows embeds the id it extracted, and both its
  iframe source and its link give that id back to either extractor.
\<close>

theorem lys_player_round_trip:
  assumes "lys_video s = None" and "extract_video_id (lys_input s) = Some i"
  shows "lys_render (fst (lys_step s LysSubmit)) = LysPlayer (embed_src i) (watch_href i)
    \<and> extract_video_id (embed_src i) = Some i \<and> extract_video_id (watch_href i) = Some i
    \<and> extract_youtube_id (embed_src i) = Some i \<and> extract_youtube_id (watch_href i) = Some i"
proof -
  have i: "i \<noteq> []" "list_all id_group_char i"
    using extract_video_id_nonempty [OF assms(2)] by simp_all
  have tw1: "takeWhile id_group_char (i @ ''?autoplay=1&mute=0&controls=1'') = i"
    using i(2) by (rule takeWhile_id_then_stop) (simp add: id_group_char_def)
  have tw2: "takeWhile id_group_char i = i"
    using takeWhile_id_then_stop [OF i(2), of "[]"] by simp
  have "lys_step s LysSubmit = (s\<lparr>lys_video := Some i\<rparr>, None)"
    using assms by (simp add: lys_render_def lys_submit_ok)
  then have r: "lys_render (fst (lys_step s LysSubmit)) = LysPlayer (embed_src i) (watch_href i)"
    using i by (simp add: lys_render_def)
  have e: "embed_src i = ''https://www.'' @ ''youtube.com/embed/'' @ i @ ''?autoplay=1&mute=0&controls=1''"
    by (simp add: embed_src_def)
  have w: "watch_href i = ''https://www.'' @ ''youtube.com/watch?v='' @ i"
    by (simp add: watch_href_def)
  have "regex_search id_group_char live_alts (embed_src i) = Some i"
    unfolding e by (subst regex_search_skip_prefix) (simp_all add: live_alts_def starts_with_def tw1 i(1))
  moreover have "regex_search id_group_char selector_alts (embed_src i) = Some i"
    unfolding e by (subst regex_search_skip_prefix) (simp_all add: selector_alts_def starts_with_def tw1 i(1))
  moreover have "regex_search id_group_char live_alts (watch_href i) = Some i"
    unfolding w by (subst regex_search_skip_prefix) (simp_all add: live_alts_def starts_with_def tw2 i(1))
  moreover have "regex_search id_group_char selector_alts (watch_href i) = Some i"
    unfolding w by (subst regex_search_skip_prefix) (simp_all add: selector_alts_def starts_with_def tw2 i(1))
  ultimately show ?thesis using r
    by (simp add: extract_video_id_def extract_youtube_id_def extract_with_def)
qed

lemma lys_step_inv: "lys_inv s \<Longrightarrow> lys_inv (fst (lys_step s e))"
  by (cases e) (auto simp: lys_inv_def lys_render_def lys_submit_def lys_reset_def
      dest: extract_video_id_nonempty split: option.splits if_splits lys_view.splits)

lemma lys_run_Cons_state [simp]: "fst (lys_run s (e # es)) = fst (lys_run (fst (lys_step s e)) es)"
  by (simp add: Let_def split: prod.split)

lemma lys_run_inv: "lys_inv s \<Longrightarrow> lys_inv (fst (lys_run s es))"
  by (induction es arbitrary: s) (simp_all add: lys_step_inv del: lys_run.simps(2))

text \<open>
  Whatever is typed and submitted, the embedded player's address is the
  fixed embed prefix, a non-empty id free of \<open>?\<close>, \<open>&\<close>, \<open>#\<close> and newlines,
  and the fixed query: a URL cannot add or override the player's
  parameters; the link is the watch page of the same id.
\<close>

theorem lys_player_src_safe:
  assumes "lys_render (fst (lys_run lys_init es)) = LysPlayer src href"
  shows "\<exists>i. src = embed_src i \<and> href = watch_href i \<and> i \<noteq> []
             \<and> CHR ''?'' \<notin> set i \<and> CHR ''&'' \<notin> set i \<and> CHR ''#'' \<notin> set i"
proof -
  have "lys_inv (fst (lys_run lys_init es))"
    by (rule lys_run_inv) (simp add: lys_inv_def lys_init_def)
  with assms show ?thesis
    by (auto simp: lys_inv_def lys_render_def list_all_iff id_group_char_def split: option.splits if_splits)
qed

subsection \<open>Witnesses\<close>

theorem lys_player_round_trip_witness:
  "lys_render (fst (lys_step (lys_init\<lparr>lys_input := ''https://www.youtube.com/live/VR-x3HdhKLQ''\<rparr>) LysSubmit))
     = LysPlayer (embed_src ''VR-x3HdhKLQ'') (watch_href ''VR-x3HdhKLQ'')
    \<and> extract_video_id (embed_src ''VR-x3HdhKLQ'') = Some ''VR-x3HdhKLQ''
    \<and> extract_video_id (watch_href ''VR-x3HdhKLQ'') = Some ''VR-x3HdhKLQ''
    \<and> extract_youtube_id (embed_src ''VR-x3HdhKLQ'') = Some ''VR-x3HdhKLQ''
    \<and> extract_youtube_id (watch_href ''VR-x3HdhKLQ'') = Some ''VR-x3HdhKLQ''"
  by (rule lys_player_round_trip) code_simp+

theorem lys_player_src_safe_witness:
  "\<exists>i. embed_src ''VR-x3HdhKLQ'' = embed_src i \<and> watch_href ''VR-x3HdhKLQ'' = watch_href i \<and> i \<noteq> []
     \<and> CHR ''?'' \<notin> set i \<and> CHR ''&'' \<notin> set i \<and> CHR ''#'' \<notin> set i"
  by (rule lys_player_src_safe [where es = "[LysType ''https://youtu.be/VR-x3HdhKLQ'', LysSubmit]"]) code_simp

end
