(* ===== verification/Webcam.thy ===== *)
theory Webcam
  imports Prelude
begin

text \<open>
  The webcam view \<open>WebcamCapture\<close> (src/components/WebcamCapture.tsx).  It
  opens the camera with \<open>getUserMedia\<close> on mount, attaches the stream to
  its \<open><video>\<close>, offers a start/stop toggle or, after an error, \<open>Try
  Again\<close>, and mounts the session manager over the video.  It is modelled
  with the part of the browser it changes: the camera streams whose tracks
  are still running, the video element and its \<open>srcObject\<close>.

  A handler is a closure over the state of the render that created it.  The
  mount effect has the dependency list \<open>[]\<close>, so its cleanup is the
  \<open>stopWebcam\<close> of the first render, whose state is the initial one;
  \<open>ww_cleanup\<close> keeps that state.  The buttons' handlers come from the
  latest render.  Unmounting discards the component's state and elements.
  \<open>getUserMedia\<close> is modelled as completing before the next event; its
  outcome is the event's argument.  After a handler, \<open>wc_commit\<close> performs
  React's render and commit when a state variable changed.
\<close>

subsection \<open>WebcamCapture\<close>

text \<open>The component's state (lines 9--12); a \<open>MediaStream\<close> is a number.\<close>

record wc_state =
  wc_stream :: "nat option"
  wc_error :: "string option"
  wc_active :: bool
  wc_summary :: string

definition wc_init :: wc_state where
  "wc_init = \<lparr>wc_stream = None, wc_error = None, wc_active = False, wc_summary = []\<rparr>"

text \<open>The browser side of the component: the camera streams whose tracks
  still run, the next stream's number, whether the component is mounted, the
  state its mount-time cleanup closes over, whether a \<open><video>\<close> element
  is in the document (\<open>videoRef.current\<close>, line 8), the
  \<open>srcObject\<close> of that element, and whether \<open>AdvancedSessionManager\<close>
  is mounted (lines 113--118).\<close>

record wc_world =
  ww_comp :: wc_state
  ww_live :: "nat list"
  ww_next :: nat
  ww_mounted :: bool
  ww_cleanup :: wc_state
  ww_video :: bool
  ww_src :: "nat option"
  ww_manager :: bool

definition wc_world_init :: wc_world where
  "wc_world_init = \<lparr>ww_comp = wc_init, ww_live = [], ww_next = 0, ww_mounted = False, ww_cleanup = wc_init,
     ww_video = False, ww_src = None, ww_manager = False\<rparr>"

text \<open>\<open>startWebcam\<close> (lines 14--35): a granted request opens a new stream
  and attaches it to the video element if one is in the document
  (lines 23--25); a refused one sets the error.\<close>

definition start_webcam :: "bool \<Rightarrow> wc_world \<Rightarrow> wc_world" where
  "start_webcam granted w =
     (if granted then
        w\<lparr>ww_comp := (ww_comp w)\<lparr>wc_stream := Some (ww_next w), wc_active := True, wc_error := None\<rparr>,
          ww_live := ww_live w @ [ww_next w], ww_next := Suc (ww_next w),
          ww_src := (if ww_video w then Some (ww_next w) else ww_src w)\<rparr>
      else
        w\<lparr>ww_comp := (ww_comp w)\<lparr>wc_error := Some ''Unable to access webcam. Please check permissions.'',
                                  wc_active := False\<rparr>\<rparr>)"

text \<open>\<open>stopWebcam\<close> (lines 37--43) of the render whose state is \<open>captured\<close>.\<close>

definition stop_webcam :: "wc_state \<Rightarrow> wc_world \<Rightarrow> wc_world" where
  "stop_webcam captured w =
     (case wc_stream captured of
        Some st \<Rightarrow>
          w\<lparr>ww_comp := (ww_comp w)\<lparr>wc_stream := None, wc_active := False\<rparr>,
            ww_live := filter (\<lambda>x. x \<noteq> st) (ww_live w)\<rparr>
      | None \<Rightarrow> w)"

text \<open>The render and commit that follow a change of state (lines 57--129).
  React re-renders only when a state variable took a new value.  The render
  shows the error panel or the \<open><video>\<close> (line 60); a \<open><video>\<close> that
  replaces the error panel is a new element, without \<open>srcObject\<close>.  The
  condition \<open>isActive && videoRef.current\<close> (line 113) is evaluated during
  the render, when the ref still holds the element of the previous commit.\<close>

definition wc_commit :: "wc_world \<Rightarrow> wc_world \<Rightarrow> wc_world" where
  "wc_commit old w =
     (if ww_comp w = ww_comp old \<and> ww_mounted w = ww_mounted old then w
      else
        (let shown = (ww_mounted w \<and> wc_error (ww_comp w) = None)
         in w\<lparr>ww_manager := (ww_mounted w \<and> wc_active (ww_comp w) \<and> ww_video w),
              ww_video := shown,
              ww_src := (if shown \<and> ww_video w then ww_src w else None)\<rparr>))"

datatype wc_event = WcMount bool | WcToggle bool | WcTryAgain bool | WcUnmount | WcSummary string

text \<open>The mount effect with its cleanup (lines 45--51), run after the first
  commit; the toggle button of the video panel (line 91); \<open>Try Again\<close> of
  the error panel (line 65); \<open>handleSessionSummary\<close> (lines 53--55), called
  by the mounted session manager.  Unmounting removes the component's
  elements.\<close>

fun wc_step :: "wc_world \<Rightarrow> wc_event \<Rightarrow> wc_world" where
  "wc_step w (WcMount g) =
     (if ww_mounted w then w
      else
        (let w1 = wc_commit w (w\<lparr>ww_mounted := True, ww_comp := wc_init, ww_cleanup := wc_init\<rparr>)
         in wc_commit w1 (start_webcam g w1)))"
| "wc_step w (WcToggle g) =
     (if \<not> (ww_mounted w \<and> wc_error (ww_comp w) = None) then w
      else wc_commit w (if wc_active (ww_comp w) then stop_webcam (ww_comp w) w else start_webcam g w))"
| "wc_step w (WcTryAgain g) =
     (if ww_mounted w \<and> wc_error (ww_comp w) \<noteq> None then wc_commit w (start_webcam g w) else w)"
| "wc_step w WcUnmount =
     (if ww_mounted w then
        (stop_webcam (ww_cleanup w) w)\<lparr>ww_mounted := False, ww_comp := wc_init,
           ww_video := False, ww_src := None, ww_manager := False\<rparr>
      else w)"
| "wc_step w (WcSummary t) =
     (if ww_manager w then wc_commit w (w\<lparr>ww_comp := (ww_comp w)\<lparr>wc_summary := t\<rparr>\<rparr>) else w)"

definition wc_run :: "wc_world \<Rightarrow> wc_event list \<Rightarrow> wc_world" where
  "wc_run w es = fold (\<lambda>e w. wc_step w e) es w"

text \<open>What the component shows (lines 57--129): the error panel with its
  message and \<open>Try Again\<close>, or the video with the toggle labelled by
  \<open>isActive\<close> (lines 94--104); the session manager; the summary panel when
  \<open>sessionSummary\<close> is non-empty (line 120).\<close>

datatype wc_panel = WcErrorPanel string | WcVideoPanel string

record wc_view =
  wv_panel :: wc_panel
  wv_manager :: bool
  wv_summary :: "string option"

definition wc_render :: "wc_world \<Rightarrow> wc_view option" where
  "wc_render w =
     (if \<not> ww_mounted w then None
      else Some \<lparr>wv_panel = (case wc_error (ww_comp w) of
                               Some e \<Rightarrow> WcErrorPanel e
                             | None \<Rightarrow> WcVideoPanel (if wc_active (ww_comp w) then ''Stop Camera'' else ''Start Camera'')),
                 wv_manager = ww_manager w,
                 wv_summary = (if wc_summary (ww_comp w) = [] then None else Some (wc_summary (ww_comp w)))\<rparr>)"

text \<open>What every reachable world satisfies: the video element is in the
  document exactly while the component is mounted without an error, an
  active camera has no error, the session manager is mounted only over that
  element while the camera is active, and the cleanup holds the initial
  state.\<close>

definition wc_inv :: "wc_world \<Rightarrow> bool" where
  "wc_inv w \<longleftrightarrow>
     ww_video w = (ww_mounted w \<and> wc_error (ww_comp w) = None)
     \<and> (wc_active (ww_comp w) \<longrightarrow> wc_error (ww_comp w) = None)
     \<and> (ww_manager w \<longrightarrow> ww_video w \<and> wc_active (ww_comp w))
     \<and> ww_cleanup w = wc_init"

subsection \<open>Lemmas\<close>

lemma wc_commit_fields [simp]:
  "ww_comp (wc_commit old w) = ww_comp w" "ww_live (wc_commit old w) = ww_live w"
  "ww_next (wc_commit old w) = ww_next w" "ww_mounted (wc_commit old w) = ww_mounted w"
  "ww_cleanup (wc_commit old w) = ww_cleanup w"
  by (simp_all add: wc_commit_def Let_def)

lemma webcam_ops_fields [simp]:
  "ww_mounted (start_webcam g w) = ww_mounted w" "ww_mounted (stop_webcam c w) = ww_mounted w"
  "ww_video (start_webcam g w) = ww_video w" "ww_video (stop_webcam c w) = ww_video w"
  "ww_manager (start_webcam g w) = ww_manager w" "ww_manager (stop_webcam c w) = ww_manager w"
  "ww_cleanup (start_webcam g w) = ww_cleanup w" "ww_cleanup (stop_webcam c w) = ww_cleanup w"
  by (simp_all add: start_webcam_def stop_webcam_def split: option.split)

lemma webcam_ops_active:
  "wc_active (ww_comp (start_webcam g w)) \<longrightarrow> wc_error (ww_comp (start_webcam g w)) = None"
  "wc_active (ww_comp w) \<longrightarrow> wc_error (ww_comp w) = None \<Longrightarrow>
   wc_active (ww_comp (stop_webcam c w)) \<longrightarrow> wc_error (ww_comp (stop_webcam c w)) = None"
  by (simp_all add: start_webcam_def stop_webcam_def split: option.split)

text \<open>A commit re-establishes the invariant after a handler that leaves the
  elements alone.\<close>

lemma wc_commit_inv:
  assumes "wc_inv old" "ww_video w = ww_video old" "ww_manager w = ww_manager old"
    "ww_cleanup w = wc_init" "wc_active (ww_comp w) \<longrightarrow> wc_error (ww_comp w) = None"
  shows "wc_inv (wc_commit old w)"
proof (cases "ww_comp w = ww_comp old \<and> ww_mounted w = ww_mounted old")
  case True
  then show ?thesis using assms by (auto simp: wc_commit_def wc_inv_def)
next
  case False
  then show ?thesis using assms(4,5) by (auto simp: wc_commit_def wc_inv_def Let_def)
qed

lemma wc_invD:
  "wc_inv w \<Longrightarrow> ww_cleanup w = wc_init"
  "wc_inv w \<Longrightarrow> wc_active (ww_comp w) \<longrightarrow> wc_error (ww_comp w) = None"
  by (simp_all add: wc_inv_def)

lemma wc_step_inv: "wc_inv w \<Longrightarrow> wc_inv (wc_step w e)"
proof (induction w e rule: wc_step.induct)
  case (1 w g)
  let ?w0 = "w\<lparr>ww_mounted := True, ww_comp := wc_init, ww_cleanup := wc_init\<rparr>"
  have "wc_inv (wc_commit w ?w0)" using 1 by (intro wc_commit_inv) (auto simp: wc_inv_def wc_init_def)
  then show ?case using 1 webcam_ops_active(1) [of g "wc_commit w ?w0"] by (simp add: Let_def wc_commit_inv)
next
  case (2 w g)
  then show ?case using webcam_ops_active(1) [of g w] webcam_ops_active(2) [of w "ww_comp w"] wc_invD [OF 2]
    by (simp add: wc_commit_inv)
next
  case (3 w g)
  then show ?case using webcam_ops_active(1) [of g w] wc_invD [OF 3] by (simp add: wc_commit_inv)
next
  case (4 w)
  then show ?case by (auto simp: wc_inv_def wc_init_def)
next
  case (5 w t)
  then show ?case using wc_invD [OF 5] by (simp add: wc_commit_inv)
qed

lemma wc_run_inv: "wc_inv (wc_run wc_world_init es)"
proof -
  have "wc_inv w \<Longrightarrow> wc_inv (fold (\<lambda>e w. wc_step w e) es w)" for w
    by (induction es arbitrary: w) (simp_all add: wc_step_inv)
  moreover have "wc_inv wc_world_init" by (simp add: wc_world_init_def wc_inv_def wc_init_def)
  ultimately show ?thesis by (simp add: wc_run_def)
qed

lemma wc_step_mounted [simp]:
  "ww_mounted (wc_step w (WcMount g))" "\<not> ww_mounted (wc_step w WcUnmount)"
  "ww_mounted (wc_step w (WcToggle g)) = ww_mounted w" "ww_mounted (wc_step w (WcTryAgain g)) = ww_mounted w"
  by (simp_all add: Let_def)

lemma wc_step_live:
  "ww_cleanup w = wc_init \<Longrightarrow> ww_live (wc_step w WcUnmount) = ww_live w"
  "\<not> ww_mounted w \<Longrightarrow> ww_live (wc_step w (WcMount True)) = ww_live w @ [ww_next w]"
  by (simp_all add: Let_def stop_webcam_def wc_init_def start_webcam_def)

lemma wc_step_cleanup: "ww_cleanup w = wc_init \<Longrightarrow> ww_cleanup (wc_step w e) = wc_init"
  by (cases e) (simp_all add: Let_def)

lemma wc_run_cleanup: "ww_cleanup (wc_run wc_world_init es) = wc_init"
proof -
  have "ww_cleanup w = wc_init \<Longrightarrow> ww_cleanup (fold (\<lambda>e w. wc_step w e) es w) = wc_init" for w
    by (induction es arbitrary: w) (simp_all add: wc_step_cleanup)
  then show ?thesis by (simp add: wc_run_def wc_world_init_def)
qed

text \<open>
  C23: Unmounting WebcamCapture stops no camera stream: the cleanup is the
  first render's \<open>stopWebcam\<close>, whose \<open>stream\<close> is still \<open>null\<close>, so
  the tracks opened on mount keep running after the component is gone.
\<close>

theorem webcam_unmount_keeps_streams:
  "ww_live (wc_step (wc_run wc_world_init es) WcUnmount) = ww_live (wc_run wc_world_init es)"
  using wc_run_cleanup [of es] by (simp add: stop_webcam_def wc_init_def)

text \<open>The two branches of the camera button that matter to the page: a
  granted \<open>Try Again\<close> and \<open>Stop Camera\<close>, as whole-world updates.\<close>

lemma try_again_granted:
  assumes "wc_inv w" "ww_mounted w" "wc_error (ww_comp w) \<noteq> None"
  shows "ww_comp (wc_step w (WcTryAgain True))
           = (ww_comp w)\<lparr>wc_stream := Some (ww_next w), wc_active := True, wc_error := None\<rparr>"
    "ww_live (wc_step w (WcTryAgain True)) = ww_live w @ [ww_next w]"
    "ww_mounted (wc_step w (WcTryAgain True))" "ww_video (wc_step w (WcTryAgain True))"
    "ww_src (wc_step w (WcTryAgain True)) = None"
proof -
  have "(ww_comp w)\<lparr>wc_stream := Some (ww_next w), wc_active := True, wc_error := None\<rparr> \<noteq> ww_comp w"
    using assms(3) by (auto dest: arg_cong [where f = wc_error])
  then show "ww_comp (wc_step w (WcTryAgain True))
           = (ww_comp w)\<lparr>wc_stream := Some (ww_next w), wc_active := True, wc_error := None\<rparr>"
    "ww_live (wc_step w (WcTryAgain True)) = ww_live w @ [ww_next w]"
    "ww_mounted (wc_step w (WcTryAgain True))" "ww_video (wc_step w (WcTryAgain True))"
    "ww_src (wc_step w (WcTryAgain True)) = None"
    using assms by (simp_all add: wc_inv_def start_webcam_def wc_commit_def)
qed

text \<open>The render after a granted \<open>Try Again\<close> ran while the ref was
  \<open>null\<close>: no session manager.\<close>

lemma try_again_no_manager:
  assumes "wc_inv w" "ww_mounted w" "wc_error (ww_comp w) \<noteq> None"
  shows "\<not> ww_manager (wc_step w (WcTryAgain True))"
proof -
  have "(ww_comp w)\<lparr>wc_stream := Some (ww_next w), wc_active := True, wc_error := None\<rparr> \<noteq> ww_comp w"
    using assms(3) by (auto dest: arg_cong [where f = wc_error])
  then show ?thesis using assms by (simp add: wc_inv_def start_webcam_def wc_commit_def)
qed

lemma toggle_stops:
  assumes "wc_inv w" "ww_mounted w" "wc_active (ww_comp w)" "wc_stream (ww_comp w) = Some st"
  shows "wc_step w (WcToggle g) =
    w\<lparr>ww_comp := (ww_comp w)\<lparr>wc_stream := None, wc_active := False\<rparr>,
      ww_live := filter (\<lambda>x. x \<noteq> st) (ww_live w), ww_manager := False\<rparr>"
proof -
  have "(ww_comp w)\<lparr>wc_stream := None, wc_active := False\<rparr> \<noteq> ww_comp w"
    using assms(4) by (auto dest: arg_cong [where f = wc_stream])
  then show ?thesis using assms by (simp add: wc_inv_def stop_webcam_def wc_commit_def)
qed

lemma wc_run_video: "ww_video (wc_run wc_world_init es) = (ww_mounted (wc_run wc_world_init es)
    \<and> wc_error (ww_comp (wc_run wc_world_init es)) = None)"
  using wc_run_inv [of es] by (simp add: wc_inv_def)

text \<open>
  C32: When the first camera request fails, the error panel replaces the
  \<open><video>\<close>, so \<open>videoRef.current\<close> is \<open>null\<close>; a granted
  \<open>Try Again\<close> opens a stream but has no element to attach it to
  (line 23).  The re-render mounts a new \<open><video>\<close> without
  \<open>srcObject\<close> under a "Stop Camera" button, and, since the ref was
  still \<open>null\<close> during that render, no session manager: the camera runs
  and nothing shows or analyses it.
\<close>

theorem try_again_leaves_video_blank:
  assumes "ww_mounted (wc_run wc_world_init es)" and "wc_error (ww_comp (wc_run wc_world_init es)) \<noteq> None"
  shows "let w = wc_run wc_world_init es; w' = wc_step w (WcTryAgain True)
         in wc_stream (ww_comp w') = Some (ww_next w) \<and> ww_next w \<in> set (ww_live w')
            \<and> ww_video w' \<and> ww_src w' = None
            \<and> (\<exists>v. wc_render w' = Some v \<and> wv_panel v = WcVideoPanel ''Stop Camera'' \<and> \<not> wv_manager v)"
  using try_again_granted [OF wc_run_inv assms] try_again_no_manager [OF wc_run_inv assms] assms
  by (simp add: wc_render_def)

text \<open>
  C22: Mounting WebcamCapture with a granted request attaches the new stream
  to the video element and mounts the session manager over it, under a
  "Stop Camera" button.
\<close>

theorem mount_attaches_stream:
  assumes "\<not> ww_mounted (wc_run wc_world_init es)"
  shows "let w = wc_run wc_world_init es; w' = wc_step w (WcMount True)
         in wc_stream (ww_comp w') = Some (ww_next w) \<and> ww_src w' = Some (ww_next w)
            \<and> wc_render w' = Some \<lparr>wv_panel = WcVideoPanel ''Stop Camera'', wv_manager = True, wv_summary = None\<rparr>"
  using assms wc_run_video [of es]
  by (simp add: Let_def start_webcam_def wc_commit_def wc_render_def wc_init_def)

text \<open>
  C35: With the camera running, "Stop Camera" stops its stream and shows
  "Start Camera" without a session manager; a granted "Start Camera" then
  opens a new stream, attaches it to the video, which stayed in the
  document, and mounts the session manager under "Stop Camera".
\<close>

theorem restart_attaches_stream:
  assumes "ww_mounted (wc_run wc_world_init es)" and "wc_active (ww_comp (wc_run wc_world_init es))"
    and "wc_stream (ww_comp (wc_run wc_world_init es)) = Some st"
  shows "let w = wc_run wc_world_init es; w1 = wc_step w (WcToggle g); w2 = wc_step w1 (WcToggle True)
         in st \<notin> set (ww_live w1)
            \<and> (\<exists>v. wc_render w1 = Some v \<and> wv_panel v = WcVideoPanel ''Start Camera'' \<and> \<not> wv_manager v)
            \<and> wc_stream (ww_comp w2) = Some (ww_next w) \<and> ww_src w2 = Some (ww_next w)
            \<and> ww_next w \<in> set (ww_live w2)
            \<and> (\<exists>v. wc_render w2 = Some v \<and> wv_panel v = WcVideoPanel ''Stop Camera'' \<and> wv_manager v)"
proof -
  let ?w = "wc_run wc_world_init es"
  have inv: "wc_inv ?w" by (rule wc_run_inv)
  note w1 = toggle_stops [OF inv assms]
  have e: "wc_error (ww_comp ?w) = None" "ww_video ?w"
    using inv assms(1,2) by (simp_all add: wc_inv_def)
  let ?c1 = "(ww_comp ?w)\<lparr>wc_stream := None, wc_active := False\<rparr>"
  have "?c1\<lparr>wc_stream := Some (ww_next ?w), wc_active := True, wc_error := None\<rparr> \<noteq> ?c1"
    by (auto dest: arg_cong [where f = wc_active])
  then show ?thesis using w1 e assms(1)
    by (simp add: Let_def start_webcam_def wc_commit_def wc_render_def)
qed

subsection \<open>Witnesses\<close>

theorem try_again_leaves_video_blank_witness:
  "let w = wc_run wc_world_init [WcMount False]; w' = wc_step w (WcTryAgain True)
   in wc_stream (ww_comp w') = Some (ww_next w) \<and> ww_next w \<in> set (ww_live w')
      \<and> ww_video w' \<and> ww_src w' = None
      \<and> (\<exists>v. wc_render w' = Some v \<and> wv_panel v = WcVideoPanel ''Stop Camera'' \<and> \<not> wv_manager v)"
  by (rule try_again_leaves_video_blank)
     (simp_all add: wc_run_def wc_world_init_def wc_init_def start_webcam_def wc_commit_def Let_def)

theorem mount_attaches_stream_witness:
  "let w = wc_run wc_world_init [WcMount True, WcUnmount]; w' = wc_step w (WcMount True)
   in wc_stream (ww_comp w') = Some (ww_next w) \<and> ww_src w' = Some (ww_next w)
      \<and> wc_render w' = Some \<lparr>wv_panel = WcVideoPanel ''Stop Camera'', wv_manager = True, wv_summary = None\<rparr>"
  by (rule mount_attaches_stream)
     (simp add: wc_run_def wc_world_init_def wc_init_def start_webcam_def stop_webcam_def wc_commit_def Let_def)

theorem restart_attaches_stream_witness:
  "let w = wc_run wc_world_init [WcMount True]; w1 = wc_step w (WcToggle False); w2 = wc_step w1 (WcToggle True)
   in 0 \<notin> set (ww_live w1)
      \<and> (\<exists>v. wc_render w1 = Some v \<and> wv_panel v = WcVideoPanel ''Start Camera'' \<and> \<not> wv_manager v)
      \<and> wc_stream (ww_comp w2) = Some (ww_next w) \<and> ww_src w2 = Some (ww_next w)
      \<and> ww_next w \<in> set (ww_live w2)
      \<and> (\<exists>v. wc_render w2 = Some v \<and> wv_panel v = WcVideoPanel ''Stop Camera'' \<and> wv_manager v)"
  by (rule restart_attaches_stream)
     (simp_all add: wc_run_def wc_world_init_def wc_init_def start_webcam_def wc_commit_def Let_def)

theorem webcam_unmount_keeps_streams_witness:
  "ww_live (wc_step (wc_run wc_world_init [WcMount True]) WcUnmount) = [0]"
  using webcam_unmount_keeps_streams [of "[WcMount True]"]
  by (simp add: wc_run_def wc_world_init_def start_webcam_def wc_commit_def Let_def)

end
