(* ===== verification/HomePage.thy ===== *)
theory HomePage
  imports QueryPage LiveStream Webcam
begin

text \<open>
  The home page as the composition of its parts (src/app/page.tsx,
  lines 146--233): the three source buttons, the one source component that
  is mounted for the current source, and the query form whose questions go
  to \<open>handleQuery\<close>.  React mounts \<open>VideoSelector\<close>,
  \<open>LiveYouTubeStream\<close> or \<open>WebcamCapture\<close> by \<open>sourceType\<close>; choosing
  another source unmounts the current one, dropping its state and running
  its cleanup, and mounts the new one with fresh state.  The camera world
  (streams, the webcam component's state and its mount-time cleanup) is
  \<open>Webcam.wc_world\<close>.

  \<open>handleQuery\<close> finds its inputs in the document: the first iframe whose
  \<open>src\<close> contains youtube.com/embed (only LiveYouTubeStream's, in live mode),
  \<open>video[autoplay]\<close> (WebcamCapture's video, rendered whenever no error is
  shown, lines 60--79) and the file player's \<open>video[controls]\<close>.  A video
  element without \<open>srcObject\<close> has no pixels: \<open>videoWidth\<close> is 0, and
  \<open>toDataURL\<close> of a canvas of width 0 is \<open>"data:,"\<close> (HTML standard).
  The rest of the browser is a \<open>browser\<close>: thumbnails, whether a 2D context
  is available, the data URL of a frame of a playing video, the data URL the
  browser captures from a video whose stream was stopped, the endpoint.
\<close>

datatype child = CSelector selector_state | CLive lys_state | CWebcam

record home =
  h_page :: page_state
  h_child :: child
  h_cam :: wc_world

definition home_init :: home where
  "home_init = \<lparr>h_page = page_init, h_child = CLive lys_init, h_cam = wc_world_init\<rparr>"

text \<open>Mounting the component of a source; \<open>granted\<close> is the outcome of the
  webcam's \<open>getUserMedia\<close>.\<close>

fun mount_child :: "bool \<Rightarrow> source_type \<Rightarrow> home \<Rightarrow> home" where
  "mount_child g SrcVideo h = h\<lparr>h_child := CSelector vs_init\<rparr>"
| "mount_child g SrcLive h = h\<lparr>h_child := CLive lys_init\<rparr>"
| "mount_child g SrcWebcam h = h\<lparr>h_child := CWebcam, h_cam := wc_step (h_cam h) (WcMount g)\<rparr>"

definition unmount_child :: "home \<Rightarrow> home" where
  "unmount_child h = (if h_child h = CWebcam then h\<lparr>h_cam := wc_step (h_cam h) WcUnmount\<rparr> else h)"

text \<open>The source buttons (lines 159--190) and the events of the mounted
  component; a camera event reaches WebcamCapture only while it is mounted,
  and mounting and unmounting happen only through the source buttons.\<close>

datatype home_event =
    HSource source_type bool
  | HSelector vs_event
  | HLive lys_event
  | HCamToggle bool
  | HCamTryAgain bool

fun home_step :: "home \<Rightarrow> home_event \<Rightarrow> home" where
  "home_step h (HSource st g) =
     (if pg_source (h_page h) = st then h
      else mount_child g st ((unmount_child h)\<lparr>h_page := (h_page h)\<lparr>pg_source := st\<rparr>\<rparr>))"
| "home_step h (HSelector e) =
     (case h_child h of
        CSelector v \<Rightarrow> (let (v', p') = vs_step (v, h_page h) e in h\<lparr>h_child := CSelector v', h_page := p'\<rparr>)
      | _ \<Rightarrow> h)"
| "home_step h (HLive e) = (case h_child h of CLive l \<Rightarrow> h\<lparr>h_child := CLive (fst (lys_step l e))\<rparr> | _ \<Rightarrow> h)"
| "home_step h (HCamToggle g) = (if h_child h = CWebcam then h\<lparr>h_cam := wc_step (h_cam h) (WcToggle g)\<rparr> else h)"
| "home_step h (HCamTryAgain g) = (if h_child h = CWebcam then h\<lparr>h_cam := wc_step (h_cam h) (WcTryAgain g)\<rparr> else h)"

definition home_run :: "home \<Rightarrow> home_event list \<Rightarrow> home" where
  "home_run h es = fold (\<lambda>e h. home_step h e) es h"

record browser =
  br_thumbnail :: "string \<Rightarrow> thumb_result"
  br_canvas_ctx :: bool
  br_frame :: string
  br_stale_frame :: string
  br_api :: "json \<Rightarrow> http_response"

text \<open>
  The data URL \<open>captureFrame\<close> reads from WebcamCapture's video.  Without a
  \<open>srcObject\<close> the video has no dimensions, the canvas is 0 by 0 and
  \<open>toDataURL\<close> gives \<open>data:,\<close>.  With a stream whose tracks still run it is
  the current frame, \<open>br_frame\<close>.  Stopping the tracks leaves the
  \<open>srcObject\<close> and the video's dimensions in place; what \<open>drawImage\<close> then
  captures (the last frame, or a black one) is the browser's, \<open>br_stale_frame\<close>.
\<close>

definition cam_frame :: "browser \<Rightarrow> wc_world \<Rightarrow> string" where
  "cam_frame b w =
     (case ww_src w of
        None \<Rightarrow> ''data:,''
      | Some s \<Rightarrow> if s \<in> set (ww_live w) then br_frame b else br_stale_frame b)"

text \<open>What \<open>handleQuery\<close> finds in the document of a page state.\<close>

definition home_env :: "browser \<Rightarrow> home \<Rightarrow> page_env" where
  "home_env b h =
     \<lparr>pe_live_iframe_src =
        (case h_child h of
           CLive l \<Rightarrow> (case lys_render l of LysPlayer src _ \<Rightarrow> Some src | LysForm _ \<Rightarrow> None)
         | _ \<Rightarrow> None),
      pe_thumbnail = br_thumbnail b,
      pe_autoplay_video = (h_child h = CWebcam \<and> ww_video (h_cam h)),
      pe_controls_video =
        (case h_child h of CSelector v \<Rightarrow> (case vs_render v of VsFilePlayer _ \<Rightarrow> True | _ \<Rightarrow> False) | _ \<Rightarrow> False),
      pe_canvas_ctx = br_canvas_ctx b,
      pe_frame_url =
        (if h_child h = CWebcam then cam_frame b (h_cam h) else br_frame b),
      pe_api = br_api b\<rparr>"

definition home_query :: "browser \<Rightarrow> home \<Rightarrow> string \<Rightarrow> json option query_outcome" where
  "home_query b h q = handle_query (home_env b h) (h_page h) q"

text \<open>What every reachable page state satisfies: the mounted component is
  the one of the current source, WebcamCapture's world counts as mounted
  exactly while it is, and that world satisfies \<open>Webcam.wc_inv\<close>.\<close>

definition home_inv :: "home \<Rightarrow> bool" where
  "home_inv h \<longleftrightarrow>
     (case h_child h of
        CSelector _ \<Rightarrow> pg_source (h_page h) = SrcVideo
      | CLive _ \<Rightarrow> pg_source (h_page h) = SrcLive
      | CWebcam \<Rightarrow> pg_source (h_page h) = SrcWebcam)
     \<and> ww_mounted (h_cam h) = (h_child h = CWebcam) \<and> wc_inv (h_cam h)"

subsection \<open>Lemmas\<close>

lemma vs_step_source: "pg_source (snd (vs_step (v, p) e)) = pg_source p"
  by (cases e) (auto simp: handle_youtube_submit_def handle_file_upload_def handle_reset_def
      handle_video_select_def split: vs_view.split input_mode.split option.split)

lemma home_step_inv:
  assumes "home_inv h"
  shows "home_inv (home_step h e)"
proof (cases e)
  case (HSource st g)
  then show ?thesis using assms
    by (cases st; cases "h_child h") (auto simp: home_inv_def unmount_child_def wc_step_inv simp del: wc_step.simps)
next
  case (HSelector x)
  then show ?thesis using assms vs_step_source
    by (cases "h_child h") (auto simp: home_inv_def split_beta)
next
  case (HLive x)
  then show ?thesis using assms by (cases "h_child h") (auto simp: home_inv_def)
qed (use assms wc_step_inv in \<open>auto simp: home_inv_def simp del: wc_step.simps\<close>)

lemma home_run_inv: "home_inv h \<Longrightarrow> home_inv (home_run h es)"
proof -
  assume "home_inv h"
  have "home_inv h' \<Longrightarrow> home_inv (fold (\<lambda>e h. home_step h e) es h')" for h'
    by (induction es arbitrary: h') (simp_all add: home_step_inv)
  with \<open>home_inv h\<close> show ?thesis by (simp add: home_run_def)
qed

lemma home_inv_init: "home_inv home_init"
  by (simp add: home_inv_def home_init_def page_init_def wc_world_init_def wc_inv_def wc_init_def)

lemma webcam_round_trip:
  assumes "home_inv h" and "h_child h = CWebcam"
  shows "home_inv (home_run h [HSource SrcLive g, HSource SrcWebcam True])
    \<and> h_child (home_run h [HSource SrcLive g, HSource SrcWebcam True]) = CWebcam
    \<and> length (ww_live (h_cam (home_run h [HSource SrcLive g, HSource SrcWebcam True])))
        = Suc (length (ww_live (h_cam h)))"
proof -
  have "home_inv (home_run h [HSource SrcLive g, HSource SrcWebcam True])"
    using home_run_inv [OF assms(1)] .
  moreover have "pg_source (h_page h) = SrcWebcam" "ww_mounted (h_cam h)" "ww_cleanup (h_cam h) = wc_init"
    using assms by (simp_all add: home_inv_def wc_inv_def)
  ultimately show ?thesis using assms(2)
    by (simp add: home_run_def unmount_child_def wc_step_live del: wc_step.simps)
qed

text \<open>
  C34: Switching from the webcam to another source and back leaves one more
  camera stream running each time: the unmounted WebcamCapture never stops
  its stream, and the remounted one opens a new one.
\<close>

theorem source_switching_leaks_streams:
  assumes "h_child (home_run home_init es) = CWebcam"
  shows "length (ww_live (h_cam (home_run (home_run home_init es)
            (concat (replicate n [HSource SrcLive g, HSource SrcWebcam True])))))
         = length (ww_live (h_cam (home_run home_init es))) + n"
proof -
  have "home_inv h \<Longrightarrow> h_child h = CWebcam \<Longrightarrow>
        h_child (home_run h (concat (replicate n [HSource SrcLive g, HSource SrcWebcam True]))) = CWebcam
        \<and> home_inv (home_run h (concat (replicate n [HSource SrcLive g, HSource SrcWebcam True])))
        \<and> length (ww_live (h_cam (home_run h (concat (replicate n [HSource SrcLive g, HSource SrcWebcam True])))))
           = length (ww_live (h_cam h)) + n" for h
  proof (induction n arbitrary: h)
    case 0
    then show ?case by (simp add: home_run_def)
  next
    case (Suc n)
    let ?h1 = "home_run h [HSource SrcLive g, HSource SrcWebcam True]"
    have r: "home_inv ?h1 \<and> h_child ?h1 = CWebcam \<and> length (ww_live (h_cam ?h1)) = Suc (length (ww_live (h_cam h)))"
      using webcam_round_trip [OF Suc.prems] .
    have "home_run h (concat (replicate (Suc n) [HSource SrcLive g, HSource SrcWebcam True]))
          = home_run ?h1 (concat (replicate n [HSource SrcLive g, HSource SrcWebcam True]))"
      by (simp add: home_run_def)
    with Suc.IH [of ?h1] r show ?case by simp
  qed
  moreover have "home_inv (home_run home_init es)" by (rule home_run_inv [OF home_inv_init])
  ultimately show ?thesis using assms by blast
qed

text \<open>A webcam question asked while WebcamCapture's video has no
  \<open>srcObject\<close>: the page finds \<open>video[autoplay]\<close>, captures a frame of width 0,
  sends an empty \<open>imageData\<close>, and the route rejects the request.\<close>

lemma webcam_empty_frame_query:
  assumes "h_child h = CWebcam" "pg_source (h_page h) = SrcWebcam" "ww_video (h_cam h)"
    "ww_src (h_cam h) = None" "br_canvas_ctx b" "br_api b = (\<lambda>body. route_post renv (ReqJson body))"
    "js_trim q \<noteq> []"
  shows "home_query b h q = Rejected (ErrorMsg ''Must provide either imageData or sessionData'')"
proof -
  have "split_comma_1 ''data:,'' = Some []" by (simp add: split_comma_1_def)
  then have "home_query b h q = post_query (home_env b h) (request_body (Some []) q ''WEBCAM'')"
    using assms(1-5) by (simp add: home_query_def home_env_def cam_frame_def handle_query_def frame_query_def)
  also have "\<dots> = Rejected (ErrorMsg ''Must provide either imageData or sessionData'')"
    using assms(6,7)
    by (simp add: post_query_def home_env_def route_post_request_body route_dispatch_def respond_400_def
        api_error_message_def)
  finally show ?thesis .
qed

lemma home_inv_webcam:
  assumes "home_inv h" "h_child h = CWebcam"
  shows "pg_source (h_page h) = SrcWebcam" "ww_mounted (h_cam h)" "wc_inv (h_cam h)"
  using assms by (simp_all add: home_inv_def)

text \<open>
  C16: After "Stop Camera" the page still finds WebcamCapture's
  \<open>video[autoplay]\<close>, whose \<open>srcObject\<close> is still the stopped stream: a
  question does not fail with the page's own "Webcam not active" but posts
  whatever frame the stopped video yields, with camera name WEBCAM.
\<close>

theorem stopped_camera_sends_stale_frame:
  assumes "home_inv h" and "h_child h = CWebcam" and "wc_active (ww_comp (h_cam h))"
    and "wc_stream (ww_comp (h_cam h)) = Some st" and "ww_src (h_cam h) = Some st"
    and "br_canvas_ctx b"
  shows "home_query b (home_step h (HCamToggle g)) q
           = post_query (home_env b (home_step h (HCamToggle g)))
               (request_body (split_comma_1 (br_stale_frame b)) q ''WEBCAM'')"
proof -
  note w = home_inv_webcam [OF assms(1,2)]
  have e: "wc_error (ww_comp (h_cam h)) = None" "ww_video (h_cam h)"
    using w(2,3) assms(3) by (simp_all add: wc_inv_def)
  have live: "st \<notin> set (filter (\<lambda>x. x \<noteq> st) (ww_live (h_cam h)))" by simp
  have "ww_video (h_cam (home_step h (HCamToggle g)))
        \<and> cam_frame b (h_cam (home_step h (HCamToggle g))) = br_stale_frame b"
    using toggle_stops [OF w(3) w(2) assms(3,4)] assms(2,5) e live
    by (simp add: cam_frame_def del: wc_step.simps)
  then show ?thesis using assms(2,6) w(1)
    by (simp add: home_query_def home_env_def handle_query_def frame_query_def)
qed

text \<open>
  C29: After a failed first camera request, a granted "Try Again" turns the
  camera on, yet a webcam question sends an empty frame and fails with the
  route's error: the new stream was never attached to the video.
\<close>

theorem try_again_query_error:
  assumes "home_inv h" and "h_child h = CWebcam" and "wc_error (ww_comp (h_cam h)) \<noteq> None"
    and "br_canvas_ctx b" and "br_api b = (\<lambda>body. route_post renv (ReqJson body))" and "js_trim q \<noteq> []"
  shows "wc_active (ww_comp (h_cam (home_step h (HCamTryAgain True))))
    \<and> home_query b (home_step h (HCamTryAgain True)) q
        = Rejected (ErrorMsg ''Must provide either imageData or sessionData'')"
proof -
  note w = home_inv_webcam [OF assms(1,2)]
  have "wc_active (ww_comp (h_cam (home_step h (HCamTryAgain True))))
    \<and> ww_video (h_cam (home_step h (HCamTryAgain True)))
    \<and> ww_src (h_cam (home_step h (HCamTryAgain True))) = None"
    using try_again_granted [OF w(3) w(2) assms(3)] assms(2)
    by (simp del: wc_step.simps)
  then show ?thesis using webcam_empty_frame_query assms(2,4-6) w(1) by simp
qed

subsection \<open>Witnesses\<close>

theorem source_switching_leaks_streams_witness:
  "length (ww_live (h_cam (home_run (home_run home_init [HSource SrcWebcam True])
       (concat (replicate 2 [HSource SrcLive False, HSource SrcWebcam True])))))
   = length (ww_live (h_cam (home_run home_init [HSource SrcWebcam True]))) + 2"
  by (rule source_switching_leaks_streams)
     (simp add: home_run_def home_init_def page_init_def unmount_child_def)

theorem stopped_camera_sends_stale_frame_witness:
  "home_query \<lparr>br_thumbnail = \<lambda>v. ThumbReadFails, br_canvas_ctx = True, br_frame = ''data:image/jpeg;base64,QUJD'', br_stale_frame = ''data:image/png;base64,AAAA'',
        br_api = \<lambda>body. route_post \<lparr>env_text_model = \<lambda>p. Inr ''text'', env_vision_model = \<lambda>i p. Inr ''A desk.'',
          env_now = ''2025-01-01T00:00:00.000Z'', env_null_destructure = ''TypeError''\<rparr> (ReqJson body)\<rparr>
     (home_step (home_run home_init [HSource SrcWebcam True]) (HCamToggle False)) ''What do you see?''
   = post_query (home_env \<lparr>br_thumbnail = \<lambda>v. ThumbReadFails, br_canvas_ctx = True, br_frame = ''data:image/jpeg;base64,QUJD'', br_stale_frame = ''data:image/png;base64,AAAA'',
        br_api = \<lambda>body. route_post \<lparr>env_text_model = \<lambda>p. Inr ''text'', env_vision_model = \<lambda>i p. Inr ''A desk.'',
          env_now = ''2025-01-01T00:00:00.000Z'', env_null_destructure = ''TypeError''\<rparr> (ReqJson body)\<rparr>
       (home_step (home_run home_init [HSource SrcWebcam True]) (HCamToggle False)))
       (request_body (Some ''AAAA'') ''What do you see?'' ''WEBCAM'')"
proof -
  have "split_comma_1 ''data:image/png;base64,AAAA'' = Some ''AAAA''" by (simp add: split_comma_1_def)
  moreover have "home_inv (home_run home_init [HSource SrcWebcam True])"
    by (rule home_run_inv [OF home_inv_init])
  ultimately show ?thesis
    using stopped_camera_sends_stale_frame [of "home_run home_init [HSource SrcWebcam True]" 0
        "\<lparr>br_thumbnail = \<lambda>v. ThumbReadFails, br_canvas_ctx = True, br_frame = ''data:image/jpeg;base64,QUJD'', br_stale_frame = ''data:image/png;base64,AAAA'',
         br_api = \<lambda>body. route_post \<lparr>env_text_model = \<lambda>p. Inr ''text'', env_vision_model = \<lambda>i p. Inr ''A desk.'',
           env_now = ''2025-01-01T00:00:00.000Z'', env_null_destructure = ''TypeError''\<rparr> (ReqJson body)\<rparr>" False "''What do you see?''"]
    by (simp add: home_run_def home_init_def page_init_def unmount_child_def wc_world_init_def wc_init_def
        start_webcam_def wc_commit_def Let_def)
qed

theorem try_again_query_error_witness:
  "wc_active (ww_comp (h_cam (home_step (home_run home_init [HSource SrcWebcam False]) (HCamTryAgain True))))
   \<and> home_query \<lparr>br_thumbnail = \<lambda>v. ThumbReadFails, br_canvas_ctx = True, br_frame = ''data:image/jpeg;base64,QUJD'', br_stale_frame = ''data:image/png;base64,AAAA'',
        br_api = \<lambda>body. route_post \<lparr>env_text_model = \<lambda>p. Inr ''text'', env_vision_model = \<lambda>i p. Inr ''A desk.'',
          env_now = ''2025-01-01T00:00:00.000Z'', env_null_destructure = ''TypeError''\<rparr> (ReqJson body)\<rparr>
     (home_step (home_run home_init [HSource SrcWebcam False]) (HCamTryAgain True)) ''Is anyone there?''
   = Rejected (ErrorMsg ''Must provide either imageData or sessionData'')"
  by (rule try_again_query_error [where renv =
        "\<lparr>env_text_model = \<lambda>p. Inr ''text'', env_vision_model = \<lambda>i p. Inr ''A desk.'',
          env_now = ''2025-01-01T00:00:00.000Z'', env_null_destructure = ''TypeError''\<rparr>"],
      rule home_run_inv [OF home_inv_init])
     (simp_all add: home_run_def home_init_def page_init_def unmount_child_def wc_world_init_def wc_init_def
        start_webcam_def wc_commit_def Let_def js_trim_def js_ws_def)

end
