(* ===== verification/App.thy ===== *)
theory App
  imports HomePage
begin

text \<open>
  The whole page (src/app/page.tsx, lines 146--233): the home composition
  of \<open>HomePage\<close> together with the one \<open>QueryInterface\<close> the page renders
  below the source component, whatever the source (line 205).  The form is
  given \<open>handleQuery\<close> as \<open>onQuery\<close> and no \<open>sessionData\<close>; its state
  survives every change of source.  \<open>app_render\<close> is what the page shows:
  the three source buttons with the active one marked, the view of the
  mounted component and the form.
\<close>

record app =
  app_home :: home
  app_form :: qi_state


datatype app_event = AppHome home_event | AppForm qi_event

text \<open>A form event runs \<open>QueryInterface\<close>'s step with the page's
  \<open>handleQuery\<close> on the document of the current page state.\<close>

fun app_step :: "browser \<Rightarrow> app \<Rightarrow> app_event \<Rightarrow> app" where
  "app_step b a (AppHome e) = a\<lparr>app_home := home_step (app_home a) e\<rparr>"
| "app_step b a (AppForm e) = a\<lparr>app_form := qi_step None (home_query b (app_home a)) (app_form a) e\<rparr>"

definition app_run :: "browser \<Rightarrow> app \<Rightarrow> app_event list \<Rightarrow> app" where
  "app_run b a es = fold (\<lambda>e a. app_step b a e) es a"

text \<open>The views of the source components and the page's view (the source
  buttons of lines 158--191 with their labels and whether each is the
  active one, the component of lines 193--203, the form of line 205).\<close>

datatype child_view = ChildSelector vs_view | ChildLive lys_view | ChildWebcam "wc_view option"

record app_view =
  av_sources :: "(string \<times> bool) list"
  av_child :: child_view
  av_form :: qi_view

definition app_render :: "app \<Rightarrow> app_view" where
  "app_render a =
     (let h = app_home a; src = pg_source (h_page h)
      in \<lparr>av_sources = [(''YouTube Videos'', src = SrcVideo), (''Live YouTube Stream'', src = SrcLive),
                        (''Your Webcam'', src = SrcWebcam)],
          av_child = (case h_child h of
                        CSelector v \<Rightarrow> ChildSelector (vs_render v)
                      | CLive l \<Rightarrow> ChildLive (lys_render l)
                      | CWebcam \<Rightarrow> ChildWebcam (wc_render (h_cam h))),
          av_form = qi_render None (app_form a)\<rparr>)"

subsection \<open>Lemmas\<close>

text \<open>A searching form without a result ignores every event: the input and
  the submit button are disabled, no suggestion and no answer is shown.\<close>

lemma qi_step_frozen:
  assumes "qi_searching s" and "qi_result s = None"
  shows "qi_step sd f s e = s"
  using assms by (cases e) (simp_all add: qi_render_def handle_submit_def Let_def)

lemma app_run_form_frozen:
  assumes "qi_searching (app_form a)" and "qi_result (app_form a) = None"
  shows "app_form (app_run b a es) = app_form a"
proof -
  have "qi_searching (app_form a') \<Longrightarrow> qi_result (app_form a') = None \<Longrightarrow>
        app_form (fold (\<lambda>e a. app_step b a e) es a') = app_form a'" for a'
  proof (induction es arbitrary: a')
    case (Cons e es)
    have "app_form (app_step b a' e) = app_form a'"
      using Cons.prems by (cases e) (simp_all add: qi_step_frozen)
    then show ?case using Cons by simp
  qed simp
  then show ?thesis using assms by (simp add: app_run_def)
qed



text \<open>The form does not belong to a source: no event of the source buttons
  or components changes what it shows, so an answer about one source stays
  on screen under the next.\<close>

lemma form_survives_source_events:
  "av_form (app_render (app_step b a (AppHome e))) = av_form (app_render a)"
  by (simp add: app_render_def Let_def)

text \<open>
  C39: For a YouTube video, a question whose request the endpoint answers
  with an error status freezes the page's form for good: the promise of
  \<open>handleQuery\<close> never settles, so the form stays searching, and no later
  event of the page (typing, suggestions, source buttons, the camera,
  another submission) changes it or sends another question.
\<close>

theorem page_query_hangs_forever:
  assumes "pg_source (h_page (app_home a)) = SrcVideo" and "pg_video (h_page (app_home a)) = Some (vid, VYouTube)"
    and "br_thumbnail b vid = ThumbDataUrl u"
    and "\<not> (200 \<le> http_status (br_api b (request_body (split_comma_1 u) (js_trim (qi_query (app_form a))) ''YouTube Video''))
           \<and> http_status (br_api b (request_body (split_comma_1 u) (js_trim (qi_query (app_form a))) ''YouTube Video'')) < 300)"
    and "js_trim (qi_query (app_form a)) \<noteq> []" and "\<not> qi_searching (app_form a)"
  shows "\<forall>es. qv_searching (av_form (app_render (app_run b (app_step b a (AppForm QiSubmit)) es)))
           \<and> app_form (app_run b (app_step b a (AppForm QiSubmit)) es) = app_form (app_step b a (AppForm QiSubmit))"
proof
  fix es
  let ?a = "app_step b a (AppForm QiSubmit)"
  have "home_query b (app_home a) (js_trim (qi_query (app_form a))) = Pending"
    using assms(1-4)
    by (simp add: home_query_def handle_query_def home_env_def thumbnail_query_def post_query_def Let_def)
  then have s: "qi_searching (app_form ?a)" "qi_result (app_form ?a) = None"
    using assms(5,6) by (simp_all add: handle_submit_def)
  then have "app_form (app_run b ?a es) = app_form ?a" by (rule app_run_form_frozen)
  then show "qv_searching (av_form (app_render (app_run b ?a es))) \<and> app_form (app_run b ?a es) = app_form ?a"
    using s(1) by (simp add: app_render_def qi_render_def Let_def)
qed

subsection \<open>Witnesses\<close>

theorem page_query_hangs_forever_witness:
  "\<forall>es. qv_searching (av_form (app_render (app_run \<lparr>br_thumbnail = \<lambda>v. ThumbDataUrl ''data:image/jpeg;base64,QUJD'', br_canvas_ctx = True, br_frame = [], br_stale_frame = [],
         br_api = \<lambda>body. route_post \<lparr>env_text_model = \<lambda>p. Inl ''quota exceeded'',
           env_vision_model = \<lambda>i p. Inl ''quota exceeded'', env_now = ''2025-01-01T00:00:00.000Z'',
           env_null_destructure = ''TypeError''\<rparr> (ReqJson body)\<rparr>
        (app_step \<lparr>br_thumbnail = \<lambda>v. ThumbDataUrl ''data:image/jpeg;base64,QUJD'', br_canvas_ctx = True, br_frame = [], br_stale_frame = [],
         br_api = \<lambda>body. route_post \<lparr>env_text_model = \<lambda>p. Inl ''quota exceeded'',
           env_vision_model = \<lambda>i p. Inl ''quota exceeded'', env_now = ''2025-01-01T00:00:00.000Z'',
           env_null_destructure = ''TypeError''\<rparr> (ReqJson body)\<rparr>
          \<lparr>app_home = home_init\<lparr>h_page := \<lparr>pg_source = SrcVideo, pg_video = Some (''dQw4w9WgXcQ'', VYouTube)\<rparr>\<rparr>,
           app_form = qi_init\<lparr>qi_query := ''What is this?''\<rparr>\<rparr> (AppForm QiSubmit)) es)))
     \<and> app_form (app_run \<lparr>br_thumbnail = \<lambda>v. ThumbDataUrl ''data:image/jpeg;base64,QUJD'', br_canvas_ctx = True, br_frame = [], br_stale_frame = [],
         br_api = \<lambda>body. route_post \<lparr>env_text_model = \<lambda>p. Inl ''quota exceeded'',
           env_vision_model = \<lambda>i p. Inl ''quota exceeded'', env_now = ''2025-01-01T00:00:00.000Z'',
           env_null_destructure = ''TypeError''\<rparr> (ReqJson body)\<rparr>
        (app_step \<lparr>br_thumbnail = \<lambda>v. ThumbDataUrl ''data:image/jpeg;base64,QUJD'', br_canvas_ctx = True, br_frame = [], br_stale_frame = [],
         br_api = \<lambda>body. route_post \<lparr>env_text_model = \<lambda>p. Inl ''quota exceeded'',
           env_vision_model = \<lambda>i p. Inl ''quota exceeded'', env_now = ''2025-01-01T00:00:00.000Z'',
           env_null_destructure = ''TypeError''\<rparr> (ReqJson body)\<rparr>
          \<lparr>app_home = home_init\<lparr>h_page := \<lparr>pg_source = SrcVideo, pg_video = Some (''dQw4w9WgXcQ'', VYouTube)\<rparr>\<rparr>,
           app_form = qi_init\<lparr>qi_query := ''What is this?''\<rparr>\<rparr> (AppForm QiSubmit)) es)
       = app_form (app_step \<lparr>br_thumbnail = \<lambda>v. ThumbDataUrl ''data:image/jpeg;base64,QUJD'', br_canvas_ctx = True, br_frame = [], br_stale_frame = [],
         br_api = \<lambda>body. route_post \<lparr>env_text_model = \<lambda>p. Inl ''quota exceeded'',
           env_vision_model = \<lambda>i p. Inl ''quota exceeded'', env_now = ''2025-01-01T00:00:00.000Z'',
           env_null_destructure = ''TypeError''\<rparr> (ReqJson body)\<rparr>
          \<lparr>app_home = home_init\<lparr>h_page := \<lparr>pg_source = SrcVideo, pg_video = Some (''dQw4w9WgXcQ'', VYouTube)\<rparr>\<rparr>,
           app_form = qi_init\<lparr>qi_query := ''What is this?''\<rparr>\<rparr> (AppForm QiSubmit))"
  using page_query_hangs_forever
    [where b = "\<lparr>br_thumbnail = \<lambda>v. ThumbDataUrl ''data:image/jpeg;base64,QUJD'', br_canvas_ctx = True, br_frame = [], br_stale_frame = [],
         br_api = \<lambda>body. route_post \<lparr>env_text_model = \<lambda>p. Inl ''quota exceeded'',
           env_vision_model = \<lambda>i p. Inl ''quota exceeded'', env_now = ''2025-01-01T00:00:00.000Z'',
           env_null_destructure = ''TypeError''\<rparr> (ReqJson body)\<rparr>"
       and a = "\<lparr>app_home = home_init\<lparr>h_page := \<lparr>pg_source = SrcVideo, pg_video = Some (''dQw4w9WgXcQ'', VYouTube)\<rparr>\<rparr>,
           app_form = qi_init\<lparr>qi_query := ''What is this?''\<rparr>\<rparr>"
       and vid = "''dQw4w9WgXcQ''" and u = "''data:image/jpeg;base64,QUJD''"]
  by (simp add: qi_init_def js_trim_def js_ws_def request_body_def split_comma_1_def route_post_json
      valid_query_def route_dispatch_def analyze_image_with_context_def analyze_image_def respond_500_def
      api_error_message_def)

end
