(* ===== verification/PublicCamera.thy ===== *)
theory PublicCamera
  imports SessionViews LiveStream
begin

text \<open>
  \<open>PublicWebcam\<close> (src/components/PublicWebcam.tsx) and the
  \<open>SessionManager\<close> it renders (src/components/SessionManager.tsx, its
  controls and buttons).  The proxy effect (lines 17--46) appends a hidden
  \<open><video>\<close> to the document and starts a one-second interval; each tick
  loads the stream's thumbnail and, once it has loaded, draws it on a canvas
  and sets the video's \<open>src\<close> to \<open>canvas.toDataURL()\<close>.  The effect's
  cleanup clears the interval and removes the video; an image that is still
  loading then writes into the removed element.  SessionManager drives the
  object-detection hook of \<open>ObjectDetection\<close> with the proxy video as its
  \<open>videoElement\<close>; \<open>startDetection\<close>'s \<open>detect\<close> closure keeps the
  element it was started with.

  Elements and intervals are numbered.  The data URL of a drawn thumbnail is
  named by the URL the image was loaded from.  The hook's events other than
  start and stop (model loading, interval ticks, resolved and rejected
  detections) are \<open>PwHookEvent\<close>; start and stop come only from the
  buttons.  Unmounting discards the components' state.  The hook has no
  unmount cleanup: an interval still running then keeps firing, and
  \<open>pw_orphans\<close> counts such intervals.
\<close>

subsection \<open>SessionManager's controls\<close>

text \<open>The controls panel (SessionManager.tsx lines 116--193): the subtitle,
  the Start button (disabled while the model loads or without a video) or the
  Stop button, the number of current detections while detecting, the first
  eight counters in property order, and the summary and export buttons,
  shown while the counters are non-empty.\<close>

datatype sm_button = SmStartButton bool | SmStopButton

record sm_panel =
  smp_subtitle :: string
  smp_button :: sm_button
  smp_status :: "nat option"
  smp_stats :: "counts option"
  smp_actions :: bool

definition sm_panel_of :: "bool \<Rightarrow> obj_hook \<Rightarrow> sm_panel" where
  "sm_panel_of has_video h =
     \<lparr>smp_subtitle = (if obj_is_loading h then ''Loading AI model...''
                      else ''Real-time object detection with YOLO/COCO-SSD''),
      smp_button = (if \<not> obj_is_detecting h then SmStartButton (\<not> (obj_is_loading h \<or> \<not> has_video))
                    else SmStopButton),
      smp_status = (if obj_is_detecting h then Some (length (obj_detections h)) else None),
      smp_stats = (if obj_is_detecting h \<and> obj_stats h \<noteq> [] then Some (take 8 (js_key_order (obj_stats h)))
                   else None),
      smp_actions = (obj_stats h \<noteq> [])\<rparr>"

text \<open>The name of the file \<open>exportSession\<close> downloads (useObjectDetection.ts
  lines 134--151); its content is the \<open>export_session\<close> object.\<close>

definition export_file_name :: "timestamp \<Rightarrow> string" where
  "export_file_name now = ''detection-session-'' @ int_str now @ ''.json''"

subsection \<open>PublicWebcam\<close>

definition thumb_prefix :: "string \<Rightarrow> string" where
  "thumb_prefix yid = ''https://i.ytimg.com/vi/'' @ yid @ ''/maxresdefault.jpg?t=''"

text \<open>The thumbnail URL of a tick (line 27).\<close>

definition thumb_url :: "string \<Rightarrow> timestamp \<Rightarrow> string" where
  "thumb_url yid t = thumb_prefix yid @ int_str t"

text \<open>The world: the props, the document's elements, the intervals, the
  mounted effect's video, interval and \<open>youtubeId\<close>, the \<open>proxyVideo\<close>
  state, each element's \<open>src\<close>, the images loading (the video their
  \<open>onload\<close> writes and their URL), \<open>sessionSummary\<close>, the hook, the element
  the running \<open>detect\<close> closure reads, the downloaded files, the orphaned
  intervals.\<close>

record pw_world =
  pw_id :: string
  pw_name :: string
  pw_body :: "nat list"
  pw_intervals :: "nat list"
  pw_next :: nat
  pw_current :: "(nat \<times> nat \<times> string) option"
  pw_proxy :: "nat option"
  pw_src :: "nat \<Rightarrow> string option"
  pw_loads :: "(nat \<times> string) list"
  pw_summary :: string
  pw_hook :: obj_hook
  pw_det_video :: "nat option"
  pw_downloads :: "(string \<times> obj_export) list"
  pw_orphans :: nat

definition pw_init :: pw_world where
  "pw_init = \<lparr>pw_id = [], pw_name = [], pw_body = [], pw_intervals = [], pw_next = 0, pw_current = None,
     pw_proxy = None, pw_src = (\<lambda>v. None), pw_loads = [], pw_summary = [], pw_hook = obj_init,
     pw_det_video = None, pw_downloads = [], pw_orphans = 0\<rparr>"

text \<open>The effect (lines 18--40) and its cleanup (lines 42--45).\<close>

definition pw_setup :: "pw_world \<Rightarrow> pw_world" where
  "pw_setup w =
     (let v = pw_next w; i = Suc (pw_next w)
      in w\<lparr>pw_body := pw_body w @ [v], pw_intervals := pw_intervals w @ [i], pw_next := Suc (Suc (pw_next w)),
           pw_current := Some (v, i, pw_id w), pw_proxy := Some v, pw_src := (pw_src w)(v := None)\<rparr>)"

definition pw_cleanup :: "pw_world \<Rightarrow> pw_world" where
  "pw_cleanup w =
     (case pw_current w of
        Some (v, i, _) \<Rightarrow> w\<lparr>pw_intervals := filter (\<lambda>x. x \<noteq> i) (pw_intervals w),
                            pw_body := filter (\<lambda>x. x \<noteq> v) (pw_body w), pw_current := None\<rparr>
      | None \<Rightarrow> w)"

text \<open>A tick of the mounted effect's interval (lines 24--27) starts loading
  the thumbnail of the \<open>youtubeId\<close> its closure captured; an image that
  loads is drawn into the closure's video if a 2D context is available
  (lines 28--37); one that fails to load does nothing.\<close>

definition pw_tick :: "timestamp \<Rightarrow> pw_world \<Rightarrow> pw_world" where
  "pw_tick t w =
     (case pw_current w of
        Some (v, i, yid) \<Rightarrow> w\<lparr>pw_loads := pw_loads w @ [(v, thumb_url yid t)]\<rparr>
      | None \<Rightarrow> w)"

definition pw_image_loaded :: "nat \<Rightarrow> bool \<Rightarrow> pw_world \<Rightarrow> pw_world" where
  "pw_image_loaded k ctx w =
     (if length (pw_loads w) \<le> k then w
      else (case pw_loads w ! k of
              (v, u) \<Rightarrow> w\<lparr>pw_loads := remove_nth k (pw_loads w),
                          pw_src := (if ctx then (pw_src w)(v \<mapsto> u) else pw_src w)\<rparr>))"

definition pw_image_error :: "nat \<Rightarrow> pw_world \<Rightarrow> pw_world" where
  "pw_image_error k w = w\<lparr>pw_loads := remove_nth k (pw_loads w)\<rparr>"

text \<open>The buttons of SessionManager: \<open>handleStart\<close> (lines 74--78) starts
  the hook on \<open>videoElement\<close>, the proxy video; \<open>handleStop\<close> (80--82);
  \<open>handleGenerateSummary\<close> (84--95), whose text \<open>handleSessionSummary\<close>
  stores (PublicWebcam lines 48--50); the export button.\<close>

definition pw_click_start :: "pw_world \<Rightarrow> pw_world" where
  "pw_click_start w =
     (case pw_proxy w of
        Some v \<Rightarrow>
          (let h' = start_detection (pw_hook w)
           in w\<lparr>pw_hook := h',
                pw_det_video := (if obj_is_detecting h' \<and> \<not> obj_is_detecting (pw_hook w) then Some v
                                 else pw_det_video w)\<rparr>)
      | None \<Rightarrow> w)"

definition pw_unmount :: "pw_world \<Rightarrow> pw_world" where
  "pw_unmount w =
     (pw_cleanup w)\<lparr>pw_proxy := None, pw_summary := [], pw_hook := obj_init, pw_det_video := None,
        pw_orphans := (if obj_interval (pw_hook w) then Suc (pw_orphans w) else pw_orphans w)\<rparr>"

datatype pw_event =
    PwMount string string
  | PwProps string string
  | PwUnmount
  | PwTick timestamp
  | PwImageLoaded nat bool
  | PwImageError nat
  | PwHookEvent obj_event
  | PwClickStart
  | PwClickStop
  | PwClickSummary "timestamp \<Rightarrow> string" timestamp
  | PwClickExport timestamp

definition hook_internal :: "obj_event \<Rightarrow> bool" where
  "hook_internal e = (case e of StartDetection \<Rightarrow> False | StopDetection \<Rightarrow> False | _ \<Rightarrow> True)"

text \<open>A mount renders with the props and runs the effect; new props
  re-render, and a new \<open>youtubeId\<close> runs the cleanup, then the effect; the
  buttons act only while shown and enabled.\<close>

fun pw_step :: "pw_world \<Rightarrow> pw_event \<Rightarrow> pw_world" where
  "pw_step w (PwMount yid nm) = (if pw_current w = None then pw_setup (w\<lparr>pw_id := yid, pw_name := nm\<rparr>) else w)"
| "pw_step w (PwProps yid nm) =
     (if pw_current w = None then w
      else if yid = pw_id w then w\<lparr>pw_name := nm\<rparr>
      else pw_setup (pw_cleanup (w\<lparr>pw_id := yid, pw_name := nm\<rparr>)))"
| "pw_step w PwUnmount = (if pw_current w = None then w else pw_unmount w)"
| "pw_step w (PwTick t) = pw_tick t w"
| "pw_step w (PwImageLoaded k ctx) = pw_image_loaded k ctx w"
| "pw_step w (PwImageError k) = pw_image_error k w"
| "pw_step w (PwHookEvent e) =
     (if pw_current w \<noteq> None \<and> hook_internal e then w\<lparr>pw_hook := obj_step (pw_hook w) e\<rparr> else w)"
| "pw_step w PwClickStart =
     (if pw_current w \<noteq> None \<and> smp_button (sm_panel_of (pw_proxy w \<noteq> None) (pw_hook w)) = SmStartButton True
      then pw_click_start w else w)"
| "pw_step w PwClickStop =
     (if pw_current w \<noteq> None \<and> smp_button (sm_panel_of (pw_proxy w \<noteq> None) (pw_hook w)) = SmStopButton
      then w\<lparr>pw_hook := stop_detection (pw_hook w)\<rparr> else w)"
| "pw_step w (PwClickSummary fmt now) =
     (if pw_current w \<noteq> None \<and> smp_actions (sm_panel_of (pw_proxy w \<noteq> None) (pw_hook w))
      then w\<lparr>pw_summary := sm_generate_summary fmt now (pw_hook w)\<rparr> else w)"
| "pw_step w (PwClickExport now) =
     (if pw_current w \<noteq> None \<and> smp_actions (sm_panel_of (pw_proxy w \<noteq> None) (pw_hook w))
      then w\<lparr>pw_downloads := pw_downloads w @ [(export_file_name now, export_session (pw_hook w) now)]\<rparr>
      else w)"

definition pw_run :: "pw_world \<Rightarrow> pw_event list \<Rightarrow> pw_world" where
  "pw_run w es = fold (\<lambda>e w. pw_step w e) es w"

text \<open>What PublicWebcam shows (lines 52--97): the player iframe, titled with
  \<open>name\<close>, the SessionManager controls over the proxy video, the summary
  panel when \<open>sessionSummary\<close> is non-empty, the info box.\<close>

record pw_view =
  pwv_iframe_src :: string
  pwv_title :: string
  pwv_panel :: sm_panel
  pwv_summary :: "string option"
  pwv_info :: string

definition pw_render :: "pw_world \<Rightarrow> pw_view option" where
  "pw_render w =
     (if pw_current w = None then None
      else Some \<lparr>pwv_iframe_src = embed_src (pw_id w), pwv_title = pw_name w,
                 pwv_panel = sm_panel_of (pw_proxy w \<noteq> None) (pw_hook w),
                 pwv_summary = (if pw_summary w = [] then None else Some (pw_summary w)),
                 pwv_info = ''Real Live CCTV: '' @ pw_name w @ '' - Streaming 24/7 with AI detection''\<rparr>)"

text \<open>What every reachable world satisfies: the document holds exactly the
  mounted effect's video and interval, the proxy is that video, the effect
  belongs to the current \<open>youtubeId\<close>, the elements the images loading
  write into are already numbered, and the proxy's \<open>src\<close> and the images loading for it are
  thumbnails of the current \<open>youtubeId\<close>.\<close>

definition pw_inv :: "pw_world \<Rightarrow> bool" where
  "pw_inv w \<longleftrightarrow>
     (case pw_current w of
        Some (v, i, yid) \<Rightarrow>
          pw_body w = [v] \<and> pw_intervals w = [i] \<and> pw_proxy w = Some v \<and> yid = pw_id w \<and> v < pw_next w
          \<and> (case pw_src w v of Some u \<Rightarrow> prefix (thumb_prefix yid) u | None \<Rightarrow> True)
          \<and> list_all (\<lambda>(v', u). v' = v \<longrightarrow> prefix (thumb_prefix yid) u) (pw_loads w)
      | None \<Rightarrow> pw_body w = [] \<and> pw_intervals w = [] \<and> pw_proxy w = None)
     \<and> list_all (\<lambda>(v', u). v' < pw_next w) (pw_loads w)"

subsection \<open>The public camera list\<close>

text \<open>src/lib/publicCameras.ts (lines 4--23): the cameras a PublicWebcam
  would be given; every \<open>youtubeId\<close> is left empty.\<close>

record public_camera =
  pc_id :: string
  pc_name :: string
  pc_youtube_id :: string
  pc_type :: string

definition public_cameras :: "public_camera list" where
  \<open>public_cameras =
     [\<lparr>pc_id = ''youtube-1'', pc_name = ''Search YouTube for: "Shibuya crossing live 24/7"'',
       pc_youtube_id = [], pc_type = ''youtube''\<rparr>,
      \<lparr>pc_id = ''youtube-2'', pc_name = ''Search YouTube for: "Times Square live 24/7"'',
       pc_youtube_id = [], pc_type = ''youtube''\<rparr>,
      \<lparr>pc_id = ''youtube-3'', pc_name = ''Search YouTube for: "Tokyo live camera"'',
       pc_youtube_id = [], pc_type = ''youtube''\<rparr>]\<close>

subsection \<open>Lemmas\<close>

lemma prefix_thumb_url [simp]: "prefix (thumb_prefix yid) (thumb_url yid t)"
  by (simp add: thumb_url_def)

lemma pw_setup_inv:
  assumes "pw_current w = None" "pw_body w = []" "pw_intervals w = []"
    "list_all (\<lambda>(v', u). v' < pw_next w) (pw_loads w)"
  shows "pw_inv (pw_setup w)"
proof -
  have "list_all (\<lambda>(v', u). v' < Suc (Suc (pw_next w))) (pw_loads w)"
    "list_all (\<lambda>(v', u). v' = pw_next w \<longrightarrow> prefix (thumb_prefix (pw_id w)) u) (pw_loads w)"
    using assms(4) by (auto simp: list_all_iff)
  then show ?thesis using assms(1-3) by (simp add: pw_inv_def pw_setup_def Let_def)
qed

lemma pw_cleanup_inv:
  "pw_inv w \<Longrightarrow> pw_current (pw_cleanup w) = None \<and> pw_body (pw_cleanup w) = [] \<and> pw_intervals (pw_cleanup w) = []
     \<and> pw_next (pw_cleanup w) = pw_next w \<and> pw_loads (pw_cleanup w) = pw_loads w
     \<and> pw_id (pw_cleanup w) = pw_id w"
  by (auto simp: pw_inv_def pw_cleanup_def split: option.splits)

lemma pw_tick_inv: "pw_inv w \<Longrightarrow> pw_inv (pw_tick t w)"
  by (auto simp: pw_inv_def pw_tick_def split: option.splits)

lemma list_all_nth_pair:
  "list_all (\<lambda>(a, b). P a b) xs \<Longrightarrow> k < length xs \<Longrightarrow> xs ! k = (a, b) \<Longrightarrow> P a b"
  by (metis (mono_tags, lifting) case_prod_conv list_all_length)

lemma pw_image_loaded_inv: "pw_inv w \<Longrightarrow> pw_inv (pw_image_loaded k ctx w)"
proof (cases "length (pw_loads w) \<le> k")
  case False
  assume inv: "pw_inv w"
  obtain v u where vu: "pw_loads w ! k = (v, u)" by fastforce
  have k: "k < length (pw_loads w)" using False by simp
  have "v < pw_next w" using inv list_all_nth_pair [OF _ k vu, of "\<lambda>v' u. v' < pw_next w"]
    by (simp add: pw_inv_def)
  moreover have "v = v0 \<Longrightarrow> prefix (thumb_prefix yid) u"
    if "list_all (\<lambda>(v', u). v' = v0 \<longrightarrow> prefix (thumb_prefix yid) u) (pw_loads w)" for v0 yid
    using list_all_nth_pair [OF that k vu] by simp
  ultimately show ?thesis using inv False vu
    by (auto simp: pw_inv_def pw_image_loaded_def list_all_remove_nth split: option.splits)
qed (simp add: pw_image_loaded_def)

lemma pw_inv_ui [simp]:
  "pw_inv (w\<lparr>pw_hook := h\<rparr>) = pw_inv w" "pw_inv (w\<lparr>pw_det_video := d\<rparr>) = pw_inv w"
  "pw_inv (w\<lparr>pw_summary := t\<rparr>) = pw_inv w" "pw_inv (w\<lparr>pw_downloads := ds\<rparr>) = pw_inv w"
  "pw_inv (w\<lparr>pw_name := nm\<rparr>) = pw_inv w"
  by (simp_all add: pw_inv_def cong: option.case_cong)

lemma pw_step_inv: "pw_inv w \<Longrightarrow> pw_inv (pw_step w e)"
proof (induction w e rule: pw_step.induct)
  case (1 w yid nm)
  show ?case
  proof (cases "pw_current w = None")
    case True
    then show ?thesis using 1 by simp (rule pw_setup_inv; simp add: pw_inv_def)
  qed (use 1 in auto)
next
  case (2 w yid nm)
  show ?case
  proof (cases "pw_current w = None \<or> yid = pw_id w")
    case False
    then show ?thesis using 2
      by simp (rule pw_setup_inv; auto simp: pw_inv_def pw_cleanup_def split: option.splits)
  qed (use 2 in \<open>auto simp: pw_inv_def\<close>)
next
  case (3 w)
  then show ?case by (auto simp: pw_inv_def pw_unmount_def pw_cleanup_def split: option.splits)
next
  case (4 w t)
  then show ?case by (simp add: pw_tick_inv)
next
  case (5 w k ctx)
  then show ?case by (simp add: pw_image_loaded_inv)
next
  case (6 w k)
  then show ?case by (auto simp: pw_inv_def pw_image_error_def list_all_remove_nth split: option.splits)
next
  case (8 w)
  then show ?case by (simp add: pw_click_start_def Let_def split: option.split)
qed simp_all

lemma pw_run_inv: "pw_inv (pw_run pw_init es)"
proof -
  have "pw_inv w \<Longrightarrow> pw_inv (fold (\<lambda>e w. pw_step w e) es w)" for w
    by (induction es arbitrary: w) (simp_all add: pw_step_inv)
  moreover have "pw_inv pw_init" by (simp add: pw_init_def pw_inv_def)
  ultimately show ?thesis by (simp add: pw_run_def)
qed

lemma pw_inv_proxy:
  assumes "pw_inv w" "pw_proxy w = Some v"
  shows "\<exists>i. pw_current w = Some (v, i, pw_id w) \<and> pw_body w = [v] \<and> v < pw_next w
    \<and> (case pw_src w v of Some u \<Rightarrow> prefix (thumb_prefix (pw_id w)) u | None \<Rightarrow> True)"
  using assms by (auto simp: pw_inv_def split: option.splits)

text \<open>PublicWebcam releases what its effect created: after an unmount no
  proxy video and no interval of it is left, whatever ids it showed.\<close>

theorem public_webcam_cleanup_complete:
  "pw_body (pw_step (pw_run pw_init es) PwUnmount) = [] \<and> pw_intervals (pw_step (pw_run pw_init es) PwUnmount) = []"
  using pw_run_inv [of es]
  by (auto simp: pw_inv_def pw_unmount_def pw_cleanup_def split: option.splits)

text \<open>C4: When the model failed to load, SessionManager enables the Start
  button under the subtitle of a working detector, and clicking it does
  nothing: \<open>startDetection\<close> returns at its guard and no error is shown.\<close>

theorem start_ignored_without_model:
  assumes "pw_current w \<noteq> None" and "pw_proxy w \<noteq> None" and "\<not> obj_is_loading (pw_hook w)"
    and "\<not> obj_model (pw_hook w)" and "\<not> obj_is_detecting (pw_hook w)"
  shows "smp_button (sm_panel_of True (pw_hook w)) = SmStartButton True
    \<and> smp_subtitle (sm_panel_of True (pw_hook w)) = ''Real-time object detection with YOLO/COCO-SSD''
    \<and> pw_step w PwClickStart = w"
  using assms by (auto simp: sm_panel_of_def pw_click_start_def start_detection_def)

text \<open>C13: SessionManager's live panel and its summary disagree within one session: after Start and two ticks resolving with batches A and B (fitting in the 1000-entry buffer) in a first session, the panel's counters show the classes of B alone (and no counters when B is empty), while the summary counts the classes of A and B and reports |A| + |B| detections.\<close>

theorem panel_disagrees_with_summary:
  assumes "obj_model s" and "\<not> obj_is_detecting s" and "obj_inflight s = []" and "obj_stats s = []"
    and "length A + length B \<le> 1000"
  shows "let h = detect_resolved 0 B t2 (interval_fires (detect_resolved 0 A t1 (sm_handle_start (Some m) s)))
         in smp_stats (sm_panel_of True h)
              = (if B = [] then None else Some (take 8 (js_key_order (counts_add [] (map pclass B)))))
          \<and> sum_counts (get_detection_summary h now None) = counts_add [] (map pclass A @ map pclass B)
          \<and> sum_total (get_detection_summary h now None) = length A + length B"
  using assms
  by (simp add: sm_handle_start_def obj_two_ticks sm_panel_of_def get_detection_summary_def
      window_filter_def counts_add_Nil_iff mk_detections_def comp_def Let_def)

theorem panel_disagrees_with_summary_witness:
  "let s = obj_init\<lparr>obj_model := True, obj_is_loading := False\<rparr>;
       A = [\<lparr>pclass = ''car'', pscore = 9 / 10, pbbox = (0, 0, 10, 10)\<rparr>];
       B = [\<lparr>pclass = ''person'', pscore = 7 / 10, pbbox = (5, 5, 10, 10)\<rparr>];
       h = detect_resolved 0 B 2000 (interval_fires (detect_resolved 0 A 1000 (sm_handle_start (Some (MediaVideo 640 480)) s)))
   in obj_model s \<and> \<not> obj_is_detecting s \<and> obj_inflight s = [] \<and> obj_stats s = [] \<and> length A + length B \<le> 1000
    \<and> smp_stats (sm_panel_of True h) = Some [(''person'', 1)]
    \<and> sum_counts (get_detection_summary h 3000 None) = [(''car'', 1), (''person'', 1)]
    \<and> sum_total (get_detection_summary h 3000 None) = 2"
  using panel_disagrees_with_summary [of "obj_init\<lparr>obj_model := True, obj_is_loading := False\<rparr>"
      "[\<lparr>pclass = ''car'', pscore = 9 / 10, pbbox = (0, 0, 10, 10)\<rparr>]"
      "[\<lparr>pclass = ''person'', pscore = 7 / 10, pbbox = (5, 5, 10, 10)\<rparr>]" 2000 1000 "MediaVideo 640 480" 3000]
  by (simp add: obj_init_def counts_add_def js_key_order_def is_array_index_def Let_def)

text \<open>
  C27: The proxy video SessionManager analyses only ever shows a thumbnail
  of the current \<open>youtubeId\<close>: an image requested for an earlier id
  writes into the video its closure captured, which the cleanup removed.
\<close>

theorem proxy_shows_current_thumbnails:
  assumes "pw_proxy (pw_run pw_init es) = Some v" and "pw_src (pw_run pw_init es) v = Some u"
  shows "prefix (thumb_prefix (pw_id (pw_run pw_init es))) u"
  using pw_inv_proxy [OF pw_run_inv assms(1)] assms(2) by auto

text \<open>
  C19: When the \<open>youtubeId\<close> of PublicWebcam changes during a detection
  session, the session keeps running on the old proxy video: the
  \<open>detect\<close> closure holds the element it was started with, which the
  effect's cleanup removed from the document and which shows, if anything,
  a thumbnail of the previous stream.
\<close>

theorem id_change_detects_removed_video:
  assumes "pw_det_video (pw_run pw_init es) = pw_proxy (pw_run pw_init es)"
    and "pw_current (pw_run pw_init es) \<noteq> None" and "obj_is_detecting (pw_hook (pw_run pw_init es))"
    and "yid \<noteq> pw_id (pw_run pw_init es)"
  shows "let w = pw_run pw_init es; w' = pw_step w (PwProps yid nm)
         in obj_is_detecting (pw_hook w') \<and> pw_proxy w' \<noteq> pw_det_video w'
            \<and> (\<exists>v. pw_det_video w' = Some v \<and> v \<notin> set (pw_body w')
                   \<and> (case pw_src w' v of Some u \<Rightarrow> prefix (thumb_prefix (pw_id w)) u | None \<Rightarrow> True))"
proof -
  let ?w = "pw_run pw_init es"
  obtain v where v: "pw_proxy ?w = Some v"
    using assms(2) pw_run_inv [of es] by (auto simp: pw_inv_def split: option.splits)
  obtain i where i: "pw_current ?w = Some (v, i, pw_id ?w)" "pw_body ?w = [v]" "v < pw_next ?w"
    "case pw_src ?w v of Some u \<Rightarrow> prefix (thumb_prefix (pw_id ?w)) u | None \<Rightarrow> True"
    using pw_inv_proxy [OF pw_run_inv v] by blast
  show ?thesis using assms(1,3,4) v i
    by (simp add: pw_setup_def pw_cleanup_def Let_def)
qed

text \<open>
  None of the listed public cameras can play: mounted in PublicWebcam,
  each gives the player the source \<open>https://www.youtube.com/embed/?...\<close>,
  from which the URL parser of LiveYouTubeStream reads no video id, and its
  thumbnail ticks request \<open>https://i.ytimg.com/vi//maxresdefault.jpg\<close>.
\<close>

theorem public_cameras_play_nothing:
  "list_all (\<lambda>c. \<exists>v. pw_render (pw_step pw_init (PwMount (pc_youtube_id c) (pc_name c))) = Some v
       \<and> pwv_iframe_src v = ''https://www.youtube.com/embed/?autoplay=1&mute=0&controls=1''
       \<and> extract_video_id (pwv_iframe_src v) = None
       \<and> pw_loads (pw_step (pw_step pw_init (PwMount (pc_youtube_id c) (pc_name c))) (PwTick t))
           = [(0, ''https://i.ytimg.com/vi//maxresdefault.jpg?t='' @ int_str t)])
     public_cameras"
proof -
  have "extract_video_id ''https://www.youtube.com/embed/?autoplay=1&mute=0&controls=1'' = None"
    by code_simp
  then show ?thesis
    by (simp add: public_cameras_def pw_render_def pw_setup_def pw_init_def embed_src_def pw_tick_def
        thumb_url_def thumb_prefix_def)
qed

subsection \<open>Witnesses\<close>

theorem start_ignored_without_model_witness:
  "let w = pw_run pw_init [PwMount ''VR-x3HdhKLQ'' ''Times Square'', PwHookEvent ModelLoadFailed]
   in smp_button (sm_panel_of True (pw_hook w)) = SmStartButton True
    \<and> smp_subtitle (sm_panel_of True (pw_hook w)) = ''Real-time object detection with YOLO/COCO-SSD''
    \<and> pw_step w PwClickStart = w"
  unfolding Let_def
  by (rule start_ignored_without_model)
     (simp_all add: pw_run_def pw_init_def pw_setup_def hook_internal_def load_model_failed_def obj_init_def)

theorem proxy_shows_current_thumbnails_witness:
  "prefix (thumb_prefix (pw_id (pw_run pw_init [PwMount ''VR-x3HdhKLQ'' ''Times Square'', PwTick 5,
      PwImageLoaded 0 True])))
     (thumb_url ''VR-x3HdhKLQ'' 5)"
  by (rule proxy_shows_current_thumbnails [where v = 0])
     (simp_all add: pw_run_def pw_init_def pw_setup_def pw_tick_def pw_image_loaded_def remove_nth_def)

theorem id_change_detects_removed_video_witness:
  "let w = pw_run pw_init [PwMount ''VR-x3HdhKLQ'' ''Times Square'', PwHookEvent ModelLoaded, PwClickStart];
       w' = pw_step w (PwProps ''1-iS7LArMPA'' ''Shibuya'')
   in obj_is_detecting (pw_hook w') \<and> pw_proxy w' \<noteq> pw_det_video w'
      \<and> (\<exists>v. pw_det_video w' = Some v \<and> v \<notin> set (pw_body w')
             \<and> (case pw_src w' v of Some u \<Rightarrow> prefix (thumb_prefix (pw_id w)) u | None \<Rightarrow> True))"
  by (rule id_change_detects_removed_video)
     (simp_all add: pw_run_def pw_init_def pw_setup_def hook_internal_def load_model_ok_def obj_init_def
        pw_click_start_def start_detection_def sm_panel_of_def Let_def)

end
