(* ===== verification/Spec2Isabelle.thy ===== *)
theory Spec2Isabelle
  imports SessionViews VideoPlayer App PublicCamera
begin

text \<open>
  \<^bold>\<open>A verification library for video-query.\<close>

  The program (src/) is a Next.js application.  Its engineering core is three
  React hooks that poll detectors and aggregate their output, and the session
  managers that drive them; around it sit the video-source selection, the
  question form and the query endpoint that forwards a frame or the session
  data to a generative model:
  \<^item> src/hooks/useObjectDetection.ts: the object-detection hook.  It keeps
    the History Buffer (\<open>detectionHistoryRef\<close>, at most 1000 detections),
    the per-class counters \<open>stats\<close>, a polling interval and an asynchronous
    detection tick, and offers a windowed summary and an export;
  \<^item> src/hooks/useAdvancedFaceDetection.ts: face identities by position
    (\<open>assignFaceId\<close>), pairwise interactions (\<open>detectInteractions\<close>) and a
    start/stop/summary surface;
  \<^item> src/hooks/useHandTracking.ts: gesture names from finger counts and a
    start/stop surface;
  \<^item> src/components/AdvancedSessionManager.tsx: the Session Controller that
    starts and stops the three hooks together, draws their overlay and writes
    the session summary; src/components/SessionManager.tsx does the same for
    the object hook alone;
  \<^item> src/components/WebcamCapture.tsx and PublicWebcam.tsx: the camera views
    hosting the two managers (PublicWebcam through a hidden proxy video fed
    with the stream's thumbnails);
  \<^item> src/components/VideoSelector.tsx and LiveYouTubeStream.tsx: the YouTube
    sources, each with its URL parser, handlers and player;
  \<^item> src/app/page.tsx and src/components/QueryInterface.tsx: the page, which
    mounts one source component at a time, its \<open>handleQuery\<close>, which
    captures a frame or a thumbnail and posts it, and the question form;
  \<^item> src/app/api/query/route.ts with src/lib/gemini.ts: the endpoint.

  \<^bold>\<open>Theories.\<close>
  \<^item> \<open>Prelude\<close>: type names (timestamps in ms as \<open>int\<close>, scores and
    coordinates as \<open>rat\<close>), the JavaScript built-ins the hooks use
    (\<open>Math.round\<close> as \<open>js_round\<close>, \<open>slice(-n)\<close> as \<open>js_slice_neg\<close>,
    number printing as \<open>nat_str\<close>/\<open>int_str\<close> with the parse round trip) and
    the JavaScript object used as a counter dictionary (\<open>counts_inc\<close>,
    \<open>counts_add\<close>, \<open>count_at\<close>, an insertion-ordered association list).
  \<^item> \<open>ObjectDetection\<close>: useObjectDetection.ts.  The hook's React state and
    refs are the record \<open>obj_hook\<close>; the tick \<open>detect\<close> is split into its
    call (\<open>interval_fires\<close>, or the call inside \<open>start_detection\<close>) and its
    continuation after \<open>await model.detect\<close> (\<open>detect_resolved\<close>,
    \<open>detect_rejected\<close>), so that calls still pending when the user stops or
    restarts are modelled; each pending call remembers the \<open>stats\<close> its
    closure captured.  \<open>obj_step\<close>/\<open>obj_run\<close> run any interleaving.
  \<^item> \<open>FaceTracking\<close>: useAdvancedFaceDetection.ts: \<open>assign_face_id\<close>
    (\<open>assignFaceId\<close>, distances compared squared, shown equal to the
    source's \<open>Math.sqrt\<close> comparison by \<open>near_iff_sqrt\<close>), \<open>detect_interactions\<close>,
    start, stop and \<open>face_get_summary\<close>, with \<open>face_step\<close>/\<open>face_run\<close>.
  \<^item> \<open>HandTracking\<close>: useHandTracking.ts: \<open>recognize_gesture\<close>,
    \<open>gesture_name\<close>, the stub \<open>count_fingers\<close>, readiness, start and stop.
  \<^item> \<open>SessionController\<close>: AdvancedSessionManager.tsx as the inductive step
    relation \<open>sess_step\<close> over the record of the three hooks, labelled by
    the kind of step (\<open>ctrl_op\<close>): the buttons
    \<open>handle_start_all\<close> (\<open>OpStart\<close>) and \<open>handle_stop_all\<close>
    (\<open>OpStop\<close>) under their enabling conditions, and the environment
    (\<open>OpEnv\<close>: the object hook's events, readiness and the video
    element), with \<open>sess_reachable\<close> and the invariant \<open>sess_inv\<close>; the
    specification's start/stop contract as the labelled abstract machine
    \<open>ctrl_spec_step\<close> over the available and running modalities, and the
    abstraction \<open>sess_abs\<close> under which every controller step is the
    contract step of the same label.
  \<^item> \<open>YouTubeId\<close>: \<open>regex_search\<close> is \<open>String.prototype.match\<close> for a
    pattern \<open>(?:a|b|...)([set]+)\<close> (leftmost position, alternatives in
    order, greedy non-empty group); \<open>extract_youtube_id\<close> and
    \<open>extract_video_id\<close> are the two parsers.
  \<^item> \<open>Json\<close>: JSON values, \<open>JSON.stringify(v, null, 2)\<close> as \<open>json_pretty\<close>
    (ECMA-262 QuoteJSONString and the object and array serialisers),
    truthiness, property reads, \<open>String(v)\<close>, \<open>trim\<close> and the key order
    of objects; a parser with fuel, \<open>json_parse_value\<close>, reads the printer's
    output back (\<open>json_parse_pretty\<close>: fuel above the value's size
    suffices), so the printer is injective (\<open>json_pretty_inj\<close>).
  \<^item> \<open>QueryRoute\<close>: \<open>route_post\<close> is the endpoint, every \<open>return\<close> and
    every path to its \<open>catch\<close> a branch; the generative model, the clock and
    the engine's \<open>TypeError\<close> message are the parameters in \<open>route_env\<close>.
  \<^item> \<open>Canvas\<close>: the 2D context as drawing state plus the list of painted
    items, with the reset that assigning \<open>canvas.width\<close> performs.
  \<^item> \<open>SessionViews\<close>: both managers' overlay effects as context
    transformers, SessionManager's render condition and canvas ref
    (\<open>sm_commit\<close>, \<open>sm_render\<close>), their handlers, and both summary texts
    (\<open>sm_summary_text\<close>, \<open>asm_summary_text\<close>, printing counters with
    \<open>json_of_counts\<close> in JavaScript's key order); the dashboard of
    AdvancedSessionManager as the data it renders (\<open>asm_dashboard\<close>).
  \<^item> \<open>Webcam\<close>: WebcamCapture as a world of the component's state, the
    running camera streams, the \<open><video>\<close> element with its
    \<open>srcObject\<close> and the mounted session manager: its handlers, the mount
    effect's cleanup closure, and \<open>wc_commit\<close>, React's render and
    commit (a \<open><video>\<close> that replaces the error panel is a new element;
    the manager's condition reads the ref of the previous commit), with the
    rendered view \<open>wc_render\<close> and the invariant \<open>wc_inv\<close>.
  \<^item> \<open>PublicCamera\<close>: PublicWebcam and the SessionManager it renders:
    the proxy effect keyed by \<open>youtubeId\<close>, the thumbnail ticks and the
    images loading into the video their closure captured, SessionManager's
    controls (\<open>sm_panel_of\<close>) and buttons over the object hook, with the
    element the running \<open>detect\<close> closure reads; \<open>pw_step\<close>,
    \<open>pw_render\<close> and the invariant \<open>pw_inv\<close>.
  \<^item> \<open>VideoPlayer\<close>: VideoPlayer.tsx (imported by no page): its handlers
    over the state and the media element, and \<open>formatTime\<close>, with its
    parse-back lemma and the \<open>isPlaying\<close> desynchronisation on a rejected
    \<open>play()\<close>.
  \<^item> \<open>QueryPage\<close>: \<open>handle_query\<close> over a \<open>page_env\<close> (the DOM, fetch,
    FileReader, canvas and the endpoint), returning a \<open>query_outcome\<close> that
    distinguishes a promise that never settles; VideoSelector's state,
    handlers, rendered screen and events (\<open>vs_render\<close>, \<open>vs_step\<close>);
    QueryInterface's \<open>handle_submit\<close>, suggestions, rendered form and
    events (\<open>qi_render\<close>, \<open>qi_step\<close>).
  \<^item> \<open>LiveStream\<close>: LiveYouTubeStream's state, \<open>handleSubmit\<close>,
    \<open>handleReset\<close>, the rendered player or form (\<open>lys_render\<close>) and
    \<open>lys_step\<close>, whose events act only through controls on screen.
  \<^item> \<open>HomePage\<close>: page.tsx as a composition: the source buttons mount
    and unmount VideoSelector, LiveYouTubeStream or WebcamCapture
    (\<open>home_step\<close>, with WebcamCapture's cleanup), and \<open>home_env\<close>
    derives from the mounted component what \<open>handleQuery\<close> finds in the
    document (the live iframe, the webcam and file videos, the frame it
    captures, \<open>cam_frame\<close>: a webcam video without \<open>srcObject\<close> gives
    the empty frame \<open>"data:,"\<close>, one showing a running stream the current
    frame, and one whose stream was stopped the frame the browser keeps for
    it, a parameter of the \<open>browser\<close> record).
  \<^item> \<open>App\<close>: the whole page: the home composition with the one
    QueryInterface the page keeps below every source (\<open>app_step\<close> sends
    a question to \<open>handleQuery\<close> on the current document), and the page's
    rendered view \<open>app_render\<close>.

  \<^bold>\<open>What is proved.\<close>
  History Buffer: the capped append keeps the last \<open>min(N, 1000)\<close>
  detections (C1), timestamps stay sorted under a monotone clock (C5).
  Counters: within a session they do not accumulate, two ticks publish the
  pre-start counters plus the second batch only while the buffer holds both
  (C3), and a restart inherits the old counters (C12); SessionManager's live
  panel therefore disagrees with its summary (C13).  Summaries: a window
  reaching back past the buffer gives the unwindowed summary (C7), the
  timeline is the last 50 rows (C8).  Session surface: stop lets pending
  ticks land (C10), and ends the polling loop: after it, at most the calls in
  flight change anything (C11, termination); without a model SessionManager
  offers Start and a click does nothing (C4, error).  Faces:
  \<open>assignFaceId\<close> returns the first tracked face at Euclidean distance
  below 100 (C14) or mints a fresh id (C15), but the tracked map is never
  written, so any run of detections gets consecutive fresh ids (C18);
  interactions are exactly the pairs closer than 300 with their messages
  (C20).  Views: SessionManager's overlay canvas is never mounted (C9).
  Controller: every reachable state satisfies \<open>sess_inv\<close> (C26); it
  refines the specification's contract event by event (C24, refinement).
  Webcam: a granted mount attaches the stream and mounts the session manager
  (C22), and so does a restart after Stop Camera (C35), but after a failed
  first request a granted Try Again leaves the new video without
  \<open>srcObject\<close> and without manager (C32), so a question sends an empty
  frame (C29); after Stop Camera a question is still sent, with the stopped
  video's frame (C16); unmounting WebcamCapture leaves the camera running
  (C23), so each webcam round trip of the page's source buttons adds a
  running stream (C34).  Page view: every reachable page shows exactly one
  active source button over that source's component (C2, invariant).
  Public camera: the proxy video only ever shows thumbnails of the current
  id (C27), but a session started before an id change keeps detecting on
  the removed proxy of the previous stream (C19).  Video player: a rejected
  \<open>play()\<close> leaves "Pause" over a paused video (C6).  URLs and players:
  extracted ids are clean substrings (C31), the URL forms round-trip (C33);
  LiveYouTubeStream's player and link give the id back (C25), and the page
  queries exactly that id (C17); Change Video leaves the page querying the
  old video (C28).  Form: the error and answer panels never show together
  (C21), and every query the form sends passes the route's checks (C30).
  Endpoint: the 400 answers are characterised (C36), the session prompt is
  exact (C37), image data overrides session data (C38).  Page: an error
  status in a thumbnail branch freezes the page's form for good, whatever
  else happens on the page (C39, liveness); a
  webcam query reaches the image model with the camera prompt (C40).
  Further lemmas: the hook invariant of reachable states
  (\<open>obj_reachable_inv\<close>), windowed counts bounded by the totals, the
  summary's count section parsing back to the counter object, and
  \<open>JSON.stringify\<close> output free of control characters but its line feeds.

  \<^bold>\<open>Modelling choices.\<close>
  JavaScript numbers are rationals (scores, coordinates, minute windows) or
  integers (counts, timestamps, the numbers a summary serialises); strings are
  lists of 8-bit characters.  \<open>Date.now()\<close> is an input of the events that
  read it, and \<open>toLocaleTimeString\<close>, being locale-dependent, is left as the
  timestamp it formats.  React state is read as committed before each event,
  except in WebcamCapture, where \<open>wc_commit\<close> models the render and commit
  because a ref read during the render matters;
  a rendered screen is a value (a datatype or record of what it shows), and
  an event acts only through a control that screen shows.  Every loop of the
  code is a structural recursion over a list; the timers are events, so a
  run is any finite interleaving.  The only fuel is that of the JSON parser
  used to state the printer's round trip; fuel above the size of the value
  read is enough (\<open>json_parse_pretty\<close>).

  \<^bold>\<open>Not modelled.\<close>
  The pixels a canvas call paints (a thumbnail drawn into the proxy video is
  named by its URL), the Blob's bytes, COCO-SSD and the face
  and hand models, the Gemini SDK, \<open>measureText\<close>, \<open>toLocaleTimeString\<close>,
  CSS classes and animations: they are I/O, layout or libraries the code only
  calls, and appear as parameters where their results matter.
  src/lib/publicCameras.ts, a constant table that no component imports, is
  modelled in \<open>PublicCamera\<close> with what PublicWebcam would show for each
  entry.  Module imports, type declarations and the object a hook returns
  are interface, not behaviour.  The export file of \<open>exportSession\<close> is modelled as the record it
  serialises, not as text: its detection scores and boxes need JSON numbers
  with fractions, which \<open>Json\<close> does not print.
\<close>

text \<open>
  The spec's scenario: a session with three object-detection ticks
  \<open>[car]\<close>, \<open>[car, person]\<close>, \<open>[]\<close>.  The spec expects lifetime counts
  \<open>{car: 2, person: 1}\<close> and a three-entry timeline.  The timeline and the
  summary counts recomputed from the History Buffer are as expected, but the
  published counters are empty: each tick recounts from the counters captured
  at start, and the last tick had no detections.
\<close>

theorem spec_scenario_lifetime_counts:
  "let s = obj_run obj_init
      [ModelLoaded, StartDetection,
       DetectResolved 0 [\<lparr>pclass = ''car'', pscore = 9 / 10, pbbox = (10, 10, 50, 30)\<rparr>] 1000,
       IntervalFires,
       DetectResolved 0 [\<lparr>pclass = ''car'', pscore = 8 / 10, pbbox = (12, 10, 50, 30)\<rparr>,
                         \<lparr>pclass = ''person'', pscore = 7 / 10, pbbox = (200, 40, 20, 60)\<rparr>] 2000,
       IntervalFires, DetectResolved 0 [] 3000]
   in obj_stats s = []
      \<and> sum_counts (get_detection_summary s 4000 None) = [(''car'', 2), (''person'', 1)]
      \<and> length (sum_timeline (get_detection_summary s 4000 None)) = 3"
  by code_simp

subsection \<open>The live stream and the page\<close>

text \<open>
  C17: LiveYouTubeStream and the page's \<open>handleQuery\<close> agree on the video:
  after the component accepts a URL, the page reads the id back from the
  player's iframe with \<open>/embed\/([^?]+)/\<close> and asks about the thumbnail of
  exactly the id the component extracted.
\<close>

theorem live_query_uses_submitted_id:
  assumes "lys_video s = None" and "extract_video_id (lys_input s) = Some i"
    and "lys_render (fst (lys_step s LysSubmit)) = LysPlayer src href"
    and "pe_live_iframe_src env = Some src" and "pg_source p = SrcLive"
  shows "handle_query env p q = thumbnail_query env i q ''Live YouTube Stream''"
proof -
  have i: "i \<noteq> [] \<and> list_all id_group_char i" by (rule extract_video_id_nonempty [OF assms(2)])
  have "lys_step s LysSubmit = (s\<lparr>lys_video := Some i\<rparr>, None)"
    using assms(1,2) by (simp add: lys_render_def lys_submit_ok)
  then have "src = embed_src i" using assms(3) i by (simp add: lys_render_def)
  have "CHR ''?'' \<notin> set i" using i by (auto simp: list_all_iff id_group_char_def)
  then have "takeWhile (\<lambda>c. c \<noteq> CHR ''?'') (i @ ''?autoplay=1&mute=0&controls=1'') = i"
    by (induction i) auto
  with i have "embed_video_id (embed_src i) = Some i"
    by (simp add: embed_video_id_def embed_src_def starts_with_def)
  with \<open>src = embed_src i\<close> show ?thesis
    using assms(4,5) by (simp add: handle_query_def)
qed

theorem live_query_uses_submitted_id_witness:
  "handle_query \<lparr>pe_live_iframe_src = Some (embed_src ''VR-x3HdhKLQ''), pe_thumbnail = \<lambda>v. ThumbReadFails,
        pe_autoplay_video = False, pe_controls_video = False, pe_canvas_ctx = False, pe_frame_url = [],
        pe_api = \<lambda>b. respond_400 ''unused''\<rparr>
     page_init ''What is happening?''
   = thumbnail_query \<lparr>pe_live_iframe_src = Some (embed_src ''VR-x3HdhKLQ''), pe_thumbnail = \<lambda>v. ThumbReadFails,
        pe_autoplay_video = False, pe_controls_video = False, pe_canvas_ctx = False, pe_frame_url = [],
        pe_api = \<lambda>b. respond_400 ''unused''\<rparr>
     ''VR-x3HdhKLQ'' ''What is happening?'' ''Live YouTube Stream''"
  by (rule live_query_uses_submitted_id
        [where s = "lys_init\<lparr>lys_input := ''https://www.youtube.com/live/VR-x3HdhKLQ''\<rparr>"
           and src = "embed_src ''VR-x3HdhKLQ''" and href = "watch_href ''VR-x3HdhKLQ''"])
     (simp add: lys_init_def, code_simp, code_simp, simp, simp add: page_init_def)

end
